theory Spec2Isabelle
  imports Main "HOL-Library.Sublist"
begin

section \<open>Values of the construct library\<close>

text \<open>
  A string handed to a construct is either a literal or an attribute of another construct
  that is only known at deployment (\<open>queue.queueArn\<close>, \<open>key.keyArn\<close>, ...). The second
  kind is kept symbolic: the identifier of the construct inside its stack and the name of
  the attribute. Construct identifiers are unique inside one stack, so an identifier stands
  for the object it names. \<open>Join\<close> is a string put together from such parts.
\<close>

datatype strval = Lit string | Tok string string | Join "strval list"

datatype Duration = Seconds int | Minutes int | Days int

fun toSeconds :: "Duration \<Rightarrow> int" where
  "toSeconds (Seconds n) = n"
| "toSeconds (Minutes n) = n * 60"
| "toSeconds (Days n) = n * 86400"

text \<open>An optional string under the truthiness test of the source language:
  \<open>undefined\<close> and the empty string are both false.\<close>

fun truthy :: "string option \<Rightarrow> bool" where
  "truthy None = False"
| "truthy (Some s) = (s \<noteq> [])"

text \<open>Decimal rendering of a whole number, as \<open>JSON.stringify\<close> and template strings give it.\<close>

function show_nat :: "nat \<Rightarrow> string" where
  "show_nat n = (if n < 10 then [char_of (48 + n)]
                 else show_nat (n div 10) @ [char_of (48 + n mod 10)])"
  by pat_completeness auto
termination
  by (relation "measure id") auto

declare show_nat.simps [simp del]

definition show_int :: "int \<Rightarrow> string" where
  "show_int i = (if i < 0 then ''-'' @ show_nat (nat (- i)) else show_nat (nat i))"

subsection \<open>Stack properties\<close>

record Environment =
  env_account :: "string option"
  env_region :: "string option"

record StackProps =
  env :: "Environment option"
  description :: "string option"
  tags :: "(string \<times> string) list option"

text \<open>\<open>Stack.account\<close>: the account of the stack's environment when one is given,
  the deployment-time pseudo parameter otherwise.\<close>

definition stack_account :: "Environment option \<Rightarrow> strval" where
  "stack_account e =
     (case e of
        None \<Rightarrow> Tok ''AWS'' ''AccountId''
      | Some ev \<Rightarrow> (case env_account ev of
                     None \<Rightarrow> Tok ''AWS'' ''AccountId''
                   | Some a \<Rightarrow> Lit a))"

subsection \<open>Resources\<close>

record Key =
  keyId :: string
  keyDescription :: string
  enableKeyRotation :: bool

definition keyArn :: "Key \<Rightarrow> strval" where
  "keyArn k = Tok (keyId k) ''keyArn''"

record DeadLetterQueue =
  dlq_queue :: string
  dlq_maxReceiveCount :: int

record Queue =
  queueId :: string
  queueName :: string
  visibilityTimeout :: "Duration option"
  retentionPeriod :: "Duration option"
  receiveMessageWaitTime :: "Duration option"
  deadLetterQueue :: "DeadLetterQueue option"
  encryptionMasterKey :: "string option"

definition queueArn :: "Queue \<Rightarrow> strval" where
  "queueArn q = Tok (queueId q) ''queueArn''"

definition queueUrl :: "Queue \<Rightarrow> strval" where
  "queueUrl q = Tok (queueId q) ''queueUrl''"

datatype Effect = ALLOW | DENY

record PolicyStatement =
  effect :: Effect
  actions :: "string list"
  resources :: "strval list"
  conditions :: "(string \<times> string \<times> strval) option"

record Role =
  roleId :: string
  roleName :: string
  assumedBy :: string
  managedPolicies :: "string list"
  inlinePolicies :: "(string \<times> PolicyStatement list) list"

definition roleArn :: "Role \<Rightarrow> strval" where
  "roleArn r = Tok (roleId r) ''roleArn''"

datatype TreatMissingData = BREACHING | NOT_BREACHING | IGNORE | MISSING

text \<open>A metric as the library hands it out: a period and a statistic that are not
  passed take the default of the metric method.\<close>

record Metric =
  metricName :: string
  metricOf :: string
  period :: Duration
  statistic :: string

datatype AlarmAction = SnsAction string

record Alarm =
  alarmId :: string
  alarmName :: string
  alarmDescription :: string
  metric :: Metric
  threshold :: int
  evaluationPeriods :: int
  treatMissingData :: "TreatMissingData option"
  alarmActions :: "AlarmAction list"
  okActions :: "AlarmAction list"

definition addAlarmAction :: "Alarm \<Rightarrow> AlarmAction \<Rightarrow> Alarm" where
  "addAlarmAction a x = a\<lparr>alarmActions := alarmActions a @ [x]\<rparr>"

definition addOkAction :: "Alarm \<Rightarrow> AlarmAction \<Rightarrow> Alarm" where
  "addOkAction a x = a\<lparr>okActions := okActions a @ [x]\<rparr>"

record Topic =
  topicId :: string
  topicName :: string
  displayName :: string
  masterKey :: "string option"

definition topicArn :: "Topic \<Rightarrow> strval" where
  "topicArn t = Tok (topicId t) ''topicArn''"

record StringParameter =
  parameterId :: string
  parameterName :: string
  stringValue :: strval
  parameterDescription :: string

text \<open>The two queue metrics are by default the maximum over five minutes.\<close>

definition metricApproximateAgeOfOldestMessage :: "Queue \<Rightarrow> Duration option \<Rightarrow> Metric" where
  "metricApproximateAgeOfOldestMessage q p =
     \<lparr>metricName = ''ApproximateAgeOfOldestMessage'', metricOf = queueId q,
      period = (case p of None \<Rightarrow> Minutes 5 | Some d \<Rightarrow> d), statistic = ''Maximum''\<rparr>"

definition metricApproximateNumberOfMessagesVisible :: "Queue \<Rightarrow> Metric" where
  "metricApproximateNumberOfMessagesVisible q =
     \<lparr>metricName = ''ApproximateNumberOfMessagesVisible'', metricOf = queueId q,
      period = Minutes 5, statistic = ''Maximum''\<rparr>"


subsection \<open>Resources of the gateway\<close>

datatype EndpointType = EDGE | REGIONAL | PRIVATE

datatype MethodLoggingLevel = OFF | ERROR | INFO

datatype SecurityPolicy = TLS_1_0 | TLS_1_2

record LambdaIntegration =
  handler :: string
  proxy :: bool
  integrationTimeout :: Duration

record ApiResource =
  pathPart :: string
  methods :: "(string \<times> LambdaIntegration) list"

record StageOptions =
  stageName :: string
  throttlingRateLimit :: int
  throttlingBurstLimit :: int
  loggingLevel :: MethodLoggingLevel
  dataTraceEnabled :: bool
  metricsEnabled :: bool

record RestApi =
  apiId :: string
  restApiName :: string
  restApiDescription :: string
  endpointTypes :: "EndpointType list"
  disableExecuteApiEndpoint :: bool
  deployOptions :: StageOptions
  apiResources :: "ApiResource list"

definition restApiId :: "RestApi \<Rightarrow> strval" where
  "restApiId a = Tok (apiId a) ''restApiId''"

definition restApiUrl :: "RestApi \<Rightarrow> strval" where
  "restApiUrl a = Tok (apiId a) ''url''"

text \<open>The two metrics of the REST API are by default the sum and the average over five
  minutes.\<close>

definition metricServerError :: "RestApi \<Rightarrow> Duration option \<Rightarrow> string option \<Rightarrow> Metric" where
  "metricServerError a p st =
     \<lparr>metricName = ''5XXError'', metricOf = apiId a,
      period = (case p of None \<Rightarrow> Minutes 5 | Some d \<Rightarrow> d),
      statistic = (case st of None \<Rightarrow> ''Sum'' | Some x \<Rightarrow> x)\<rparr>"

definition metricLatency :: "RestApi \<Rightarrow> Duration option \<Rightarrow> string option \<Rightarrow> Metric" where
  "metricLatency a p st =
     \<lparr>metricName = ''Latency'', metricOf = apiId a,
      period = (case p of None \<Rightarrow> Minutes 5 | Some d \<Rightarrow> d),
      statistic = (case st of None \<Rightarrow> ''Average'' | Some x \<Rightarrow> x)\<rparr>"

text \<open>
  A custom domain is either a resource of the stack (\<open>new DomainName\<close>) or a reference to
  one that exists outside it (\<open>DomainName.fromDomainNameAttributes\<close>). Only the first adds
  a resource. The other static \<open>from...\<close> factories (function, certificate, hosted zone)
  are references of the same kind and are kept as the values they carry.
\<close>

record DomainName =
  domainId :: string
  dn_domainName :: string
  certificate :: string
  endpointType :: EndpointType
  securityPolicy :: SecurityPolicy

record DomainNameAttributes =
  attr_domainName :: string
  domainNameAliasTarget :: string
  domainNameAliasHostedZoneId :: string

datatype IDomainName = Created DomainName | Imported DomainNameAttributes

record BasePathMapping =
  mappingId :: string
  mappingDomain :: IDomainName
  mappingRestApi :: string
  mappingBasePath :: string
  mappingStage :: string

record ARecord =
  recordId :: string
  zoneId :: string
  zoneName :: string
  recordName :: string
  aliasTarget :: string

subsection \<open>Stacks\<close>

datatype construct =
    KeyC Key
  | QueueC Queue
  | RoleC Role
  | AlarmC Alarm
  | TopicC Topic
  | ParamC StringParameter
  | RestApiC RestApi
  | DomainNameC DomainName
  | BasePathMappingC BasePathMapping
  | ARecordC ARecord

text \<open>
  The base class \<open>Stack\<close>: the identifier and the properties its constructor received,
  the stacks it was declared to depend on, the tags put on it, and \<open>children\<close>, every
  resource created in the scope of the stack, in creation order. Objects are shared in the
  source, so an alarm pushed on \<open>orderQueueAlarms\<close> and wired to the topic afterwards is
  one object; a stack record holds every construct in its state at the end of the
  constructor.
\<close>

record Stack =
  stackId :: string
  stackEnv :: "Environment option"
  stackDescription :: "string option"
  stackTags :: "(string \<times> string) list"
  dependencies :: "string list"
  children :: "construct list"

definition addDependency :: "'a Stack_scheme \<Rightarrow> 'b Stack_scheme \<Rightarrow> 'a Stack_scheme" where
  "addDependency s target = s\<lparr>dependencies := dependencies s @ [stackId target]\<rparr>"

definition stack_region :: "Environment option \<Rightarrow> strval" where
  "stack_region e =
     (case e of
        None \<Rightarrow> Tok ''AWS'' ''Region''
      | Some ev \<Rightarrow> (case env_region ev of
                     None \<Rightarrow> Tok ''AWS'' ''Region''
                   | Some r \<Rightarrow> Lit r))"

section \<open>Calls into the construct library\<close>

text \<open>
  The construct library is not part of the repository, and every call into it may throw
  on arguments it does not accept. Which arguments it accepts is a parameter of the
  model: a \<open>library\<close> says of each call whether the library goes through with it. The
  calls are the ones whose arguments depend on what the constructors are given:
  \<open>Duration.seconds\<close>, the constructor of the base class \<open>Stack\<close> (with the identifier,
  the environment, the description and the tags it receives), \<open>new\<close> of a resource (with
  the resource as its properties describe it), the static \<open>from...\<close> factories, and
  \<open>Tags.of(...).add\<close>. Calls on constants (\<open>Duration.days(7)\<close>, the metric methods,
  \<open>addAlarmAction\<close>, ...) are taken to go through, as they do in the repository's tests.
\<close>

datatype call =
    Call_Duration_seconds int
  | Call_Stack string "Environment option" "string option" "(string \<times> string) list"
  | Call_new construct
  | Call_fromFunctionName string
  | Call_fromCertificateArn string
  | Call_fromHostedZoneAttributes string string
  | Call_fromDomainNameAttributes DomainNameAttributes
  | Call_Tag string "string option"

type_synonym library = "call \<Rightarrow> bool"

text \<open>An error is one the script throws itself, with its message, or a call the library
  threw on.\<close>

datatype error = Error string | Rejected call

text \<open>Sequencing: the first error ends the computation.\<close>

definition andThen :: "error + 'a \<Rightarrow> ('a \<Rightarrow> error + 'b) \<Rightarrow> error + 'b" where
  "andThen m f = (case m of Inl e \<Rightarrow> Inl e | Inr x \<Rightarrow> f x)"

definition attempt :: "library \<Rightarrow> call \<Rightarrow> 'a \<Rightarrow> error + 'a" where
  "attempt lib c x = (if lib c then Inr x else Inl (Rejected c))"

text \<open>
  Some rejections are written out, because the library is known to make them whatever
  else it does. \<open>Duration.seconds\<close> throws on a negative amount.
\<close>

definition Duration_seconds :: "library \<Rightarrow> int \<Rightarrow> error + Duration" where
  "Duration_seconds lib n =
     (if n < 0 then Inl (Rejected (Call_Duration_seconds n))
      else attempt lib (Call_Duration_seconds n) (Seconds n))"

text \<open>
  \<open>new Queue\<close> validates the ranges of its properties: a retention period of 60 to
  1209600 seconds, a receive wait time of 0 to 20 seconds, a visibility timeout of 0 to
  43200 seconds and a maximum receive count of the dead-letter queue of 1 or more. A
  property that is not given is not validated.
\<close>

definition validateRange :: "int option \<Rightarrow> int \<Rightarrow> int option \<Rightarrow> bool" where
  "validateRange v minValue maxValue =
     (case v of
        None \<Rightarrow> True
      | Some x \<Rightarrow> minValue \<le> x \<and> (case maxValue of None \<Rightarrow> True | Some m \<Rightarrow> x \<le> m))"

definition validateProps :: "Queue \<Rightarrow> bool" where
  "validateProps q =
     (validateRange (map_option toSeconds (retentionPeriod q)) 60 (Some 1209600)
      \<and> validateRange (map_option toSeconds (receiveMessageWaitTime q)) 0 (Some 20)
      \<and> validateRange (map_option toSeconds (visibilityTimeout q)) 0 (Some 43200)
      \<and> validateRange (map_option dlq_maxReceiveCount (deadLetterQueue q)) 1 None)"

definition new_Queue :: "library \<Rightarrow> Queue \<Rightarrow> error + Queue" where
  "new_Queue lib q =
     (if \<not> validateProps q then Inl (Rejected (Call_new (QueueC q)))
      else attempt lib (Call_new (QueueC q)) q)"

text \<open>
  The constructor of \<open>Stack\<close> takes the identifier of a stack at the top of the
  application as the name of the stack and throws when that name is not a letter followed
  by letters, digits and hyphens. The library replaces a path separator in an identifier
  and derives a name of its own for an identifier of more than 128 characters before it
  tests the name; what becomes of such identifiers is left to the \<open>library\<close>.
\<close>

definition isLetter :: "char \<Rightarrow> bool" where
  "isLetter c = (c \<in> set ''ABCDEFGHIJKLMNOPQRSTUVWXYZabcdefghijklmnopqrstuvwxyz'')"

definition isDigit :: "char \<Rightarrow> bool" where
  "isDigit c = (c \<in> set ''0123456789'')"

definition legalStackName :: "string \<Rightarrow> bool" where
  "legalStackName n =
     (case n of
        [] \<Rightarrow> False
      | c # cs \<Rightarrow> isLetter c \<and> list_all (\<lambda>d. isLetter d \<or> isDigit d \<or> d = CHR ''-'') cs)"

definition illegalStackId :: "string \<Rightarrow> bool" where
  "illegalStackId sid =
     (length sid \<le> 128 \<and> CHR ''/'' \<notin> set sid \<and> \<not> legalStackName sid)"

definition new_Stack :: "library \<Rightarrow> string \<Rightarrow> 'a StackProps_scheme \<Rightarrow> error + Stack" where
  "new_Stack lib sid props =
     (if illegalStackId sid
      then Inl (Rejected (Call_Stack sid (env props) (description props)
                  (case tags props of None \<Rightarrow> [] | Some ts \<Rightarrow> ts)))
      else attempt lib
             (Call_Stack sid (env props) (description props)
                (case tags props of None \<Rightarrow> [] | Some ts \<Rightarrow> ts))
             \<lparr>stackId = sid,
              stackEnv = env props,
              stackDescription = description props,
              stackTags = (case tags props of None \<Rightarrow> [] | Some ts \<Rightarrow> ts),
              dependencies = [],
              children = []\<rparr>)"

text \<open>The other resources: \<open>new\<close> gives the resource its properties describe, if the
  library goes through with it.\<close>

definition new_Key :: "library \<Rightarrow> Key \<Rightarrow> error + Key" where
  "new_Key lib k = attempt lib (Call_new (KeyC k)) k"

definition new_Role :: "library \<Rightarrow> Role \<Rightarrow> error + Role" where
  "new_Role lib r = attempt lib (Call_new (RoleC r)) r"

definition new_Alarm :: "library \<Rightarrow> Alarm \<Rightarrow> error + Alarm" where
  "new_Alarm lib a = attempt lib (Call_new (AlarmC a)) a"

definition new_Topic :: "library \<Rightarrow> Topic \<Rightarrow> error + Topic" where
  "new_Topic lib t = attempt lib (Call_new (TopicC t)) t"

definition new_StringParameter :: "library \<Rightarrow> StringParameter \<Rightarrow> error + StringParameter" where
  "new_StringParameter lib x = attempt lib (Call_new (ParamC x)) x"

definition new_RestApi :: "library \<Rightarrow> RestApi \<Rightarrow> error + RestApi" where
  "new_RestApi lib a = attempt lib (Call_new (RestApiC a)) a"

definition new_DomainName :: "library \<Rightarrow> DomainName \<Rightarrow> error + DomainName" where
  "new_DomainName lib d = attempt lib (Call_new (DomainNameC d)) d"

definition new_BasePathMapping :: "library \<Rightarrow> BasePathMapping \<Rightarrow> error + BasePathMapping" where
  "new_BasePathMapping lib m = attempt lib (Call_new (BasePathMappingC m)) m"

definition new_ARecord :: "library \<Rightarrow> ARecord \<Rightarrow> error + ARecord" where
  "new_ARecord lib r = attempt lib (Call_new (ARecordC r)) r"

text \<open>A run of \<open>new StringParameter\<close> calls, in order.\<close>

fun new_StringParameters :: "library \<Rightarrow> StringParameter list \<Rightarrow> error + StringParameter list" where
  "new_StringParameters lib [] = Inr []"
| "new_StringParameters lib (x # xs) =
     andThen (new_StringParameter lib x) (\<lambda>y.
     andThen (new_StringParameters lib xs) (\<lambda>ys. Inr (y # ys)))"

text \<open>\<open>Tags.of(stack).add(key, value)\<close>: the tag replaces one of the same key. The value
  is optional because the script can reach the call with an undefined one, and the
  library throws on a tag without a value.\<close>

definition addTag :: "library \<Rightarrow> string \<Rightarrow> string option \<Rightarrow> 'a Stack_scheme \<Rightarrow> error + 'a Stack_scheme" where
  "addTag lib k v s =
     (case v of
        None \<Rightarrow> Inl (Rejected (Call_Tag k v))
      | Some x \<Rightarrow>
          attempt lib (Call_Tag k v)
            (s\<lparr>stackTags := filter (\<lambda>kv. fst kv \<noteq> k) (stackTags s) @ [(k, x)]\<rparr>))"

text \<open>A library that throws on nothing but the rejections written out above.\<close>

definition permissive :: library where
  "permissive c = True"



section \<open>The messaging stack (class \<open>SQSStack\<close>)\<close>

record QueueConfig =
  visibilityTimeoutSeconds :: "int option"
  maxReceiveCount :: "int option"

record SQSStackProps = StackProps +
  environment :: string
  projectName :: string
  enableEncryption :: "bool option"
  enableCostOptimization :: "bool option"
  watchTowerTopicArn :: "string option"
  orderQueueConfig :: "QueueConfig option"
  resultQueueConfig :: "QueueConfig option"

record SQSStack = Stack +
  orderQueue :: Queue
  orderDLQ :: Queue
  resultQueue :: Queue
  resultDLQ :: Queue
  queueEncryptionKey :: Key
  webhookRole :: Role
  workerRole :: Role
  feedbackRole :: Role
  queueAlertTopic :: Topic
  orderQueueAlarms :: "Alarm list"
  resultQueueAlarms :: "Alarm list"

text \<open>\<open>cfg?.field ?? dflt\<close>: the default applies when the configuration object or the
  field is missing, and only then (a supplied \<open>0\<close> is kept).\<close>

definition orElse :: "QueueConfig option \<Rightarrow> (QueueConfig \<Rightarrow> int option) \<Rightarrow> int \<Rightarrow> int" where
  "orElse cfg field dflt =
     (case cfg of
        None \<Rightarrow> dflt
      | Some c \<Rightarrow> (case field c of None \<Rightarrow> dflt | Some v \<Rightarrow> v))"

text \<open>The body of the \<open>forEach\<close> that wires an alarm to the topic.\<close>

definition wireAlarm :: "Topic \<Rightarrow> Alarm \<Rightarrow> Alarm" where
  "wireAlarm t alarm =
     addOkAction (addAlarmAction alarm (SnsAction (topicId t))) (SnsAction (topicId t))"

definition queueConfigJson :: "int \<Rightarrow> int \<Rightarrow> int \<Rightarrow> int \<Rightarrow> string" where
  \<open>queueConfigJson ov om rv rm =
     ''{"orderQueue":{"visibilityTimeout":'' @ show_int ov @
     '',"maxReceiveCount":'' @ show_int om @
     ''},"resultQueue":{"visibilityTimeout":'' @ show_int rv @
     '',"maxReceiveCount":'' @ show_int rm @ ''}}''\<close>

text \<open>
  The constructor. Each \<open>new\<close> expression and each local constant of the constructor
  body is one definition, named after the field or constant it is assigned to. It takes
  the library, the properties the constructor received and the objects created before it
  that it refers to (written with a prime), and it gives the object or the error of the
  library.
  \<open>SQSStack\<close> at the end runs them in the order of the source and stops at the first
  error.
\<close>

definition sqs_enableEncryption :: "SQSStackProps \<Rightarrow> bool" where
  "sqs_enableEncryption props = (case enableEncryption props of None \<Rightarrow> True | Some b \<Rightarrow> b)"

definition sqs_queueEncryptionKey :: "library \<Rightarrow> SQSStackProps \<Rightarrow> error + Key" where
  "sqs_queueEncryptionKey lib props =
     new_Key lib
       \<lparr>keyId = ''QueueEncryptionKey'',
        keyDescription = projectName props @ ''-'' @ environment props @ '' SQS encryption key'',
        enableKeyRotation = True\<rparr>"

definition sqs_orderDLQ :: "library \<Rightarrow> SQSStackProps \<Rightarrow> Key \<Rightarrow> error + Queue" where
  "sqs_orderDLQ lib props queueEncryptionKey' =
     new_Queue lib
       \<lparr>queueId = ''OrderDLQ'',
        queueName = projectName props @ ''-'' @ environment props @ ''-order-dlq'',
        visibilityTimeout = None,
        retentionPeriod = Some (Days 7),
        receiveMessageWaitTime = None,
        deadLetterQueue = None,
        encryptionMasterKey =
          (if sqs_enableEncryption props then Some (keyId queueEncryptionKey') else None)\<rparr>"

definition sqs_resultDLQ :: "library \<Rightarrow> SQSStackProps \<Rightarrow> Key \<Rightarrow> error + Queue" where
  "sqs_resultDLQ lib props queueEncryptionKey' =
     new_Queue lib
       \<lparr>queueId = ''ResultDLQ'',
        queueName = projectName props @ ''-'' @ environment props @ ''-result-dlq'',
        visibilityTimeout = None,
        retentionPeriod = Some (Days 7),
        receiveMessageWaitTime = None,
        deadLetterQueue = None,
        encryptionMasterKey =
          (if sqs_enableEncryption props then Some (keyId queueEncryptionKey') else None)\<rparr>"

definition sqs_orderVisibility :: "library \<Rightarrow> SQSStackProps \<Rightarrow> error + Duration" where
  "sqs_orderVisibility lib props =
     Duration_seconds lib (orElse (orderQueueConfig props) visibilityTimeoutSeconds 300)"

definition sqs_orderMaxReceive :: "SQSStackProps \<Rightarrow> int" where
  "sqs_orderMaxReceive props = orElse (orderQueueConfig props) maxReceiveCount 3"

definition sqs_orderQueue ::
  "library \<Rightarrow> SQSStackProps \<Rightarrow> Key \<Rightarrow> Queue \<Rightarrow> Duration \<Rightarrow> error + Queue" where
  "sqs_orderQueue lib props queueEncryptionKey' orderDLQ' orderVisibility =
     new_Queue lib
       \<lparr>queueId = ''OrderQueue'',
        queueName = projectName props @ ''-'' @ environment props @ ''-order'',
        visibilityTimeout = Some orderVisibility,
        retentionPeriod = Some (Days 14),
        receiveMessageWaitTime = Some (Seconds 6),
        deadLetterQueue =
          Some \<lparr>dlq_queue = queueId orderDLQ',
                dlq_maxReceiveCount = sqs_orderMaxReceive props\<rparr>,
        encryptionMasterKey =
          (if sqs_enableEncryption props then Some (keyId queueEncryptionKey') else None)\<rparr>"

definition sqs_resultVisibility :: "library \<Rightarrow> SQSStackProps \<Rightarrow> error + Duration" where
  "sqs_resultVisibility lib props =
     Duration_seconds lib (orElse (resultQueueConfig props) visibilityTimeoutSeconds 180)"

definition sqs_resultMaxReceive :: "SQSStackProps \<Rightarrow> int" where
  "sqs_resultMaxReceive props = orElse (resultQueueConfig props) maxReceiveCount 3"

definition sqs_resultQueue ::
  "library \<Rightarrow> SQSStackProps \<Rightarrow> Key \<Rightarrow> Queue \<Rightarrow> Duration \<Rightarrow> error + Queue" where
  "sqs_resultQueue lib props queueEncryptionKey' resultDLQ' resultVisibility =
     new_Queue lib
       \<lparr>queueId = ''ResultQueue'',
        queueName = projectName props @ ''-'' @ environment props @ ''-result'',
        visibilityTimeout = Some resultVisibility,
        retentionPeriod = Some (Days 7),
        receiveMessageWaitTime = Some (Seconds 6),
        deadLetterQueue =
          Some \<lparr>dlq_queue = queueId resultDLQ',
                dlq_maxReceiveCount = sqs_resultMaxReceive props\<rparr>,
        encryptionMasterKey =
          (if sqs_enableEncryption props then Some (keyId queueEncryptionKey') else None)\<rparr>"

definition sqs_webhookRole :: "library \<Rightarrow> SQSStackProps \<Rightarrow> Key \<Rightarrow> Queue \<Rightarrow> error + Role" where
  "sqs_webhookRole lib props queueEncryptionKey' orderQueue' =
     new_Role lib
       \<lparr>roleId = ''WebhookLambdaRole'',
        roleName = projectName props @ ''-'' @ environment props @ ''-webhook-role'',
        assumedBy = ''lambda.amazonaws.com'',
        managedPolicies = [''service-role/AWSLambdaBasicExecutionRole''],
        inlinePolicies =
          [(''OrderQueueProducer'',
            [\<lparr>effect = ALLOW,
              actions = [''sqs:SendMessage'', ''sqs:GetQueueAttributes'', ''sqs:GetQueueUrl''],
              resources = [queueArn orderQueue'],
              conditions =
                Some (''StringEquals'', ''aws:SourceAccount'', stack_account (env props))\<rparr>,
             \<lparr>effect = ALLOW,
              actions = [''kms:Decrypt'', ''kms:GenerateDataKey''],
              resources = [keyArn queueEncryptionKey'],
              conditions = None\<rparr>])]\<rparr>"

definition sqs_workerRole ::
  "library \<Rightarrow> SQSStackProps \<Rightarrow> Key \<Rightarrow> Queue \<Rightarrow> Queue \<Rightarrow> error + Role" where
  "sqs_workerRole lib props queueEncryptionKey' orderQueue' resultQueue' =
     new_Role lib
       \<lparr>roleId = ''WorkerLambdaRole'',
        roleName = projectName props @ ''-'' @ environment props @ ''-worker-role'',
        assumedBy = ''lambda.amazonaws.com'',
        managedPolicies = [''service-role/AWSLambdaBasicExecutionRole''],
        inlinePolicies =
          [(''DualQueueWorkerAccess'',
            [\<lparr>effect = ALLOW,
              actions = [''sqs:ReceiveMessage'', ''sqs:DeleteMessage'',
                         ''sqs:ChangeMessageVisibility'', ''sqs:GetQueueAttributes''],
              resources = [queueArn orderQueue'],
              conditions = None\<rparr>,
             \<lparr>effect = ALLOW,
              actions = [''sqs:SendMessage'', ''sqs:GetQueueAttributes''],
              resources = [queueArn resultQueue'],
              conditions = None\<rparr>,
             \<lparr>effect = ALLOW,
              actions = [''kms:Decrypt'', ''kms:GenerateDataKey''],
              resources = [keyArn queueEncryptionKey'],
              conditions = None\<rparr>])]\<rparr>"

definition sqs_feedbackRole ::
  "library \<Rightarrow> SQSStackProps \<Rightarrow> Key \<Rightarrow> Queue \<Rightarrow> Queue \<Rightarrow> error + Role" where
  "sqs_feedbackRole lib props queueEncryptionKey' orderQueue' resultQueue' =
     new_Role lib
       \<lparr>roleId = ''FeedbackLambdaRole'',
        roleName = projectName props @ ''-'' @ environment props @ ''-feedback-role'',
        assumedBy = ''lambda.amazonaws.com'',
        managedPolicies = [''service-role/AWSLambdaBasicExecutionRole''],
        inlinePolicies =
          [(''FeedbackDualQueueAccess'',
            [\<lparr>effect = ALLOW,
              actions = [''sqs:ReceiveMessage'', ''sqs:DeleteMessage'',
                         ''sqs:ChangeMessageVisibility'', ''sqs:GetQueueAttributes''],
              resources = [queueArn resultQueue'],
              conditions = None\<rparr>,
             \<lparr>effect = ALLOW,
              actions = [''sqs:SendMessage'', ''sqs:GetQueueAttributes''],
              resources = [queueArn orderQueue'],
              conditions = None\<rparr>,
             \<lparr>effect = ALLOW,
              actions = [''kms:Decrypt'', ''kms:GenerateDataKey''],
              resources = [keyArn queueEncryptionKey'],
              conditions = None\<rparr>])]\<rparr>"

definition sqs_stackName :: "SQSStackProps \<Rightarrow> string" where
  "sqs_stackName props = projectName props @ ''-'' @ environment props"

definition sqs_orderQueueAgeAlarm :: "library \<Rightarrow> SQSStackProps \<Rightarrow> Queue \<Rightarrow> error + Alarm" where
  "sqs_orderQueueAgeAlarm lib props orderQueue' =
     new_Alarm lib
       \<lparr>alarmId = ''OrderQueueAgeAlarm'',
        alarmName = sqs_stackName props @ ''-order-message-age'',
        alarmDescription = ''Order messages aging in queue'',
        metric = metricApproximateAgeOfOldestMessage orderQueue' (Some (Minutes 5)),
        threshold = 900,
        evaluationPeriods = 2,
        treatMissingData = None,
        alarmActions = [],
        okActions = []\<rparr>"

definition sqs_resultQueueAgeAlarm :: "library \<Rightarrow> SQSStackProps \<Rightarrow> Queue \<Rightarrow> error + Alarm" where
  "sqs_resultQueueAgeAlarm lib props resultQueue' =
     new_Alarm lib
       \<lparr>alarmId = ''ResultQueueAgeAlarm'',
        alarmName = sqs_stackName props @ ''-result-message-age'',
        alarmDescription = ''Result messages aging in queue'',
        metric = metricApproximateAgeOfOldestMessage resultQueue' (Some (Minutes 3)),
        threshold = 600,
        evaluationPeriods = 2,
        treatMissingData = None,
        alarmActions = [],
        okActions = []\<rparr>"

definition sqs_orderDLQAlarm :: "library \<Rightarrow> SQSStackProps \<Rightarrow> Queue \<Rightarrow> error + Alarm" where
  "sqs_orderDLQAlarm lib props orderDLQ' =
     new_Alarm lib
       \<lparr>alarmId = ''OrderDLQAlarm'',
        alarmName = sqs_stackName props @ ''-order-dlq-messages'',
        alarmDescription = ''Failed orders in Dead Letter Queue'',
        metric = metricApproximateNumberOfMessagesVisible orderDLQ',
        threshold = 1,
        evaluationPeriods = 1,
        treatMissingData = Some NOT_BREACHING,
        alarmActions = [],
        okActions = []\<rparr>"

definition sqs_resultDLQAlarm :: "library \<Rightarrow> SQSStackProps \<Rightarrow> Queue \<Rightarrow> error + Alarm" where
  "sqs_resultDLQAlarm lib props resultDLQ' =
     new_Alarm lib
       \<lparr>alarmId = ''ResultDLQAlarm'',
        alarmName = sqs_stackName props @ ''-result-dlq-messages'',
        alarmDescription = ''Failed results in Dead Letter Queue'',
        metric = metricApproximateNumberOfMessagesVisible resultDLQ',
        threshold = 1,
        evaluationPeriods = 1,
        treatMissingData = None,
        alarmActions = [],
        okActions = []\<rparr>"

definition sqs_queueAlertTopic :: "library \<Rightarrow> SQSStackProps \<Rightarrow> Key \<Rightarrow> error + Topic" where
  "sqs_queueAlertTopic lib props queueEncryptionKey' =
     new_Topic lib
       \<lparr>topicId = ''QueueAlertTopic'',
        topicName = sqs_stackName props @ ''-queue-alerts'',
        displayName = ''SQS Alerts for Watch Tower'',
        masterKey = Some (keyId queueEncryptionKey')\<rparr>"

definition sqs_parameters ::
  "library \<Rightarrow> SQSStackProps \<Rightarrow> Queue \<Rightarrow> Queue \<Rightarrow> Duration \<Rightarrow> Duration
     \<Rightarrow> Role \<Rightarrow> Role \<Rightarrow> Role \<Rightarrow> Topic \<Rightarrow> error + StringParameter list" where
  "sqs_parameters lib props orderQueue' resultQueue' orderVisibility resultVisibility
       webhookRole' workerRole' feedbackRole' queueAlertTopic' =
     new_StringParameters lib
       [\<lparr>parameterId = ''OrderQueueUrl'',
         parameterName = ''/automation/'' @ environment props @ ''/queues/order/url'',
         stringValue = queueUrl orderQueue',
         parameterDescription = ''Order Queue URL for task distribution and requeue operations''\<rparr>,
        \<lparr>parameterId = ''OrderQueueArn'',
         parameterName = ''/automation/'' @ environment props @ ''/queues/order/arn'',
         stringValue = queueArn orderQueue',
         parameterDescription = ''Order Queue ARN for IAM permissions and monitoring''\<rparr>,
        \<lparr>parameterId = ''ResultQueueUrl'',
         parameterName = ''/automation/'' @ environment props @ ''/queues/result/url'',
         stringValue = queueUrl resultQueue',
         parameterDescription = ''Result Queue URL for processing results and feedback''\<rparr>,
        \<lparr>parameterId = ''ResultQueueArn'',
         parameterName = ''/automation/'' @ environment props @ ''/queues/result/arn'',
         stringValue = queueArn resultQueue',
         parameterDescription = ''Result Queue ARN for IAM permissions and monitoring''\<rparr>,
        \<lparr>parameterId = ''QueueConfiguration'',
         parameterName = ''/automation/'' @ environment props @ ''/queues/config'',
         stringValue =
           Lit (queueConfigJson (toSeconds orderVisibility) (sqs_orderMaxReceive props)
                  (toSeconds resultVisibility) (sqs_resultMaxReceive props)),
         parameterDescription = ''Queue configuration parameters for Lambda integration''\<rparr>,
        \<lparr>parameterId = ''WebhookRoleArn'',
         parameterName = ''/automation/'' @ environment props @ ''/roles/webhook/arn'',
         stringValue = roleArn webhookRole',
         parameterDescription = ''Webhook Lambda IAM Role ARN''\<rparr>,
        \<lparr>parameterId = ''WorkerRoleArn'',
         parameterName = ''/automation/'' @ environment props @ ''/roles/worker/arn'',
         stringValue = roleArn workerRole',
         parameterDescription = ''Worker Lambda IAM Role ARN''\<rparr>,
        \<lparr>parameterId = ''FeedbackRoleArn'',
         parameterName = ''/automation/'' @ environment props @ ''/roles/feedback/arn'',
         stringValue = roleArn feedbackRole',
         parameterDescription = ''Feedback Lambda IAM Role ARN''\<rparr>,
        \<lparr>parameterId = ''QueueAlertTopicArn'',
         parameterName =
           ''/automation/'' @ environment props @ ''/monitoring/queue-alerts/topic-arn'',
         stringValue = topicArn queueAlertTopic',
         parameterDescription =
           ''SNS Topic ARN for queue alerts integration with Watch Tower''\<rparr>]"

definition SQSStack :: "library \<Rightarrow> string \<Rightarrow> SQSStackProps \<Rightarrow> error + SQSStack" where
  "SQSStack lib sid props =
     andThen (new_Stack lib sid props) (\<lambda>stack.
     andThen (sqs_queueEncryptionKey lib props) (\<lambda>queueEncryptionKey.
     andThen (sqs_orderDLQ lib props queueEncryptionKey) (\<lambda>orderDLQ.
     andThen (sqs_resultDLQ lib props queueEncryptionKey) (\<lambda>resultDLQ.
     andThen (sqs_orderVisibility lib props) (\<lambda>orderVisibility.
     andThen (sqs_orderQueue lib props queueEncryptionKey orderDLQ orderVisibility) (\<lambda>orderQueue.
     andThen (sqs_resultVisibility lib props) (\<lambda>resultVisibility.
     andThen (sqs_resultQueue lib props queueEncryptionKey resultDLQ resultVisibility) (\<lambda>resultQueue.
     andThen (sqs_webhookRole lib props queueEncryptionKey orderQueue) (\<lambda>webhookRole.
     andThen (sqs_workerRole lib props queueEncryptionKey orderQueue resultQueue) (\<lambda>workerRole.
     andThen (sqs_feedbackRole lib props queueEncryptionKey orderQueue resultQueue) (\<lambda>feedbackRole.
     andThen (sqs_orderQueueAgeAlarm lib props orderQueue) (\<lambda>orderQueueAgeAlarm.
     andThen (sqs_resultQueueAgeAlarm lib props resultQueue) (\<lambda>resultQueueAgeAlarm.
     andThen (sqs_orderDLQAlarm lib props orderDLQ) (\<lambda>orderDLQAlarm.
     andThen (sqs_resultDLQAlarm lib props resultDLQ) (\<lambda>resultDLQAlarm.
     andThen (sqs_queueAlertTopic lib props queueEncryptionKey) (\<lambda>queueAlertTopic.
     andThen (sqs_parameters lib props orderQueue resultQueue orderVisibility resultVisibility
                webhookRole workerRole feedbackRole queueAlertTopic) (\<lambda>parameters.
     Inr
       \<lparr>stackId = stackId stack,
        stackEnv = stackEnv stack,
        stackDescription = stackDescription stack,
        stackTags = stackTags stack,
        dependencies = dependencies stack,
        children =
          [KeyC queueEncryptionKey,
           QueueC orderDLQ, QueueC resultDLQ, QueueC orderQueue, QueueC resultQueue,
           RoleC webhookRole, RoleC workerRole, RoleC feedbackRole]
          @ map (AlarmC \<circ> wireAlarm queueAlertTopic)
              [orderQueueAgeAlarm, resultQueueAgeAlarm, orderDLQAlarm, resultDLQAlarm]
          @ [TopicC queueAlertTopic]
          @ map ParamC parameters,
        orderQueue = orderQueue,
        orderDLQ = orderDLQ,
        resultQueue = resultQueue,
        resultDLQ = resultDLQ,
        queueEncryptionKey = queueEncryptionKey,
        webhookRole = webhookRole,
        workerRole = workerRole,
        feedbackRole = feedbackRole,
        queueAlertTopic = queueAlertTopic,
        orderQueueAlarms =
          map (wireAlarm queueAlertTopic) [orderQueueAgeAlarm, orderDLQAlarm],
        resultQueueAlarms =
          map (wireAlarm queueAlertTopic) [resultQueueAgeAlarm, resultDLQAlarm]\<rparr>
     )))))))))))))))))"


section \<open>The gateway stack (class \<open>ApiGatewayStack\<close>)\<close>

record Throttling =
  rateLimit :: "int option"
  burstLimit :: "int option"

record ApiGatewayStackProps = StackProps +
  api_environment :: string
  api_projectName :: string
  lambdaFunctionName :: string
  certificateArn :: string
  hostedZoneId :: string
  hostedZoneName :: string
  domainName :: string
  basePath :: string
  throttling :: "Throttling option"
  existingDomainRegionalDomainName :: "string option"
  existingDomainRegionalHostedZoneId :: "string option"
  createDnsRecord :: "bool option"

record ApiGatewayStack = Stack +
  restApi :: RestApi
  customDomain :: IDomainName
  dnsRecord :: "ARecord option"
  apiAlertTopic :: Topic
  apiAlarms :: "Alarm list"

text \<open>
  The constructor is laid out as the one of the messaging stack: one definition for each
  \<open>new\<close> expression and local constant, run in order by \<open>ApiGatewayStack\<close>.
\<close>

text \<open>\<open>Arn.format({service, resource, resourceName}, stack)\<close>: partition, region and
  account are those of the stack.\<close>

definition Arn_format :: "string \<Rightarrow> strval \<Rightarrow> string \<Rightarrow> Environment option \<Rightarrow> strval" where
  "Arn_format service resource resourceName e =
     Join [Lit ''arn:'', Tok ''AWS'' ''Partition'', Lit ('':'' @ service @ '':''),
           stack_region e, Lit '':'', stack_account e, Lit '':'',
           resource, Lit (''/'' @ resourceName)]"

definition gw_createDnsRecord :: "ApiGatewayStackProps \<Rightarrow> bool" where
  "gw_createDnsRecord props = (case createDnsRecord props of None \<Rightarrow> True | Some b \<Rightarrow> b)"

definition gw_stackName :: "ApiGatewayStackProps \<Rightarrow> string" where
  "gw_stackName props = api_projectName props @ ''-'' @ api_environment props"

definition gw_rateLimit :: "ApiGatewayStackProps \<Rightarrow> int" where
  "gw_rateLimit props =
     (case throttling props of
        None \<Rightarrow> 10
      | Some t \<Rightarrow> (case rateLimit t of None \<Rightarrow> 10 | Some r \<Rightarrow> r))"

definition gw_burstLimit :: "ApiGatewayStackProps \<Rightarrow> int" where
  "gw_burstLimit props =
     (case throttling props of
        None \<Rightarrow> 25
      | Some t \<Rightarrow> (case burstLimit t of None \<Rightarrow> 25 | Some b \<Rightarrow> b))"

text \<open>The function is referred to by its name.\<close>

definition gw_lambdaFunction :: "library \<Rightarrow> ApiGatewayStackProps \<Rightarrow> error + string" where
  "gw_lambdaFunction lib props =
     attempt lib (Call_fromFunctionName (lambdaFunctionName props)) (lambdaFunctionName props)"

definition gw_lambdaIntegration :: "string \<Rightarrow> LambdaIntegration" where
  "gw_lambdaIntegration lambdaFunction =
     \<lparr>handler = lambdaFunction, proxy = True, integrationTimeout = Seconds 29\<rparr>"

text \<open>The REST API with the resource and the method added to it after its creation.\<close>

definition gw_restApi :: "library \<Rightarrow> ApiGatewayStackProps \<Rightarrow> string \<Rightarrow> error + RestApi" where
  "gw_restApi lib props lambdaFunction =
     new_RestApi lib
       \<lparr>apiId = ''RestApi'',
        restApiName = api_projectName props @ ''-telegram-bot-api-'' @ api_environment props,
        restApiDescription = ''Telegram bot API Gateway for '' @ api_environment props,
        endpointTypes = [REGIONAL],
        disableExecuteApiEndpoint = True,
        deployOptions =
          \<lparr>stageName = api_environment props,
           throttlingRateLimit = gw_rateLimit props,
           throttlingBurstLimit = gw_burstLimit props,
           loggingLevel = INFO,
           dataTraceEnabled = False,
           metricsEnabled = True\<rparr>,
        apiResources =
          [\<lparr>pathPart = ''qlibin-assistant-listener'',
            methods = [(''POST'', gw_lambdaIntegration lambdaFunction)]\<rparr>]\<rparr>"

text \<open>Inside the test of the two import fields both are defined, so \<open>the\<close> reads a
  value that is there.\<close>

definition gw_customDomain :: "library \<Rightarrow> ApiGatewayStackProps \<Rightarrow> error + IDomainName" where
  "gw_customDomain lib props =
     (if truthy (existingDomainRegionalDomainName props)
         \<and> truthy (existingDomainRegionalHostedZoneId props)
      then
        andThen
          (attempt lib
             (Call_fromDomainNameAttributes
                \<lparr>attr_domainName = domainName props,
                 domainNameAliasTarget = the (existingDomainRegionalDomainName props),
                 domainNameAliasHostedZoneId = the (existingDomainRegionalHostedZoneId props)\<rparr>)
             \<lparr>attr_domainName = domainName props,
              domainNameAliasTarget = the (existingDomainRegionalDomainName props),
              domainNameAliasHostedZoneId = the (existingDomainRegionalHostedZoneId props)\<rparr>)
          (\<lambda>attrs. Inr (Imported attrs))
      else
        andThen
          (attempt lib (Call_fromCertificateArn (certificateArn props)) (certificateArn props))
          (\<lambda>certificate'.
             andThen
               (new_DomainName lib
                  \<lparr>domainId = ''CustomDomain'',
                   dn_domainName = domainName props,
                   certificate = certificate',
                   endpointType = REGIONAL,
                   securityPolicy = TLS_1_2\<rparr>)
               (\<lambda>d. Inr (Created d))))"

definition gw_basePathMapping ::
  "library \<Rightarrow> ApiGatewayStackProps \<Rightarrow> RestApi \<Rightarrow> IDomainName \<Rightarrow> error + BasePathMapping" where
  "gw_basePathMapping lib props restApi' customDomain' =
     new_BasePathMapping lib
       \<lparr>mappingId = ''BasePathMapping'',
        mappingDomain = customDomain',
        mappingRestApi = apiId restApi',
        mappingBasePath = basePath props,
        mappingStage = stageName (deployOptions restApi')\<rparr>"

definition gw_dnsRecord :: "library \<Rightarrow> ApiGatewayStackProps \<Rightarrow> error + ARecord option" where
  "gw_dnsRecord lib props =
     (if gw_createDnsRecord props \<and> \<not> truthy (existingDomainRegionalDomainName props)
      then
        andThen
          (attempt lib (Call_fromHostedZoneAttributes (hostedZoneId props) (hostedZoneName props))
             (hostedZoneId props, hostedZoneName props))
          (\<lambda>hostedZone.
             andThen
               (new_ARecord lib
                  \<lparr>recordId = ''ApiAliasRecord'',
                   zoneId = fst hostedZone,
                   zoneName = snd hostedZone,
                   recordName = domainName props,
                   aliasTarget = ''CustomDomain''\<rparr>)
               (\<lambda>r. Inr (Some r)))
      else Inr None)"

definition gw_apiAlertTopic :: "library \<Rightarrow> ApiGatewayStackProps \<Rightarrow> error + Topic" where
  "gw_apiAlertTopic lib props =
     new_Topic lib
       \<lparr>topicId = ''ApiAlertTopic'',
        topicName = gw_stackName props @ ''-api-alerts'',
        displayName = ''API Gateway Alerts'',
        masterKey = None\<rparr>"

definition gw_error5xxAlarm :: "library \<Rightarrow> ApiGatewayStackProps \<Rightarrow> RestApi \<Rightarrow> error + Alarm" where
  "gw_error5xxAlarm lib props restApi' =
     new_Alarm lib
       \<lparr>alarmId = ''Api5XXErrorAlarm'',
        alarmName = gw_stackName props @ ''-api-5xx-errors'',
        alarmDescription = ''API Gateway 5XX errors detected'',
        metric = metricServerError restApi' (Some (Minutes 5)) (Some ''Sum''),
        threshold = 5,
        evaluationPeriods = 2,
        treatMissingData = Some NOT_BREACHING,
        alarmActions = [],
        okActions = []\<rparr>"

definition gw_latencyAlarm :: "library \<Rightarrow> ApiGatewayStackProps \<Rightarrow> RestApi \<Rightarrow> error + Alarm" where
  "gw_latencyAlarm lib props restApi' =
     new_Alarm lib
       \<lparr>alarmId = ''ApiLatencyAlarm'',
        alarmName = gw_stackName props @ ''-api-latency'',
        alarmDescription = ''API Gateway latency exceeds threshold'',
        metric = metricLatency restApi' (Some (Minutes 5)) (Some ''p95''),
        threshold = 5000,
        evaluationPeriods = 3,
        treatMissingData = Some NOT_BREACHING,
        alarmActions = [],
        okActions = []\<rparr>"

definition gw_sourceArn :: "ApiGatewayStackProps \<Rightarrow> RestApi \<Rightarrow> strval" where
  "gw_sourceArn props restApi' =
     Arn_format ''execute-api'' (restApiId restApi') ''*'' (env props)"

definition gw_parameters ::
  "library \<Rightarrow> ApiGatewayStackProps \<Rightarrow> RestApi \<Rightarrow> strval \<Rightarrow> error + StringParameter list" where
  "gw_parameters lib props restApi' sourceArn =
     new_StringParameters lib
       [\<lparr>parameterId = ''RestApiId'',
         parameterName = ''/automation/'' @ api_environment props @ ''/api-gateway/rest-api-id'',
         stringValue = restApiId restApi',
         parameterDescription = ''REST API ID for API Gateway''\<rparr>,
        \<lparr>parameterId = ''RestApiUrl'',
         parameterName = ''/automation/'' @ api_environment props @ ''/api-gateway/rest-api-url'',
         stringValue = restApiUrl restApi',
         parameterDescription = ''REST API URL (execute-api endpoint)''\<rparr>,
        \<lparr>parameterId = ''DomainNameParam'',
         parameterName = ''/automation/'' @ api_environment props @ ''/api-gateway/domain-name'',
         stringValue = Lit (domainName props),
         parameterDescription = ''Custom domain name for API Gateway''\<rparr>,
        \<lparr>parameterId = ''StageName'',
         parameterName = ''/automation/'' @ api_environment props @ ''/api-gateway/stage-name'',
         stringValue = Lit (api_environment props),
         parameterDescription = ''API Gateway stage name''\<rparr>,
        \<lparr>parameterId = ''SourceArn'',
         parameterName = ''/automation/'' @ api_environment props @ ''/api-gateway/source-arn'',
         stringValue = sourceArn,
         parameterDescription =
           ''API Gateway source ARN for Lambda resource-based permissions''\<rparr>]"

definition ApiGatewayStack ::
  "library \<Rightarrow> string \<Rightarrow> ApiGatewayStackProps \<Rightarrow> error + ApiGatewayStack" where
  "ApiGatewayStack lib sid props =
     andThen (new_Stack lib sid props) (\<lambda>stack.
     andThen (gw_lambdaFunction lib props) (\<lambda>lambdaFunction.
     andThen (gw_restApi lib props lambdaFunction) (\<lambda>restApi.
     andThen (gw_customDomain lib props) (\<lambda>customDomain.
     andThen (gw_basePathMapping lib props restApi customDomain) (\<lambda>basePathMapping.
     andThen (gw_dnsRecord lib props) (\<lambda>dnsRecord.
     andThen (gw_apiAlertTopic lib props) (\<lambda>apiAlertTopic.
     andThen (gw_error5xxAlarm lib props restApi) (\<lambda>error5xxAlarm.
     andThen (gw_latencyAlarm lib props restApi) (\<lambda>latencyAlarm.
     andThen (gw_parameters lib props restApi (gw_sourceArn props restApi)) (\<lambda>parameters.
     Inr
       \<lparr>stackId = stackId stack,
        stackEnv = stackEnv stack,
        stackDescription = stackDescription stack,
        stackTags = stackTags stack,
        dependencies = dependencies stack,
        children =
          [RestApiC restApi]
          @ (case customDomain of Created d \<Rightarrow> [DomainNameC d] | Imported _ \<Rightarrow> [])
          @ [BasePathMappingC basePathMapping]
          @ (case dnsRecord of Some r \<Rightarrow> [ARecordC r] | None \<Rightarrow> [])
          @ [TopicC apiAlertTopic]
          @ map (AlarmC \<circ> wireAlarm apiAlertTopic) [error5xxAlarm, latencyAlarm]
          @ map ParamC parameters,
        restApi = restApi,
        customDomain = customDomain,
        dnsRecord = dnsRecord,
        apiAlertTopic = apiAlertTopic,
        apiAlarms = map (wireAlarm apiAlertTopic) [error5xxAlarm, latencyAlarm]\<rparr>
     ))))))))))"


section \<open>The application entry point (\<open>bin/tg-assistant-infra.ts\<close>)\<close>

record EnvConfig =
  account :: string
  region :: string
  envName :: string
  cfg_tags :: "(string \<times> string) list option"
  cfg_certificateArn :: "string option"
  cfg_hostedZoneId :: "string option"
  cfg_hostedZoneName :: "string option"
  cfg_domainName :: "string option"
  cfg_existingDomainRegionalDomainName :: "string option"
  cfg_existingDomainRegionalHostedZoneId :: "string option"

text \<open>
  What the script reads: four values of the application context and one variable of the
  process environment. The registry \<open>environments\<close> is an object; it is kept as the list
  of its entries in key order, each key once.
\<close>

record Invocation =
  ctx_environment :: "string option"
  ctx_ENV_NAME :: "string option"
  ctx_environments :: "(string \<times> EnvConfig) list option"
  ctx_defaultEnvironment :: "string option"
  AWS_ACCOUNT_ID :: "string option"

text \<open>
  \<open>environments[name]\<close> reads a property of an object. It finds an entry of the registry
  under its key; under a name that is no key of the registry but a member every object
  inherits, it finds that member, which is truthy and has none of the fields of a
  configuration; under any other name it finds nothing.
\<close>

datatype entry = Entry EnvConfig | Inherited

definition inheritedMembers :: "string list" where
  "inheritedMembers =
     [''constructor'', ''__defineGetter__'', ''__defineSetter__'', ''hasOwnProperty'',
      ''__lookupGetter__'', ''__lookupSetter__'', ''isPrototypeOf'',
      ''propertyIsEnumerable'', ''toString'', ''valueOf'', ''__proto__'',
      ''toLocaleString'']"

definition lookupEnvironment :: "(string \<times> EnvConfig) list \<Rightarrow> string \<Rightarrow> entry option" where
  "lookupEnvironment environments name =
     (case map_of environments name of
        Some c \<Rightarrow> Some (Entry c)
      | None \<Rightarrow> if name \<in> set inheritedMembers then Some Inherited else None)"

text \<open>The fields of what was found; a field that is not there reads as undefined.\<close>

definition entry_account :: "entry \<Rightarrow> string option" where
  "entry_account e = (case e of Entry c \<Rightarrow> Some (account c) | Inherited \<Rightarrow> None)"

definition entry_region :: "entry \<Rightarrow> string option" where
  "entry_region e = (case e of Entry c \<Rightarrow> Some (region c) | Inherited \<Rightarrow> None)"

definition entry_envName :: "entry \<Rightarrow> string option" where
  "entry_envName e = (case e of Entry c \<Rightarrow> Some (envName c) | Inherited \<Rightarrow> None)"

definition entry_tags :: "entry \<Rightarrow> (string \<times> string) list option" where
  "entry_tags e = (case e of Entry c \<Rightarrow> cfg_tags c | Inherited \<Rightarrow> None)"

text \<open>A value inside a template string.\<close>

definition str :: "string option \<Rightarrow> string" where
  "str v = (case v of None \<Rightarrow> ''undefined'' | Some x \<Rightarrow> x)"

text \<open>
  The application: the stacks in its scope. A stack is in the scope of the application
  from the start of its constructor; one whose constructor threw is \<open>Unfinished\<close>, and
  the resources it had by then are not recorded.
\<close>

datatype StackC = SQS SQSStack | Api ApiGatewayStack | Unfinished string

record App =
  stacks :: "StackC list"

definition new_App :: App where
  "new_App = \<lparr>stacks = []\<rparr>"

definition addStack :: "StackC \<Rightarrow> App \<Rightarrow> App" where
  "addStack st app = app\<lparr>stacks := stacks app @ [st]\<rparr>"

fun join :: "string \<Rightarrow> string list \<Rightarrow> string" where
  "join sep [] = []"
| "join sep [x] = x"
| "join sep (x # y # ys) = x @ sep @ join sep (y # ys)"

definition resolvedEnvName :: "Invocation \<Rightarrow> string" where
  "resolvedEnvName inp =
    (let environmentName =
           (case ctx_environment inp of Some e \<Rightarrow> Some e | None \<Rightarrow> ctx_ENV_NAME inp)
     in case environmentName of
          Some n \<Rightarrow> n
        | None \<Rightarrow> (case ctx_defaultEnvironment inp of Some d \<Rightarrow> d | None \<Rightarrow> ''dev''))"

text \<open>The optional account sanity check: the error it throws, if any.\<close>

definition accountCheck :: "string option \<Rightarrow> entry \<Rightarrow> string \<Rightarrow> error option" where
  "accountCheck providedAccountId envCfg resolved =
    (case providedAccountId of
       None \<Rightarrow> None
     | Some p \<Rightarrow>
         if p \<noteq> [] \<and> Some p \<noteq> entry_account envCfg
         then Some (Error (''AWS account mismatch: AWS_ACCOUNT_ID='' @ p
                @ '' does not match CDK context account='' @ str (entry_account envCfg)
                @ '' for environment '' @ [CHR 0x27] @ resolved @ [CHR 0x27] @ ''.''))
         else None)"

text \<open>The guard of the gateway stack: the four fields are all truthy.\<close>

definition gatewayConfigured :: "EnvConfig \<Rightarrow> bool" where
  "gatewayConfigured envCfg =
    (truthy (cfg_certificateArn envCfg) \<and> truthy (cfg_hostedZoneId envCfg)
     \<and> truthy (cfg_hostedZoneName envCfg) \<and> truthy (cfg_domainName envCfg))"

text \<open>
  The properties the script passes to the two constructors. The messaging stack uses its
  environment name inside template strings only, so an undefined one is passed as the
  string it is rendered as. Inside the guard of the gateway stack the four fields are
  defined, so \<open>the\<close> reads a value that is there.
\<close>

definition sqsStack_props :: "entry \<Rightarrow> SQSStackProps" where
  "sqsStack_props envCfg =
     \<lparr>env = Some \<lparr>env_account = entry_account envCfg, env_region = entry_region envCfg\<rparr>,
      description =
        Some (''Dual SQS queues for TG Assistant ('' @ str (entry_envName envCfg) @ '')''),
      tags = Some (case entry_tags envCfg of None \<Rightarrow> [] | Some ts \<Rightarrow> ts),
      environment = str (entry_envName envCfg),
      projectName = ''tg-assistant'',
      enableEncryption = None,
      enableCostOptimization = None,
      watchTowerTopicArn = None,
      orderQueueConfig = None,
      resultQueueConfig = None\<rparr>"

definition apiGatewayStack_props :: "EnvConfig \<Rightarrow> ApiGatewayStackProps" where
  "apiGatewayStack_props envCfg =
     \<lparr>env = Some \<lparr>env_account = Some (account envCfg), env_region = Some (region envCfg)\<rparr>,
      description = Some (''API Gateway for TG Assistant ('' @ envName envCfg @ '')''),
      tags = Some (case cfg_tags envCfg of None \<Rightarrow> [] | Some ts \<Rightarrow> ts),
      api_environment = envName envCfg,
      api_projectName = ''tg-assistant'',
      lambdaFunctionName = ''telegram-webhook-lambda-'' @ envName envCfg,
      certificateArn = the (cfg_certificateArn envCfg),
      hostedZoneId = the (cfg_hostedZoneId envCfg),
      hostedZoneName = the (cfg_hostedZoneName envCfg),
      domainName = the (cfg_domainName envCfg),
      basePath = envName envCfg,
      throttling = None,
      existingDomainRegionalDomainName = cfg_existingDomainRegionalDomainName envCfg,
      existingDomainRegionalHostedZoneId = cfg_existingDomainRegionalHostedZoneId envCfg,
      createDnsRecord = Some False\<rparr>"

text \<open>
  The part of the script after the checks. It gives the error thrown, if any, and the
  application as it stands when the script ends or throws. The gateway part comes second;
  an inherited member has none of the four fields of the guard.
\<close>

definition buildGateway ::
  "library \<Rightarrow> entry \<Rightarrow> SQSStack \<Rightarrow> App \<Rightarrow> error option \<times> App" where
  "buildGateway lib envCfg sqsStack app =
    (case envCfg of
       Inherited \<Rightarrow> (None, app)
     | Entry c \<Rightarrow>
         if gatewayConfigured c
         then
           (case ApiGatewayStack lib (''ApiGatewayStack-'' @ envName c)
                   (apiGatewayStack_props c) of
              Inl e \<Rightarrow> (Some e, addStack (Unfinished (''ApiGatewayStack-'' @ envName c)) app)
            | Inr apiGatewayStack \<Rightarrow>
                (case addTag lib ''app'' (Some ''telegram-webhook'')
                        (addDependency apiGatewayStack sqsStack) of
                   Inl e \<Rightarrow>
                     (Some e, addStack (Api (addDependency apiGatewayStack sqsStack)) app)
                 | Inr tagged \<Rightarrow>
                     (case addTag lib ''env'' (Some (envName c)) tagged of
                        Inl e \<Rightarrow> (Some e, addStack (Api tagged) app)
                      | Inr tagged' \<Rightarrow> (None, addStack (Api tagged') app))))
         else (None, app))"

definition buildStacks :: "library \<Rightarrow> entry \<Rightarrow> App \<Rightarrow> error option \<times> App" where
  "buildStacks lib envCfg app =
    (case SQSStack lib (''DualQueueMessageStack-'' @ str (entry_envName envCfg))
            (sqsStack_props envCfg) of
       Inl e \<Rightarrow>
         (Some e,
          addStack (Unfinished (''DualQueueMessageStack-'' @ str (entry_envName envCfg))) app)
     | Inr sqsStack \<Rightarrow>
         (case addTag lib ''app'' (Some ''telegram-webhook'') sqsStack of
            Inl e \<Rightarrow> (Some e, addStack (SQS sqsStack) app)
          | Inr tagged \<Rightarrow>
              (case addTag lib ''env'' (entry_envName envCfg) tagged of
                 Inl e \<Rightarrow> (Some e, addStack (SQS tagged) app)
               | Inr tagged' \<Rightarrow>
                   buildGateway lib envCfg tagged' (addStack (SQS tagged') app))))"

text \<open>The script as a whole.\<close>

definition main :: "library \<Rightarrow> Invocation \<Rightarrow> error option \<times> App" where
  "main lib inp =
    (let app = new_App in
     case ctx_environments inp of
       None \<Rightarrow>
         (Some (Error ''CDK context missing. Ensure cdk.json has context.environments configured.''),
          app)
     | Some environments \<Rightarrow>
         if length (map fst environments) = 0
         then
           (Some (Error ''CDK context missing. Ensure cdk.json has context.environments configured.''),
            app)
         else
           (case lookupEnvironment environments (resolvedEnvName inp) of
              None \<Rightarrow>
                (Some (Error (''Unknown environment '' @ [CHR 0x27] @ resolvedEnvName inp
                   @ [CHR 0x27] @ ''. Available: '' @ join '', '' (map fst environments))),
                 app)
            | Some envCfg \<Rightarrow>
                (case accountCheck (AWS_ACCOUNT_ID inp) envCfg (resolvedEnvName inp) of
                   Some e \<Rightarrow> (Some e, app)
                 | None \<Rightarrow> buildStacks lib envCfg app)))"

section \<open>Reading a constructed graph\<close>

fun alarmsOf :: "construct list \<Rightarrow> Alarm list" where
  "alarmsOf [] = []"
| "alarmsOf (AlarmC a # cs) = a # alarmsOf cs"
| "alarmsOf (_ # cs) = alarmsOf cs"

fun topicsOf :: "construct list \<Rightarrow> Topic list" where
  "topicsOf [] = []"
| "topicsOf (TopicC t # cs) = t # topicsOf cs"
| "topicsOf (_ # cs) = topicsOf cs"

fun queuesOf :: "construct list \<Rightarrow> Queue list" where
  "queuesOf [] = []"
| "queuesOf (QueueC q # cs) = q # queuesOf cs"
| "queuesOf (_ # cs) = queuesOf cs"

fun parametersOf :: "construct list \<Rightarrow> StringParameter list" where
  "parametersOf [] = []"
| "parametersOf (ParamC x # cs) = x # parametersOf cs"
| "parametersOf (_ # cs) = parametersOf cs"

fun domainsOf :: "construct list \<Rightarrow> DomainName list" where
  "domainsOf [] = []"
| "domainsOf (DomainNameC d # cs) = d # domainsOf cs"
| "domainsOf (_ # cs) = domainsOf cs"

fun recordsOf :: "construct list \<Rightarrow> ARecord list" where
  "recordsOf [] = []"
| "recordsOf (ARecordC r # cs) = r # recordsOf cs"
| "recordsOf (_ # cs) = recordsOf cs"

fun restApisOf :: "construct list \<Rightarrow> RestApi list" where
  "restApisOf [] = []"
| "restApisOf (RestApiC a # cs) = a # restApisOf cs"
| "restApisOf (_ # cs) = restApisOf cs"

text \<open>The resources of the stack a constructor gave; none when it threw.\<close>

definition graphOf :: "error + 'a Stack_scheme \<Rightarrow> construct list" where
  "graphOf r = (case r of Inl _ \<Rightarrow> [] | Inr s \<Rightarrow> children s)"

text \<open>The physical name of a resource that is given one (queues, roles, alarms, topics
  and the REST API).\<close>

fun physicalName :: "construct \<Rightarrow> string option" where
  "physicalName (QueueC q) = Some (queueName q)"
| "physicalName (RoleC r) = Some (roleName r)"
| "physicalName (AlarmC a) = Some (alarmName a)"
| "physicalName (TopicC t) = Some (topicName t)"
| "physicalName (RestApiC a) = Some (restApiName a)"
| "physicalName _ = None"

text \<open>All statements of the inline policies of a role.\<close>

definition statementsOf :: "Role \<Rightarrow> PolicyStatement list" where
  "statementsOf r = concat (map snd (inlinePolicies r))"

definition grantsKeyUse :: "PolicyStatement \<Rightarrow> bool" where
  "grantsKeyUse st =
     (''kms:Decrypt'' \<in> set (actions st) \<or> ''kms:GenerateDataKey'' \<in> set (actions st))"

definition stackIdOf :: "StackC \<Rightarrow> string" where
  "stackIdOf st = (case st of SQS s \<Rightarrow> stackId s | Api g \<Rightarrow> stackId g | Unfinished i \<Rightarrow> i)"

definition isGateway :: "StackC \<Rightarrow> bool" where
  "isGateway st = (case st of SQS _ \<Rightarrow> False | Api _ \<Rightarrow> True | Unfinished _ \<Rightarrow> False)"

definition isFinished :: "StackC \<Rightarrow> bool" where
  "isFinished st = (case st of SQS _ \<Rightarrow> True | Api _ \<Rightarrow> True | Unfinished _ \<Rightarrow> False)"

definition childrenOf :: "StackC \<Rightarrow> construct list" where
  "childrenOf st =
     (case st of SQS s \<Rightarrow> children s | Api g \<Rightarrow> children g | Unfinished _ \<Rightarrow> [])"

subsection \<open>Properties in the words of the specification\<close>

text \<open>A name of the form \<open>{project}-{environment}-{purpose}\<close>, with a purpose that is
  not empty.\<close>

definition spec_name_pattern :: "string \<Rightarrow> string \<Rightarrow> string \<Rightarrow> bool" where
  "spec_name_pattern project environ name =
     (let p = project @ ''-'' @ environ @ ''-''
      in length p < length name \<and> take (length p) name = p)"

text \<open>A complete domain configuration as the specification describes it: certificate or
  import data, hosted-zone data and a domain name.\<close>

definition spec_complete_domain_configuration :: "EnvConfig \<Rightarrow> bool" where
  "spec_complete_domain_configuration c =
     ((truthy (cfg_certificateArn c)
        \<or> (truthy (cfg_existingDomainRegionalDomainName c)
            \<and> truthy (cfg_existingDomainRegionalHostedZoneId c)))
      \<and> truthy (cfg_hostedZoneId c) \<and> truthy (cfg_hostedZoneName c)
      \<and> truthy (cfg_domainName c))"

subsection \<open>Inputs of the test suite and of the examples\<close>

text \<open>\<open>makeStack\<close> of the messaging stack's tests.\<close>

definition test_sqs_props :: SQSStackProps where
  "test_sqs_props =
     \<lparr>env = Some \<lparr>env_account = Some ''123456789012'', env_region = Some ''us-east-1''\<rparr>,
      description = Some ''Dual queue stack test'',
      tags = None,
      environment = ''dev'',
      projectName = ''tg-assistant'',
      enableEncryption = None,
      enableCostOptimization = None,
      watchTowerTopicArn = None,
      orderQueueConfig = None,
      resultQueueConfig = None\<rparr>"

text \<open>The same properties with queue encryption switched off.\<close>

definition unencrypted_props :: SQSStackProps where
  "unencrypted_props = test_sqs_props\<lparr>enableEncryption := Some False\<rparr>"



text \<open>The test properties with every default written out and the reserved field set.\<close>

definition explicit_sqs_props :: SQSStackProps where
  "explicit_sqs_props =
     test_sqs_props
       \<lparr>tags := Some [],
        enableEncryption := Some True,
        watchTowerTopicArn := Some ''arn:aws:sns:us-east-1:123456789012:watch-tower'',
        orderQueueConfig :=
          Some \<lparr>visibilityTimeoutSeconds = Some 300, maxReceiveCount = None\<rparr>,
        resultQueueConfig :=
          Some \<lparr>visibilityTimeoutSeconds = None, maxReceiveCount = Some 3\<rparr>\<rparr>"

text \<open>\<open>makeStackWithNewDomain\<close> and \<open>makeStackWithImportedDomain\<close> of the gateway
  stack's tests.\<close>

definition test_api_props_new :: ApiGatewayStackProps where
  "test_api_props_new =
     \<lparr>env = Some \<lparr>env_account = Some ''123456789012'', env_region = Some ''eu-central-1''\<rparr>,
      description = Some ''API Gateway stack test'',
      tags = None,
      api_environment = ''dev'',
      api_projectName = ''tg-assistant'',
      lambdaFunctionName = ''telegram-webhook-lambda-dev'',
      certificateArn = ''arn:aws:acm:eu-central-1:123456789012:certificate/test-cert-id'',
      hostedZoneId = ''Z0063833342G11THSVYEP'',
      hostedZoneName = ''qlibin.com'',
      domainName = ''tg.qlibin.com'',
      basePath = ''dev'',
      throttling = None,
      existingDomainRegionalDomainName = None,
      existingDomainRegionalHostedZoneId = None,
      createDnsRecord = None\<rparr>"

definition test_api_props_imported :: ApiGatewayStackProps where
  "test_api_props_imported =
     test_api_props_new
       \<lparr>existingDomainRegionalDomainName :=
          Some ''d-ekl8ubthta.execute-api.eu-central-1.amazonaws.com'',
        existingDomainRegionalHostedZoneId := Some ''Z1U9ULNL0V5AJ3'',
        createDnsRecord := Some False\<rparr>"

definition dev_config :: EnvConfig where
  "dev_config =
     \<lparr>account = ''123456789012'',
      region = ''eu-central-1'',
      envName = ''dev'',
      cfg_tags = None,
      cfg_certificateArn = None,
      cfg_hostedZoneId = None,
      cfg_hostedZoneName = None,
      cfg_domainName = None,
      cfg_existingDomainRegionalDomainName = None,
      cfg_existingDomainRegionalHostedZoneId = None\<rparr>"

definition prod_config :: EnvConfig where
  "prod_config =
     \<lparr>account = ''123456789012'',
      region = ''eu-central-1'',
      envName = ''prod'',
      cfg_tags = None,
      cfg_certificateArn =
        Some ''arn:aws:acm:eu-central-1:123456789012:certificate/test-cert-id'',
      cfg_hostedZoneId = Some ''Z0063833342G11THSVYEP'',
      cfg_hostedZoneName = Some ''qlibin.com'',
      cfg_domainName = Some ''tg.qlibin.com'',
      cfg_existingDomainRegionalDomainName =
        Some ''d-ekl8ubthta.execute-api.eu-central-1.amazonaws.com'',
      cfg_existingDomainRegionalHostedZoneId = Some ''Z1U9ULNL0V5AJ3''\<rparr>"

text \<open>The same gateway configuration with import data and no certificate.\<close>

definition import_only_config :: EnvConfig where
  "import_only_config = prod_config\<lparr>cfg_certificateArn := None\<rparr>"

definition example_invocation :: "string \<Rightarrow> string option \<Rightarrow> Invocation" where
  "example_invocation name provided =
     \<lparr>ctx_environment = Some name,
      ctx_ENV_NAME = None,
      ctx_environments =
        Some [(''dev'', dev_config), (''prod'', prod_config),
              (''import-only'', import_only_config)],
      ctx_defaultEnvironment = Some ''dev'',
      AWS_ACCOUNT_ID = provided\<rparr>"

text \<open>A registry with an environment whose name is not legal in the name of a stack.\<close>

definition underscore_invocation :: Invocation where
  "underscore_invocation =
     \<lparr>ctx_environment = Some ''my_env'',
      ctx_ENV_NAME = None,
      ctx_environments = Some [(''my_env'', dev_config\<lparr>envName := ''my_env''\<rparr>)],
      ctx_defaultEnvironment = None,
      AWS_ACCOUNT_ID = None\<rparr>"


section \<open>Results of the calls into the library\<close>

text \<open>A chain of calls returns exactly when each of its calls does.\<close>

lemma andThen_Inr_iff: "(andThen m f = Inr y) = (\<exists>x. m = Inr x \<and> f x = Inr y)"
  by (cases m) (simp_all add: andThen_def)

lemma andThen_Inr: "andThen (Inr x) f = f x"
  by (simp add: andThen_def)

lemma andThen_Inl: "andThen (Inl e) f = Inl e"
  by (simp add: andThen_def)

lemma attempt_Inr_iff: "(attempt lib c x = Inr y) = (lib c \<and> y = x)"
  by (auto simp add: attempt_def)

lemma attempt_permissive: "attempt permissive c x = Inr x"
  by (simp add: attempt_def permissive_def)

lemma Duration_seconds_Inr_iff:
  "(Duration_seconds lib n = Inr d) = (0 \<le> n \<and> lib (Call_Duration_seconds n) \<and> d = Seconds n)"
  by (auto simp add: Duration_seconds_def attempt_Inr_iff)

lemma new_Queue_Inr_iff:
  "(new_Queue lib q = Inr y) = (validateProps q \<and> lib (Call_new (QueueC q)) \<and> y = q)"
  by (auto simp add: new_Queue_def attempt_Inr_iff)

lemma new_Stack_Inr_iff:
  "(new_Stack lib sid p = Inr st) =
     (\<not> illegalStackId sid
      \<and> lib (Call_Stack sid (env p) (description p) (case tags p of None \<Rightarrow> [] | Some ts \<Rightarrow> ts))
      \<and> st = \<lparr>stackId = sid, stackEnv = env p, stackDescription = description p,
               stackTags = (case tags p of None \<Rightarrow> [] | Some ts \<Rightarrow> ts),
               dependencies = [], children = []\<rparr>)"
  by (auto simp add: new_Stack_def attempt_Inr_iff)

lemma new_Inr_iff:
  "(new_Key lib k = Inr k') = (lib (Call_new (KeyC k)) \<and> k' = k)"
  "(new_Role lib r = Inr r') = (lib (Call_new (RoleC r)) \<and> r' = r)"
  "(new_Alarm lib a = Inr a') = (lib (Call_new (AlarmC a)) \<and> a' = a)"
  "(new_Topic lib t = Inr t') = (lib (Call_new (TopicC t)) \<and> t' = t)"
  "(new_StringParameter lib x = Inr x') = (lib (Call_new (ParamC x)) \<and> x' = x)"
  "(new_RestApi lib ra = Inr ra') = (lib (Call_new (RestApiC ra)) \<and> ra' = ra)"
  "(new_DomainName lib d = Inr d') = (lib (Call_new (DomainNameC d)) \<and> d' = d)"
  "(new_BasePathMapping lib m = Inr m') = (lib (Call_new (BasePathMappingC m)) \<and> m' = m)"
  "(new_ARecord lib ar = Inr ar') = (lib (Call_new (ARecordC ar)) \<and> ar' = ar)"
  by (auto simp add: new_Key_def new_Role_def new_Alarm_def new_Topic_def
        new_StringParameter_def new_RestApi_def new_DomainName_def new_BasePathMapping_def
        new_ARecord_def attempt_Inr_iff)

lemma new_StringParameters_Inr_iff:
  "(new_StringParameters lib xs = Inr ys) = ((\<forall>x \<in> set xs. lib (Call_new (ParamC x))) \<and> ys = xs)"
  by (induction xs arbitrary: ys) (auto simp add: andThen_Inr_iff new_Inr_iff)

lemma SQSStack_InrD:
  assumes "SQSStack lib sid p = Inr s"
  shows "\<exists>ov rv a1 a2 a3 a4 ps.
      new_Stack lib sid p = Inr \<lparr>stackId = sid, stackEnv = env p, stackDescription = description p,
               stackTags = (case tags p of None \<Rightarrow> [] | Some ts \<Rightarrow> ts),
               dependencies = [], children = []\<rparr>
    \<and> stackId s = sid \<and> stackEnv s = env p \<and> stackDescription s = description p
    \<and> stackTags s = (case tags p of None \<Rightarrow> [] | Some ts \<Rightarrow> ts) \<and> dependencies s = []
    \<and> sqs_queueEncryptionKey lib p = Inr (queueEncryptionKey s)
    \<and> sqs_orderDLQ lib p (queueEncryptionKey s) = Inr (orderDLQ s)
    \<and> sqs_resultDLQ lib p (queueEncryptionKey s) = Inr (resultDLQ s)
    \<and> sqs_orderVisibility lib p = Inr ov
    \<and> sqs_orderQueue lib p (queueEncryptionKey s) (orderDLQ s) ov = Inr (orderQueue s)
    \<and> sqs_resultVisibility lib p = Inr rv
    \<and> sqs_resultQueue lib p (queueEncryptionKey s) (resultDLQ s) rv = Inr (resultQueue s)
    \<and> sqs_webhookRole lib p (queueEncryptionKey s) (orderQueue s) = Inr (webhookRole s)
    \<and> sqs_workerRole lib p (queueEncryptionKey s) (orderQueue s) (resultQueue s) = Inr (workerRole s)
    \<and> sqs_feedbackRole lib p (queueEncryptionKey s) (orderQueue s) (resultQueue s) = Inr (feedbackRole s)
    \<and> sqs_orderQueueAgeAlarm lib p (orderQueue s) = Inr a1
    \<and> sqs_resultQueueAgeAlarm lib p (resultQueue s) = Inr a2
    \<and> sqs_orderDLQAlarm lib p (orderDLQ s) = Inr a3
    \<and> sqs_resultDLQAlarm lib p (resultDLQ s) = Inr a4
    \<and> sqs_queueAlertTopic lib p (queueEncryptionKey s) = Inr (queueAlertTopic s)
    \<and> sqs_parameters lib p (orderQueue s) (resultQueue s) ov rv (webhookRole s) (workerRole s)
          (feedbackRole s) (queueAlertTopic s) = Inr ps
    \<and> children s =
          [KeyC (queueEncryptionKey s),
           QueueC (orderDLQ s), QueueC (resultDLQ s), QueueC (orderQueue s), QueueC (resultQueue s),
           RoleC (webhookRole s), RoleC (workerRole s), RoleC (feedbackRole s)]
          @ map (AlarmC \<circ> wireAlarm (queueAlertTopic s)) [a1, a2, a3, a4]
          @ [TopicC (queueAlertTopic s)]
          @ map ParamC ps
    \<and> orderQueueAlarms s = map (wireAlarm (queueAlertTopic s)) [a1, a3]
    \<and> resultQueueAlarms s = map (wireAlarm (queueAlertTopic s)) [a2, a4]"
  using assms
  unfolding SQSStack_def andThen_Inr_iff
  by (auto simp add: new_Stack_Inr_iff)

section \<open>What the messaging constructor puts where\<close>

text \<open>The resources of a stack the constructor returned, read off step by step.\<close>

lemma Of_append:
  "alarmsOf (xs @ ys) = alarmsOf xs @ alarmsOf ys"
  "topicsOf (xs @ ys) = topicsOf xs @ topicsOf ys"
  "queuesOf (xs @ ys) = queuesOf xs @ queuesOf ys"
  "parametersOf (xs @ ys) = parametersOf xs @ parametersOf ys"
  "domainsOf (xs @ ys) = domainsOf xs @ domainsOf ys"
  "recordsOf (xs @ ys) = recordsOf xs @ recordsOf ys"
  "restApisOf (xs @ ys) = restApisOf xs @ restApisOf ys"
proof -
  show "alarmsOf (xs @ ys) = alarmsOf xs @ alarmsOf ys"
    by (induction xs rule: alarmsOf.induct) simp_all
  show "topicsOf (xs @ ys) = topicsOf xs @ topicsOf ys"
    by (induction xs rule: topicsOf.induct) simp_all
  show "queuesOf (xs @ ys) = queuesOf xs @ queuesOf ys"
    by (induction xs rule: queuesOf.induct) simp_all
  show "parametersOf (xs @ ys) = parametersOf xs @ parametersOf ys"
    by (induction xs rule: parametersOf.induct) simp_all
  show "domainsOf (xs @ ys) = domainsOf xs @ domainsOf ys"
    by (induction xs rule: domainsOf.induct) simp_all
  show "recordsOf (xs @ ys) = recordsOf xs @ recordsOf ys"
    by (induction xs rule: recordsOf.induct) simp_all
  show "restApisOf (xs @ ys) = restApisOf xs @ restApisOf ys"
    by (induction xs rule: restApisOf.induct) simp_all
qed

lemma Of_ParamC:
  "alarmsOf (map ParamC ps) = []"
  "topicsOf (map ParamC ps) = []"
  "queuesOf (map ParamC ps) = []"
  "parametersOf (map ParamC ps) = ps"
  "domainsOf (map ParamC ps) = []"
  "recordsOf (map ParamC ps) = []"
  "restApisOf (map ParamC ps) = []"
  by (induction ps) simp_all

lemma new_StringParameters_InrD: "new_StringParameters lib xs = Inr ys \<Longrightarrow> ys = xs"
  by (simp add: new_StringParameters_Inr_iff)

lemma SQSStack_queuesOf:
  "SQSStack lib sid p = Inr s \<Longrightarrow>
     queuesOf (children s) = [orderDLQ s, resultDLQ s, orderQueue s, resultQueue s]"
  by (drule SQSStack_InrD) (auto simp add: Of_append Of_ParamC)

lemma SQSStack_topicsOf:
  "SQSStack lib sid p = Inr s \<Longrightarrow> topicsOf (children s) = [queueAlertTopic s]"
  by (drule SQSStack_InrD) (auto simp add: Of_append Of_ParamC)

lemma sqs_queueEncryptionKey_Inr:
  "sqs_queueEncryptionKey lib p = Inr k \<Longrightarrow>
     keyId k = ''QueueEncryptionKey'' \<and> enableKeyRotation k"
  by (auto simp add: sqs_queueEncryptionKey_def new_Inr_iff)

lemma sqs_orderDLQ_Inr:
  "sqs_orderDLQ lib p k = Inr q \<Longrightarrow>
     queueId q = ''OrderDLQ''
     \<and> queueName q = projectName p @ ''-'' @ environment p @ ''-order-dlq''
     \<and> visibilityTimeout q = None \<and> retentionPeriod q = Some (Days 7)
     \<and> receiveMessageWaitTime q = None \<and> deadLetterQueue q = None
     \<and> encryptionMasterKey q = (if sqs_enableEncryption p then Some (keyId k) else None)"
  by (auto simp add: sqs_orderDLQ_def new_Queue_Inr_iff)

lemma sqs_resultDLQ_Inr:
  "sqs_resultDLQ lib p k = Inr q \<Longrightarrow>
     queueId q = ''ResultDLQ''
     \<and> queueName q = projectName p @ ''-'' @ environment p @ ''-result-dlq''
     \<and> visibilityTimeout q = None \<and> retentionPeriod q = Some (Days 7)
     \<and> receiveMessageWaitTime q = None \<and> deadLetterQueue q = None
     \<and> encryptionMasterKey q = (if sqs_enableEncryption p then Some (keyId k) else None)"
  by (auto simp add: sqs_resultDLQ_def new_Queue_Inr_iff)

lemma sqs_orderVisibility_Inr:
  "sqs_orderVisibility lib p = Inr v \<Longrightarrow>
     v = Seconds (orElse (orderQueueConfig p) visibilityTimeoutSeconds 300)
     \<and> 0 \<le> orElse (orderQueueConfig p) visibilityTimeoutSeconds 300"
  by (auto simp add: sqs_orderVisibility_def Duration_seconds_Inr_iff)

lemma sqs_resultVisibility_Inr:
  "sqs_resultVisibility lib p = Inr v \<Longrightarrow>
     v = Seconds (orElse (resultQueueConfig p) visibilityTimeoutSeconds 180)
     \<and> 0 \<le> orElse (resultQueueConfig p) visibilityTimeoutSeconds 180"
  by (auto simp add: sqs_resultVisibility_def Duration_seconds_Inr_iff)

lemma sqs_orderQueue_Inr:
  "sqs_orderQueue lib p k d v = Inr q \<Longrightarrow>
     queueId q = ''OrderQueue''
     \<and> queueName q = projectName p @ ''-'' @ environment p @ ''-order''
     \<and> visibilityTimeout q = Some v \<and> retentionPeriod q = Some (Days 14)
     \<and> receiveMessageWaitTime q = Some (Seconds 6)
     \<and> deadLetterQueue q =
         Some \<lparr>dlq_queue = queueId d, dlq_maxReceiveCount = sqs_orderMaxReceive p\<rparr>
     \<and> encryptionMasterKey q = (if sqs_enableEncryption p then Some (keyId k) else None)
     \<and> toSeconds v \<le> 43200 \<and> 1 \<le> sqs_orderMaxReceive p"
  by (auto simp add: sqs_orderQueue_def new_Queue_Inr_iff validateProps_def validateRange_def)

lemma sqs_resultQueue_Inr:
  "sqs_resultQueue lib p k d v = Inr q \<Longrightarrow>
     queueId q = ''ResultQueue''
     \<and> queueName q = projectName p @ ''-'' @ environment p @ ''-result''
     \<and> visibilityTimeout q = Some v \<and> retentionPeriod q = Some (Days 7)
     \<and> receiveMessageWaitTime q = Some (Seconds 6)
     \<and> deadLetterQueue q =
         Some \<lparr>dlq_queue = queueId d, dlq_maxReceiveCount = sqs_resultMaxReceive p\<rparr>
     \<and> encryptionMasterKey q = (if sqs_enableEncryption p then Some (keyId k) else None)
     \<and> toSeconds v \<le> 43200 \<and> 1 \<le> sqs_resultMaxReceive p"
  by (auto simp add: sqs_resultQueue_def new_Queue_Inr_iff validateProps_def validateRange_def)

lemma sqs_webhookRole_Inr:
  "sqs_webhookRole lib p k oq = Inr r \<Longrightarrow>
     roleName r = projectName p @ ''-'' @ environment p @ ''-webhook-role''
     \<and> statementsOf r =
         [\<lparr>effect = ALLOW,
           actions = [''sqs:SendMessage'', ''sqs:GetQueueAttributes'', ''sqs:GetQueueUrl''],
           resources = [queueArn oq],
           conditions = Some (''StringEquals'', ''aws:SourceAccount'', stack_account (env p))\<rparr>,
          \<lparr>effect = ALLOW, actions = [''kms:Decrypt'', ''kms:GenerateDataKey''],
           resources = [keyArn k], conditions = None\<rparr>]"
  by (auto simp add: sqs_webhookRole_def new_Inr_iff statementsOf_def)

lemma sqs_workerRole_Inr:
  "sqs_workerRole lib p k oq rq = Inr r \<Longrightarrow>
     roleName r = projectName p @ ''-'' @ environment p @ ''-worker-role''
     \<and> statementsOf r =
         [\<lparr>effect = ALLOW,
           actions = [''sqs:ReceiveMessage'', ''sqs:DeleteMessage'',
                      ''sqs:ChangeMessageVisibility'', ''sqs:GetQueueAttributes''],
           resources = [queueArn oq], conditions = None\<rparr>,
          \<lparr>effect = ALLOW, actions = [''sqs:SendMessage'', ''sqs:GetQueueAttributes''],
           resources = [queueArn rq], conditions = None\<rparr>,
          \<lparr>effect = ALLOW, actions = [''kms:Decrypt'', ''kms:GenerateDataKey''],
           resources = [keyArn k], conditions = None\<rparr>]"
  by (auto simp add: sqs_workerRole_def new_Inr_iff statementsOf_def)

lemma sqs_feedbackRole_Inr:
  "sqs_feedbackRole lib p k oq rq = Inr r \<Longrightarrow>
     roleName r = projectName p @ ''-'' @ environment p @ ''-feedback-role''
     \<and> statementsOf r =
         [\<lparr>effect = ALLOW,
           actions = [''sqs:ReceiveMessage'', ''sqs:DeleteMessage'',
                      ''sqs:ChangeMessageVisibility'', ''sqs:GetQueueAttributes''],
           resources = [queueArn rq], conditions = None\<rparr>,
          \<lparr>effect = ALLOW, actions = [''sqs:SendMessage'', ''sqs:GetQueueAttributes''],
           resources = [queueArn oq], conditions = None\<rparr>,
          \<lparr>effect = ALLOW, actions = [''kms:Decrypt'', ''kms:GenerateDataKey''],
           resources = [keyArn k], conditions = None\<rparr>]"
  by (auto simp add: sqs_feedbackRole_def new_Inr_iff statementsOf_def)

lemma sqs_alarms_Inr:
  "sqs_orderQueueAgeAlarm lib p oq = Inr a1 \<Longrightarrow>
     a1 = \<lparr>alarmId = ''OrderQueueAgeAlarm'',
          alarmName = sqs_stackName p @ ''-order-message-age'',
          alarmDescription = ''Order messages aging in queue'',
          metric = metricApproximateAgeOfOldestMessage oq (Some (Minutes 5)),
          threshold = 900, evaluationPeriods = 2, treatMissingData = None,
          alarmActions = [], okActions = []\<rparr>"
  "sqs_resultQueueAgeAlarm lib p rq = Inr a2 \<Longrightarrow>
     a2 = \<lparr>alarmId = ''ResultQueueAgeAlarm'',
          alarmName = sqs_stackName p @ ''-result-message-age'',
          alarmDescription = ''Result messages aging in queue'',
          metric = metricApproximateAgeOfOldestMessage rq (Some (Minutes 3)),
          threshold = 600, evaluationPeriods = 2, treatMissingData = None,
          alarmActions = [], okActions = []\<rparr>"
  "sqs_orderDLQAlarm lib p od = Inr a3 \<Longrightarrow>
     a3 = \<lparr>alarmId = ''OrderDLQAlarm'',
          alarmName = sqs_stackName p @ ''-order-dlq-messages'',
          alarmDescription = ''Failed orders in Dead Letter Queue'',
          metric = metricApproximateNumberOfMessagesVisible od,
          threshold = 1, evaluationPeriods = 1, treatMissingData = Some NOT_BREACHING,
          alarmActions = [], okActions = []\<rparr>"
  "sqs_resultDLQAlarm lib p rd = Inr a4 \<Longrightarrow>
     a4 = \<lparr>alarmId = ''ResultDLQAlarm'',
          alarmName = sqs_stackName p @ ''-result-dlq-messages'',
          alarmDescription = ''Failed results in Dead Letter Queue'',
          metric = metricApproximateNumberOfMessagesVisible rd,
          threshold = 1, evaluationPeriods = 1, treatMissingData = None,
          alarmActions = [], okActions = []\<rparr>"
  by (auto simp add: sqs_orderQueueAgeAlarm_def sqs_resultQueueAgeAlarm_def
        sqs_orderDLQAlarm_def sqs_resultDLQAlarm_def new_Inr_iff)

lemma sqs_queueAlertTopic_Inr:
  "sqs_queueAlertTopic lib p k = Inr t \<Longrightarrow>
     t = \<lparr>topicId = ''QueueAlertTopic'', topicName = sqs_stackName p @ ''-queue-alerts'',
          displayName = ''SQS Alerts for Watch Tower'', masterKey = Some (keyId k)\<rparr>"
  by (auto simp add: sqs_queueAlertTopic_def new_Inr_iff)

lemma sqs_parameters_Inr:
  "sqs_parameters lib p oq rq ov rv r1 r2 r3 t = Inr ps \<Longrightarrow>
     map parameterName ps =
       map (\<lambda>category. ''/automation/'' @ environment p @ category)
           [''/queues/order/url'', ''/queues/order/arn'', ''/queues/result/url'',
            ''/queues/result/arn'', ''/queues/config'', ''/roles/webhook/arn'',
            ''/roles/worker/arn'', ''/roles/feedback/arn'',
            ''/monitoring/queue-alerts/topic-arn'']"
  unfolding sqs_parameters_def by (drule new_StringParameters_InrD) simp

lemma SQSStack_alarmsOf:
  assumes "SQSStack lib sid p = Inr s"
  shows "alarmsOf (children s) =
     map (wireAlarm (queueAlertTopic s))
      [\<lparr>alarmId = ''OrderQueueAgeAlarm'',
          alarmName = sqs_stackName p @ ''-order-message-age'',
          alarmDescription = ''Order messages aging in queue'',
          metric = metricApproximateAgeOfOldestMessage (orderQueue s) (Some (Minutes 5)),
          threshold = 900, evaluationPeriods = 2, treatMissingData = None,
          alarmActions = [], okActions = []\<rparr>,
       \<lparr>alarmId = ''ResultQueueAgeAlarm'',
          alarmName = sqs_stackName p @ ''-result-message-age'',
          alarmDescription = ''Result messages aging in queue'',
          metric = metricApproximateAgeOfOldestMessage (resultQueue s) (Some (Minutes 3)),
          threshold = 600, evaluationPeriods = 2, treatMissingData = None,
          alarmActions = [], okActions = []\<rparr>,
       \<lparr>alarmId = ''OrderDLQAlarm'',
          alarmName = sqs_stackName p @ ''-order-dlq-messages'',
          alarmDescription = ''Failed orders in Dead Letter Queue'',
          metric = metricApproximateNumberOfMessagesVisible (orderDLQ s),
          threshold = 1, evaluationPeriods = 1, treatMissingData = Some NOT_BREACHING,
          alarmActions = [], okActions = []\<rparr>,
       \<lparr>alarmId = ''ResultDLQAlarm'',
          alarmName = sqs_stackName p @ ''-result-dlq-messages'',
          alarmDescription = ''Failed results in Dead Letter Queue'',
          metric = metricApproximateNumberOfMessagesVisible (resultDLQ s),
          threshold = 1, evaluationPeriods = 1, treatMissingData = None,
          alarmActions = [], okActions = []\<rparr>]"
proof -
  from SQSStack_InrD [OF assms] obtain a1 a2 a3 a4 ps where
      a: "sqs_orderQueueAgeAlarm lib p (orderQueue s) = Inr a1"
         "sqs_resultQueueAgeAlarm lib p (resultQueue s) = Inr a2"
         "sqs_orderDLQAlarm lib p (orderDLQ s) = Inr a3"
         "sqs_resultDLQAlarm lib p (resultDLQ s) = Inr a4"
    and c: "children s =
          [KeyC (queueEncryptionKey s),
           QueueC (orderDLQ s), QueueC (resultDLQ s), QueueC (orderQueue s), QueueC (resultQueue s),
           RoleC (webhookRole s), RoleC (workerRole s), RoleC (feedbackRole s)]
          @ map (AlarmC \<circ> wireAlarm (queueAlertTopic s)) [a1, a2, a3, a4]
          @ [TopicC (queueAlertTopic s)]
          @ map ParamC ps"
    by blast
  from a have e: "a1 = \<lparr>alarmId = ''OrderQueueAgeAlarm'',
          alarmName = sqs_stackName p @ ''-order-message-age'',
          alarmDescription = ''Order messages aging in queue'',
          metric = metricApproximateAgeOfOldestMessage (orderQueue s) (Some (Minutes 5)),
          threshold = 900, evaluationPeriods = 2, treatMissingData = None,
          alarmActions = [], okActions = []\<rparr>"
       "a2 = \<lparr>alarmId = ''ResultQueueAgeAlarm'',
          alarmName = sqs_stackName p @ ''-result-message-age'',
          alarmDescription = ''Result messages aging in queue'',
          metric = metricApproximateAgeOfOldestMessage (resultQueue s) (Some (Minutes 3)),
          threshold = 600, evaluationPeriods = 2, treatMissingData = None,
          alarmActions = [], okActions = []\<rparr>"
       "a3 = \<lparr>alarmId = ''OrderDLQAlarm'',
          alarmName = sqs_stackName p @ ''-order-dlq-messages'',
          alarmDescription = ''Failed orders in Dead Letter Queue'',
          metric = metricApproximateNumberOfMessagesVisible (orderDLQ s),
          threshold = 1, evaluationPeriods = 1, treatMissingData = Some NOT_BREACHING,
          alarmActions = [], okActions = []\<rparr>"
       "a4 = \<lparr>alarmId = ''ResultDLQAlarm'',
          alarmName = sqs_stackName p @ ''-result-dlq-messages'',
          alarmDescription = ''Failed results in Dead Letter Queue'',
          metric = metricApproximateNumberOfMessagesVisible (resultDLQ s),
          threshold = 1, evaluationPeriods = 1, treatMissingData = None,
          alarmActions = [], okActions = []\<rparr>"
    by (simp_all add: sqs_alarms_Inr)
  have "alarmsOf (children s) = map (wireAlarm (queueAlertTopic s)) [a1, a2, a3, a4]"
    by (simp add: c Of_append Of_ParamC)
  then show ?thesis by (simp only: e)
qed

section \<open>A library that goes through with every call\<close>

text \<open>With the permissive library the constructor returns for every legal stack identifier
  and every override within the ranges of the queue constructor.\<close>

lemma new_StringParameters_permissive: "new_StringParameters permissive xs = Inr xs"
  by (simp add: new_StringParameters_Inr_iff permissive_def)

lemma SQSStack_permissive:
  assumes sid: "\<not> illegalStackId sid"
    and ov: "0 \<le> orElse (orderQueueConfig p) visibilityTimeoutSeconds 300"
            "orElse (orderQueueConfig p) visibilityTimeoutSeconds 300 \<le> 43200"
    and om: "1 \<le> orElse (orderQueueConfig p) maxReceiveCount 3"
    and rv: "0 \<le> orElse (resultQueueConfig p) visibilityTimeoutSeconds 180"
            "orElse (resultQueueConfig p) visibilityTimeoutSeconds 180 \<le> 43200"
    and rm: "1 \<le> orElse (resultQueueConfig p) maxReceiveCount 3"
  shows "\<exists>s. SQSStack permissive sid p = Inr s"
proof -
  obtain st where st: "new_Stack permissive sid p = Inr st"
    using sid by (simp add: new_Stack_Inr_iff permissive_def)
  obtain k where k: "sqs_queueEncryptionKey permissive p = Inr k"
    by (simp add: sqs_queueEncryptionKey_def new_Inr_iff permissive_def)
  obtain od where od: "sqs_orderDLQ permissive p k = Inr od"
    by (simp add: sqs_orderDLQ_def new_Queue_Inr_iff permissive_def validateProps_def
          validateRange_def)
  obtain rd where rd: "sqs_resultDLQ permissive p k = Inr rd"
    by (simp add: sqs_resultDLQ_def new_Queue_Inr_iff permissive_def validateProps_def
          validateRange_def)
  have v1: "sqs_orderVisibility permissive p
              = Inr (Seconds (orElse (orderQueueConfig p) visibilityTimeoutSeconds 300))"
    using ov by (simp add: sqs_orderVisibility_def Duration_seconds_Inr_iff permissive_def)
  obtain oq where oq: "sqs_orderQueue permissive p k od
        (Seconds (orElse (orderQueueConfig p) visibilityTimeoutSeconds 300)) = Inr oq"
    using ov om by (simp add: sqs_orderQueue_def new_Queue_Inr_iff permissive_def
          validateProps_def validateRange_def sqs_orderMaxReceive_def)
  have v2: "sqs_resultVisibility permissive p
              = Inr (Seconds (orElse (resultQueueConfig p) visibilityTimeoutSeconds 180))"
    using rv by (simp add: sqs_resultVisibility_def Duration_seconds_Inr_iff permissive_def)
  obtain rq where rq: "sqs_resultQueue permissive p k rd
        (Seconds (orElse (resultQueueConfig p) visibilityTimeoutSeconds 180)) = Inr rq"
    using rv rm by (simp add: sqs_resultQueue_def new_Queue_Inr_iff permissive_def
          validateProps_def validateRange_def sqs_resultMaxReceive_def)
  obtain r1 where r1: "sqs_webhookRole permissive p k oq = Inr r1"
    by (simp add: sqs_webhookRole_def new_Inr_iff permissive_def)
  obtain r2 where r2: "sqs_workerRole permissive p k oq rq = Inr r2"
    by (simp add: sqs_workerRole_def new_Inr_iff permissive_def)
  obtain r3 where r3: "sqs_feedbackRole permissive p k oq rq = Inr r3"
    by (simp add: sqs_feedbackRole_def new_Inr_iff permissive_def)
  obtain a1 where a1: "sqs_orderQueueAgeAlarm permissive p oq = Inr a1"
    by (simp add: sqs_orderQueueAgeAlarm_def new_Inr_iff permissive_def)
  obtain a2 where a2: "sqs_resultQueueAgeAlarm permissive p rq = Inr a2"
    by (simp add: sqs_resultQueueAgeAlarm_def new_Inr_iff permissive_def)
  obtain a3 where a3: "sqs_orderDLQAlarm permissive p od = Inr a3"
    by (simp add: sqs_orderDLQAlarm_def new_Inr_iff permissive_def)
  obtain a4 where a4: "sqs_resultDLQAlarm permissive p rd = Inr a4"
    by (simp add: sqs_resultDLQAlarm_def new_Inr_iff permissive_def)
  obtain t where t: "sqs_queueAlertTopic permissive p k = Inr t"
    by (simp add: sqs_queueAlertTopic_def new_Inr_iff permissive_def)
  have "\<exists>ps. sqs_parameters permissive p oq rq
        (Seconds (orElse (orderQueueConfig p) visibilityTimeoutSeconds 300))
        (Seconds (orElse (resultQueueConfig p) visibilityTimeoutSeconds 180)) r1 r2 r3 t = Inr ps"
    unfolding sqs_parameters_def new_StringParameters_permissive by blast
  then obtain ps where ps: "sqs_parameters permissive p oq rq
        (Seconds (orElse (orderQueueConfig p) visibilityTimeoutSeconds 300))
        (Seconds (orElse (resultQueueConfig p) visibilityTimeoutSeconds 180)) r1 r2 r3 t = Inr ps"
    by blast
  show ?thesis
    by (simp add: SQSStack_def andThen_Inr st k od rd v1 oq v2 rq r1 r2 r3 a1 a2 a3 a4 t ps)
qed

lemma legal_TestStack: "\<not> illegalStackId ''TestStack''"
  by (simp add: illegalStackId_def legalStackName_def isLetter_def isDigit_def)

lemma test_props_return: "\<exists>s. SQSStack permissive ''TestStack'' test_sqs_props = Inr s"
  by (rule SQSStack_permissive)
     (simp_all add: legal_TestStack test_sqs_props_def orElse_def)

lemma orElse_bind:
  "orElse cfg f d = (case Option.bind cfg f of Some v \<Rightarrow> v | None \<Rightarrow> d)"
  by (simp add: orElse_def split: option.splits)

lemma SQSStack_queue_keys:
  assumes "SQSStack lib sid p = Inr s"
  shows "map encryptionMasterKey (queuesOf (children s))
     = replicate 4 (if sqs_enableEncryption p then Some (keyId (queueEncryptionKey s)) else None)"
proof -
  from SQSStack_InrD [OF assms] obtain ov rv :: Duration where
       od: "sqs_orderDLQ lib p (queueEncryptionKey s) = Inr (orderDLQ s)"
   and rd: "sqs_resultDLQ lib p (queueEncryptionKey s) = Inr (resultDLQ s)"
   and oq: "sqs_orderQueue lib p (queueEncryptionKey s) (orderDLQ s) ov = Inr (orderQueue s)"
   and rq: "sqs_resultQueue lib p (queueEncryptionKey s) (resultDLQ s) rv = Inr (resultQueue s)"
    by blast
  show ?thesis
    using sqs_orderDLQ_Inr [OF od] sqs_resultDLQ_Inr [OF rd] sqs_orderQueue_Inr [OF oq]
      sqs_resultQueue_Inr [OF rq]
    by (simp add: SQSStack_queuesOf [OF assms] numeral_eq_Suc)
qed

lemma SQSStack_topic:
  assumes "SQSStack lib sid p = Inr s"
  shows "queueAlertTopic s =
     \<lparr>topicId = ''QueueAlertTopic'', topicName = sqs_stackName p @ ''-queue-alerts'',
      displayName = ''SQS Alerts for Watch Tower'', masterKey = Some ''QueueEncryptionKey''\<rparr>
     \<and> keyId (queueEncryptionKey s) = ''QueueEncryptionKey''"
proof -
  from SQSStack_InrD [OF assms] have
       k: "sqs_queueEncryptionKey lib p = Inr (queueEncryptionKey s)"
   and t: "sqs_queueAlertTopic lib p (queueEncryptionKey s) = Inr (queueAlertTopic s)"
    by blast+
  show ?thesis
    using sqs_queueEncryptionKey_Inr [OF k] sqs_queueAlertTopic_Inr [OF t] by simp
qed

lemma unencrypted_return: "\<exists>s. SQSStack permissive ''TestStack'' unencrypted_props = Inr s"
  by (rule SQSStack_permissive)
     (simp_all add: legal_TestStack test_sqs_props_def unencrypted_props_def orElse_def)

section \<open>What the gateway constructor puts where\<close>

lemma ApiGatewayStack_InrD:
  assumes "ApiGatewayStack lib sid q = Inr g"
  shows "\<exists>fn bpm a1 a2 ps.
      stackId g = sid \<and> \<not> illegalStackId sid
    \<and> gw_lambdaFunction lib q = Inr fn
    \<and> gw_restApi lib q fn = Inr (restApi g)
    \<and> gw_customDomain lib q = Inr (customDomain g)
    \<and> gw_basePathMapping lib q (restApi g) (customDomain g) = Inr bpm
    \<and> gw_dnsRecord lib q = Inr (dnsRecord g)
    \<and> gw_apiAlertTopic lib q = Inr (apiAlertTopic g)
    \<and> gw_error5xxAlarm lib q (restApi g) = Inr a1
    \<and> gw_latencyAlarm lib q (restApi g) = Inr a2
    \<and> gw_parameters lib q (restApi g) (gw_sourceArn q (restApi g)) = Inr ps
    \<and> children g =
          [RestApiC (restApi g)]
          @ (case customDomain g of Created d \<Rightarrow> [DomainNameC d] | Imported _ \<Rightarrow> [])
          @ [BasePathMappingC bpm]
          @ (case dnsRecord g of Some r \<Rightarrow> [ARecordC r] | None \<Rightarrow> [])
          @ [TopicC (apiAlertTopic g)]
          @ map (AlarmC \<circ> wireAlarm (apiAlertTopic g)) [a1, a2]
          @ map ParamC ps
    \<and> apiAlarms g = map (wireAlarm (apiAlertTopic g)) [a1, a2]"
  using assms
  unfolding ApiGatewayStack_def andThen_Inr_iff
  by (auto simp add: new_Stack_Inr_iff)

lemma gw_customDomain_Inr:
  "gw_customDomain lib p = Inr d \<Longrightarrow>
     d = (if truthy (existingDomainRegionalDomainName p)
             \<and> truthy (existingDomainRegionalHostedZoneId p)
          then Imported
                 \<lparr>attr_domainName = domainName p,
                  domainNameAliasTarget = the (existingDomainRegionalDomainName p),
                  domainNameAliasHostedZoneId = the (existingDomainRegionalHostedZoneId p)\<rparr>
          else Created
                 \<lparr>domainId = ''CustomDomain'', dn_domainName = domainName p,
                  certificate = certificateArn p, endpointType = REGIONAL,
                  securityPolicy = TLS_1_2\<rparr>)"
  by (auto simp add: gw_customDomain_def andThen_Inr_iff attempt_Inr_iff new_Inr_iff
        split: if_splits)

lemma gw_dnsRecord_Inr:
  "gw_dnsRecord lib p = Inr r \<Longrightarrow>
     r = (if gw_createDnsRecord p \<and> \<not> truthy (existingDomainRegionalDomainName p)
          then Some \<lparr>recordId = ''ApiAliasRecord'', zoneId = hostedZoneId p,
                     zoneName = hostedZoneName p, recordName = domainName p,
                     aliasTarget = ''CustomDomain''\<rparr>
          else None)"
  by (auto simp add: gw_dnsRecord_def andThen_Inr_iff attempt_Inr_iff new_Inr_iff
        split: if_splits)

lemma ApiGatewayStack_domainsOf:
  assumes "ApiGatewayStack lib sid p = Inr g"
  shows "domainsOf (children g) = (case customDomain g of Created d \<Rightarrow> [d] | Imported _ \<Rightarrow> [])"
    and "recordsOf (children g) = (case dnsRecord g of Some r \<Rightarrow> [r] | None \<Rightarrow> [])"
    and "restApisOf (children g) = [restApi g]"
  using ApiGatewayStack_InrD [OF assms]
  by (auto simp add: Of_append Of_ParamC split: IDomainName.splits option.splits)

lemma ApiGatewayStack_permissive:
  assumes sid: "\<not> illegalStackId sid"
  shows "\<exists>g. ApiGatewayStack permissive sid q = Inr g"
proof -
  obtain st where st: "new_Stack permissive sid q = Inr st"
    using sid by (simp add: new_Stack_Inr_iff permissive_def)
  have fn: "gw_lambdaFunction permissive q = Inr (lambdaFunctionName q)"
    by (simp add: gw_lambdaFunction_def attempt_permissive)
  obtain ra where ra: "gw_restApi permissive q (lambdaFunctionName q) = Inr ra"
    by (simp add: gw_restApi_def new_Inr_iff permissive_def)
  have "\<exists>d. gw_customDomain permissive q = Inr d"
    by (simp add: gw_customDomain_def attempt_permissive andThen_Inr new_DomainName_def)
  then obtain d where d: "gw_customDomain permissive q = Inr d"
    by blast
  obtain m where m: "gw_basePathMapping permissive q ra d = Inr m"
    by (simp add: gw_basePathMapping_def new_Inr_iff permissive_def)
  have "\<exists>r. gw_dnsRecord permissive q = Inr r"
    by (simp add: gw_dnsRecord_def attempt_permissive andThen_Inr new_ARecord_def)
  then obtain r where r: "gw_dnsRecord permissive q = Inr r"
    by blast
  obtain t where t: "gw_apiAlertTopic permissive q = Inr t"
    by (simp add: gw_apiAlertTopic_def new_Inr_iff permissive_def)
  obtain a1 where a1: "gw_error5xxAlarm permissive q ra = Inr a1"
    by (simp add: gw_error5xxAlarm_def new_Inr_iff permissive_def)
  obtain a2 where a2: "gw_latencyAlarm permissive q ra = Inr a2"
    by (simp add: gw_latencyAlarm_def new_Inr_iff permissive_def)
  have "\<exists>ps. gw_parameters permissive q ra (gw_sourceArn q ra) = Inr ps"
    unfolding gw_parameters_def new_StringParameters_permissive by blast
  then obtain ps where ps: "gw_parameters permissive q ra (gw_sourceArn q ra) = Inr ps"
    by blast
  show ?thesis
    by (simp add: ApiGatewayStack_def andThen_Inr st fn ra d m r t a1 a2 ps)
qed

lemma legal_TestApiGatewayStack: "\<not> illegalStackId ''TestApiGatewayStack''"
  by (simp add: illegalStackId_def legalStackName_def isLetter_def isDigit_def)

lemma gw_restApi_Inr:
  "gw_restApi lib q fn = Inr a \<Longrightarrow>
     restApiName a = api_projectName q @ ''-telegram-bot-api-'' @ api_environment q
     \<and> apiId a = ''RestApi''"
  by (auto simp add: gw_restApi_def new_Inr_iff)

section \<open>What the constructor reads, and the checks of the script\<close>

lemma SQSStack_parameterNames:
  assumes "SQSStack lib sid p = Inr s"
  shows "map parameterName (parametersOf (children s))
       = map (\<lambda>category. ''/automation/'' @ environment p @ category)
           [''/queues/order/url'', ''/queues/order/arn'', ''/queues/result/url'',
            ''/queues/result/arn'', ''/queues/config'', ''/roles/webhook/arn'',
            ''/roles/worker/arn'', ''/roles/feedback/arn'',
            ''/monitoring/queue-alerts/topic-arn'']"
proof -
  from SQSStack_InrD [OF assms] obtain ov rv :: Duration and ps where
       ps: "sqs_parameters lib p (orderQueue s) (resultQueue s) ov rv (webhookRole s)
              (workerRole s) (feedbackRole s) (queueAlertTopic s) = Inr ps"
   and ch: "parametersOf (children s) = ps"
    by (auto simp add: Of_append Of_ParamC)
  from sqs_parameters_Inr [OF ps] ch show ?thesis by simp
qed

lemma SQSStack_agree:
  assumes a: "env p = env p' \<and> description p = description p'
      \<and> (case tags p of None \<Rightarrow> [] | Some ts \<Rightarrow> ts) = (case tags p' of None \<Rightarrow> [] | Some ts \<Rightarrow> ts)
      \<and> environment p = environment p' \<and> projectName p = projectName p'
      \<and> (case enableEncryption p of None \<Rightarrow> True | Some b \<Rightarrow> b)
          = (case enableEncryption p' of None \<Rightarrow> True | Some b \<Rightarrow> b)
      \<and> (case Option.bind (orderQueueConfig p) visibilityTimeoutSeconds of Some v \<Rightarrow> v | None \<Rightarrow> 300)
          = (case Option.bind (orderQueueConfig p') visibilityTimeoutSeconds of Some v \<Rightarrow> v | None \<Rightarrow> 300)
      \<and> (case Option.bind (orderQueueConfig p) maxReceiveCount of Some v \<Rightarrow> v | None \<Rightarrow> 3)
          = (case Option.bind (orderQueueConfig p') maxReceiveCount of Some v \<Rightarrow> v | None \<Rightarrow> 3)
      \<and> (case Option.bind (resultQueueConfig p) visibilityTimeoutSeconds of Some v \<Rightarrow> v | None \<Rightarrow> 180)
          = (case Option.bind (resultQueueConfig p') visibilityTimeoutSeconds of Some v \<Rightarrow> v | None \<Rightarrow> 180)
      \<and> (case Option.bind (resultQueueConfig p) maxReceiveCount of Some v \<Rightarrow> v | None \<Rightarrow> 3)
          = (case Option.bind (resultQueueConfig p') maxReceiveCount of Some v \<Rightarrow> v | None \<Rightarrow> 3)"
  shows "SQSStack lib sid p = SQSStack lib sid p'"
proof -
  have st: "new_Stack lib sid p = new_Stack lib sid p'"
    using a by (simp add: new_Stack_def)
  have enc: "sqs_enableEncryption p = sqs_enableEncryption p'"
    using a by (simp add: sqs_enableEncryption_def)
  have key: "sqs_queueEncryptionKey lib p = sqs_queueEncryptionKey lib p'"
    using a by (simp add: sqs_queueEncryptionKey_def)
  have odlq: "sqs_orderDLQ lib p = sqs_orderDLQ lib p'"
    using a enc by (intro ext) (simp add: sqs_orderDLQ_def)
  have rdlq: "sqs_resultDLQ lib p = sqs_resultDLQ lib p'"
    using a enc by (intro ext) (simp add: sqs_resultDLQ_def)
  have ov: "sqs_orderVisibility lib p = sqs_orderVisibility lib p'"
    using a by (simp add: sqs_orderVisibility_def orElse_bind)
  have om: "sqs_orderMaxReceive p = sqs_orderMaxReceive p'"
    using a by (simp add: sqs_orderMaxReceive_def orElse_bind)
  have rv: "sqs_resultVisibility lib p = sqs_resultVisibility lib p'"
    using a by (simp add: sqs_resultVisibility_def orElse_bind)
  have rm: "sqs_resultMaxReceive p = sqs_resultMaxReceive p'"
    using a by (simp add: sqs_resultMaxReceive_def orElse_bind)
  have oq: "sqs_orderQueue lib p = sqs_orderQueue lib p'"
    using a enc om by (intro ext) (simp add: sqs_orderQueue_def)
  have rq: "sqs_resultQueue lib p = sqs_resultQueue lib p'"
    using a enc rm by (intro ext) (simp add: sqs_resultQueue_def)
  have r1: "sqs_webhookRole lib p = sqs_webhookRole lib p'"
    using a by (intro ext) (simp add: sqs_webhookRole_def)
  have r2: "sqs_workerRole lib p = sqs_workerRole lib p'"
    using a by (intro ext) (simp add: sqs_workerRole_def)
  have r3: "sqs_feedbackRole lib p = sqs_feedbackRole lib p'"
    using a by (intro ext) (simp add: sqs_feedbackRole_def)
  have sn: "sqs_stackName p = sqs_stackName p'"
    using a by (simp add: sqs_stackName_def)
  have a1: "sqs_orderQueueAgeAlarm lib p = sqs_orderQueueAgeAlarm lib p'"
    using sn by (intro ext) (simp add: sqs_orderQueueAgeAlarm_def)
  have a2: "sqs_resultQueueAgeAlarm lib p = sqs_resultQueueAgeAlarm lib p'"
    using sn by (intro ext) (simp add: sqs_resultQueueAgeAlarm_def)
  have a3: "sqs_orderDLQAlarm lib p = sqs_orderDLQAlarm lib p'"
    using sn by (intro ext) (simp add: sqs_orderDLQAlarm_def)
  have a4: "sqs_resultDLQAlarm lib p = sqs_resultDLQAlarm lib p'"
    using sn by (intro ext) (simp add: sqs_resultDLQAlarm_def)
  have t: "sqs_queueAlertTopic lib p = sqs_queueAlertTopic lib p'"
    using sn by (intro ext) (simp add: sqs_queueAlertTopic_def)
  have ps: "sqs_parameters lib p = sqs_parameters lib p'"
    using a om rm by (intro ext) (simp add: sqs_parameters_def)
  show ?thesis
    unfolding SQSStack_def st key odlq rdlq ov oq rv rq r1 r2 r3 a1 a2 a3 a4 t ps ..
qed

lemma main_passed:
  assumes "fst (main lib inp) = None"
  shows "\<exists>envs e. ctx_environments inp = Some envs
           \<and> lookupEnvironment envs (resolvedEnvName inp) = Some e
           \<and> accountCheck (AWS_ACCOUNT_ID inp) e (resolvedEnvName inp) = None
           \<and> main lib inp = buildStacks lib e new_App"
  using assms
  by (auto simp add: main_def Let_def split: option.splits if_splits)

lemma main_same_context:
  assumes b: "ctx_environment inp = ctx_environment inp' \<and> ctx_ENV_NAME inp = ctx_ENV_NAME inp'
      \<and> ctx_environments inp = ctx_environments inp'
      \<and> ctx_defaultEnvironment inp = ctx_defaultEnvironment inp'
      \<and> fst (main lib inp) = None \<and> fst (main lib inp') = None"
  shows "snd (main lib inp) = snd (main lib inp')"
proof -
  have n: "resolvedEnvName inp = resolvedEnvName inp'"
    using b by (simp add: resolvedEnvName_def split: option.splits)
  from b main_passed [of lib inp] obtain envs e where
      1: "ctx_environments inp = Some envs"
         "lookupEnvironment envs (resolvedEnvName inp) = Some e"
         "main lib inp = buildStacks lib e new_App"
    by blast
  from b main_passed [of lib inp'] obtain envs' e' where
      2: "ctx_environments inp' = Some envs'"
         "lookupEnvironment envs' (resolvedEnvName inp') = Some e'"
         "main lib inp' = buildStacks lib e' new_App"
    by blast
  from b 1 2 n have "envs' = envs" "e' = e" by simp_all
  with 1 2 show ?thesis by simp
qed

section \<open>Names, tags and the stacks of the script\<close>

lemma alarmName_wireAlarm: "alarmName (wireAlarm t a) = alarmName a"
  by (simp add: wireAlarm_def addAlarmAction_def addOkAction_def)

lemma physicalName_ParamC: "c \<in> set (map ParamC ps) \<Longrightarrow> physicalName c = None"
  by auto

lemma spec_name_patternI:
  "spec_name_pattern pr en (pr @ CHR ''-'' # en @ CHR ''-'' # x # purpose)"
  by (simp add: spec_name_pattern_def)

lemma SQSStack_names:
  assumes r: "SQSStack lib sid p = Inr s"
      and c: "c \<in> set (children s)" and n: "physicalName c = Some n"
  shows "spec_name_pattern (projectName p) (environment p) n"
proof -
  from SQSStack_InrD [OF r] obtain ov rv :: Duration and a1 a2 a3 a4 ps where
       od: "sqs_orderDLQ lib p (queueEncryptionKey s) = Inr (orderDLQ s)"
   and rd: "sqs_resultDLQ lib p (queueEncryptionKey s) = Inr (resultDLQ s)"
   and oq: "sqs_orderQueue lib p (queueEncryptionKey s) (orderDLQ s) ov = Inr (orderQueue s)"
   and rq: "sqs_resultQueue lib p (queueEncryptionKey s) (resultDLQ s) rv = Inr (resultQueue s)"
   and r1: "sqs_webhookRole lib p (queueEncryptionKey s) (orderQueue s) = Inr (webhookRole s)"
   and r2: "sqs_workerRole lib p (queueEncryptionKey s) (orderQueue s) (resultQueue s)
              = Inr (workerRole s)"
   and r3: "sqs_feedbackRole lib p (queueEncryptionKey s) (orderQueue s) (resultQueue s)
              = Inr (feedbackRole s)"
   and a1: "sqs_orderQueueAgeAlarm lib p (orderQueue s) = Inr a1"
   and a2: "sqs_resultQueueAgeAlarm lib p (resultQueue s) = Inr a2"
   and a3: "sqs_orderDLQAlarm lib p (orderDLQ s) = Inr a3"
   and a4: "sqs_resultDLQAlarm lib p (resultDLQ s) = Inr a4"
   and t: "sqs_queueAlertTopic lib p (queueEncryptionKey s) = Inr (queueAlertTopic s)"
   and ch: "children s =
          [KeyC (queueEncryptionKey s),
           QueueC (orderDLQ s), QueueC (resultDLQ s), QueueC (orderQueue s), QueueC (resultQueue s),
           RoleC (webhookRole s), RoleC (workerRole s), RoleC (feedbackRole s)]
          @ map (AlarmC \<circ> wireAlarm (queueAlertTopic s)) [a1, a2, a3, a4]
          @ [TopicC (queueAlertTopic s)]
          @ map ParamC ps"
    by blast
  have names:
    "queueName (orderDLQ s) = projectName p @ ''-'' @ environment p @ ''-'' @ ''order-dlq''"
    "queueName (resultDLQ s) = projectName p @ ''-'' @ environment p @ ''-'' @ ''result-dlq''"
    "queueName (orderQueue s) = projectName p @ ''-'' @ environment p @ ''-'' @ ''order''"
    "queueName (resultQueue s) = projectName p @ ''-'' @ environment p @ ''-'' @ ''result''"
    "roleName (webhookRole s) = projectName p @ ''-'' @ environment p @ ''-'' @ ''webhook-role''"
    "roleName (workerRole s) = projectName p @ ''-'' @ environment p @ ''-'' @ ''worker-role''"
    "roleName (feedbackRole s) = projectName p @ ''-'' @ environment p @ ''-'' @ ''feedback-role''"
    "alarmName a1 = projectName p @ ''-'' @ environment p @ ''-'' @ ''order-message-age''"
    "alarmName a2 = projectName p @ ''-'' @ environment p @ ''-'' @ ''result-message-age''"
    "alarmName a3 = projectName p @ ''-'' @ environment p @ ''-'' @ ''order-dlq-messages''"
    "alarmName a4 = projectName p @ ''-'' @ environment p @ ''-'' @ ''result-dlq-messages''"
    "topicName (queueAlertTopic s) = projectName p @ ''-'' @ environment p @ ''-'' @ ''queue-alerts''"
    using sqs_orderDLQ_Inr [OF od] sqs_resultDLQ_Inr [OF rd] sqs_orderQueue_Inr [OF oq]
      sqs_resultQueue_Inr [OF rq] sqs_webhookRole_Inr [OF r1] sqs_workerRole_Inr [OF r2]
      sqs_feedbackRole_Inr [OF r3] sqs_alarms_Inr(1) [OF a1] sqs_alarms_Inr(2) [OF a2]
      sqs_alarms_Inr(3) [OF a3] sqs_alarms_Inr(4) [OF a4] sqs_queueAlertTopic_Inr [OF t]
    by (simp_all add: sqs_stackName_def)
  from c have "c \<in> {KeyC (queueEncryptionKey s),
           QueueC (orderDLQ s), QueueC (resultDLQ s), QueueC (orderQueue s), QueueC (resultQueue s),
           RoleC (webhookRole s), RoleC (workerRole s), RoleC (feedbackRole s),
           AlarmC (wireAlarm (queueAlertTopic s) a1), AlarmC (wireAlarm (queueAlertTopic s) a2),
           AlarmC (wireAlarm (queueAlertTopic s) a3), AlarmC (wireAlarm (queueAlertTopic s) a4),
           TopicC (queueAlertTopic s)} \<or> c \<in> set (map ParamC ps)"
    unfolding ch by auto
  then show ?thesis
  proof
    assume "c \<in> {KeyC (queueEncryptionKey s),
           QueueC (orderDLQ s), QueueC (resultDLQ s), QueueC (orderQueue s), QueueC (resultQueue s),
           RoleC (webhookRole s), RoleC (workerRole s), RoleC (feedbackRole s),
           AlarmC (wireAlarm (queueAlertTopic s) a1), AlarmC (wireAlarm (queueAlertTopic s) a2),
           AlarmC (wireAlarm (queueAlertTopic s) a3), AlarmC (wireAlarm (queueAlertTopic s) a4),
           TopicC (queueAlertTopic s)}"
    with n show ?thesis
      by (auto simp add: alarmName_wireAlarm names spec_name_patternI)
  next
    assume "c \<in> set (map ParamC ps)"
    from physicalName_ParamC [OF this] n show ?thesis by simp
  qed
qed

lemma gw_names_Inr:
  "gw_apiAlertTopic lib q = Inr t \<Longrightarrow>
     topicName t = api_projectName q @ ''-'' @ api_environment q @ ''-'' @ ''api-alerts''"
  "gw_error5xxAlarm lib q a = Inr a1 \<Longrightarrow>
     alarmName a1 = api_projectName q @ ''-'' @ api_environment q @ ''-'' @ ''api-5xx-errors''"
  "gw_latencyAlarm lib q a = Inr a2 \<Longrightarrow>
     alarmName a2 = api_projectName q @ ''-'' @ api_environment q @ ''-'' @ ''api-latency''"
  by (auto simp add: gw_apiAlertTopic_def gw_error5xxAlarm_def gw_latencyAlarm_def new_Inr_iff
        gw_stackName_def)

lemma ApiGatewayStack_names:
  assumes r: "ApiGatewayStack lib sid q = Inr g"
      and c: "c \<in> set (children g)" and n: "physicalName c = Some n"
  shows "case c of
           RestApiC _ \<Rightarrow> n = api_projectName q @ ''-telegram-bot-api-'' @ api_environment q
         | _ \<Rightarrow> spec_name_pattern (api_projectName q) (api_environment q) n"
proof -
  from ApiGatewayStack_InrD [OF r] obtain fn bpm a1 a2 ps where
       ra: "gw_restApi lib q fn = Inr (restApi g)"
   and t: "gw_apiAlertTopic lib q = Inr (apiAlertTopic g)"
   and a1: "gw_error5xxAlarm lib q (restApi g) = Inr a1"
   and a2: "gw_latencyAlarm lib q (restApi g) = Inr a2"
   and ch: "children g =
          [RestApiC (restApi g)]
          @ (case customDomain g of Created d \<Rightarrow> [DomainNameC d] | Imported _ \<Rightarrow> [])
          @ [BasePathMappingC bpm]
          @ (case dnsRecord g of Some r \<Rightarrow> [ARecordC r] | None \<Rightarrow> [])
          @ [TopicC (apiAlertTopic g)]
          @ map (AlarmC \<circ> wireAlarm (apiAlertTopic g)) [a1, a2]
          @ map ParamC ps"
    by blast
  from c n have "c \<in> {RestApiC (restApi g), TopicC (apiAlertTopic g),
           AlarmC (wireAlarm (apiAlertTopic g) a1), AlarmC (wireAlarm (apiAlertTopic g) a2)}"
    unfolding ch by (auto split: IDomainName.splits option.splits)
  with n show ?thesis
    by (auto simp add: alarmName_wireAlarm gw_restApi_Inr [OF ra] gw_names_Inr(1) [OF t]
          gw_names_Inr(2) [OF a1] gw_names_Inr(3) [OF a2] spec_name_patternI)
qed

lemma addTag_Inr_iff:
  "(addTag lib k v s = Inr s') =
     (\<exists>x. v = Some x \<and> lib (Call_Tag k v)
          \<and> s' = s\<lparr>stackTags := filter (\<lambda>kv. fst kv \<noteq> k) (stackTags s) @ [(k, x)]\<rparr>)"
  by (auto simp add: addTag_def attempt_Inr_iff split: option.splits)

lemma addTag_InrD:
  "addTag lib k v s = Inr s' \<Longrightarrow>
     children s' = children s \<and> stackId s' = stackId s \<and> dependencies s' = dependencies s
     \<and> lib (Call_Tag k v)"
  by (auto simp add: addTag_Inr_iff)

lemma buildGateway_NoneD:
  assumes "buildGateway lib (Entry cfg) s app = (None, app')"
  shows "if gatewayConfigured cfg
         then \<exists>g g'. ApiGatewayStack lib (''ApiGatewayStack-'' @ envName cfg)
                        (apiGatewayStack_props cfg) = Inr g
                \<and> children g' = children g
                \<and> stackId g' = ''ApiGatewayStack-'' @ envName cfg
                \<and> app' = addStack (Api g') app
         else app' = app"
proof (cases "gatewayConfigured cfg")
  case False
  with assms show ?thesis by (simp add: buildGateway_def)
next
  case True
  with assms obtain g t1 t2 where
      g: "ApiGatewayStack lib (''ApiGatewayStack-'' @ envName cfg) (apiGatewayStack_props cfg)
            = Inr g"
  and t1: "addTag lib ''app'' (Some ''telegram-webhook'') (addDependency g s) = Inr t1"
  and t2: "addTag lib ''env'' (Some (envName cfg)) t1 = Inr t2"
  and app': "app' = addStack (Api t2) app"
    by (auto simp add: buildGateway_def split: sum.splits)
  from ApiGatewayStack_InrD [OF g] have "stackId g = ''ApiGatewayStack-'' @ envName cfg"
    by blast
  with addTag_InrD [OF t1] addTag_InrD [OF t2]
  have "children t2 = children g \<and> stackId t2 = ''ApiGatewayStack-'' @ envName cfg"
    by (simp add: addDependency_def)
  with g app' True show ?thesis by auto
qed

lemma buildStacks_NoneD:
  assumes "buildStacks lib (Entry cfg) app = (None, app')"
  shows "\<exists>s s'. SQSStack lib (''DualQueueMessageStack-'' @ envName cfg)
                  (sqsStack_props (Entry cfg)) = Inr s
           \<and> children s' = children s
           \<and> stackId s' = ''DualQueueMessageStack-'' @ envName cfg
           \<and> lib (Call_Tag ''app'' (Some ''telegram-webhook''))
           \<and> lib (Call_Tag ''env'' (Some (envName cfg)))
           \<and> (if gatewayConfigured cfg
              then \<exists>g g'. ApiGatewayStack lib (''ApiGatewayStack-'' @ envName cfg)
                        (apiGatewayStack_props cfg) = Inr g
                     \<and> children g' = children g
                     \<and> stackId g' = ''ApiGatewayStack-'' @ envName cfg
                     \<and> stacks app' = stacks app @ [SQS s', Api g']
              else stacks app' = stacks app @ [SQS s'])"
proof -
  from assms obtain s t1 t2 where
      s: "SQSStack lib (''DualQueueMessageStack-'' @ envName cfg) (sqsStack_props (Entry cfg))
            = Inr s"
  and t1: "addTag lib ''app'' (Some ''telegram-webhook'') s = Inr t1"
  and t2: "addTag lib ''env'' (Some (envName cfg)) t1 = Inr t2"
  and gw: "buildGateway lib (Entry cfg) t2 (addStack (SQS t2) app) = (None, app')"
    by (auto simp add: buildStacks_def entry_envName_def str_def split: sum.splits)
  from SQSStack_InrD [OF s] have "stackId s = ''DualQueueMessageStack-'' @ envName cfg"
    by blast
  with addTag_InrD [OF t1] addTag_InrD [OF t2]
  have k: "children t2 = children s" "stackId t2 = ''DualQueueMessageStack-'' @ envName cfg"
      "lib (Call_Tag ''app'' (Some ''telegram-webhook''))"
      "lib (Call_Tag ''env'' (Some (envName cfg)))"
    by simp_all
  show ?thesis
  proof (cases "gatewayConfigured cfg")
    case True
    with buildGateway_NoneD [OF gw] obtain g g' where
      "ApiGatewayStack lib (''ApiGatewayStack-'' @ envName cfg) (apiGatewayStack_props cfg) = Inr g"
      "children g' = children g" "stackId g' = ''ApiGatewayStack-'' @ envName cfg"
      "app' = addStack (Api g') (addStack (SQS t2) app)"
      by auto
    with s k True show ?thesis
      by (auto simp add: addStack_def)
  next
    case False
    with buildGateway_NoneD [OF gw] have "app' = addStack (SQS t2) app" by simp
    with s k False show ?thesis
      by (auto simp add: addStack_def)
  qed
qed

lemma buildStacks_no_gateway:
  assumes "\<not> gatewayConfigured cfg"
      and "SQSStack lib (''DualQueueMessageStack-'' @ envName cfg) (sqsStack_props (Entry cfg))
             = Inr s"
      and "lib (Call_Tag ''app'' (Some ''telegram-webhook''))"
      and "lib (Call_Tag ''env'' (Some (envName cfg)))"
  shows "fst (buildStacks lib (Entry cfg) app) = None"
  using assms
  by (simp add: buildStacks_def buildGateway_def entry_envName_def str_def addTag_def
        attempt_def)

lemma buildStacks_first:
  "\<exists>st rest. stacks (snd (buildStacks lib (Entry cfg) app)) = stacks app @ st # rest
      \<and> stackIdOf st = ''DualQueueMessageStack-'' @ envName cfg \<and> \<not> isGateway st"
proof (cases "SQSStack lib (''DualQueueMessageStack-'' @ envName cfg) (sqsStack_props (Entry cfg))")
  case (Inl e)
  then show ?thesis
    by (simp add: buildStacks_def entry_envName_def str_def addStack_def stackIdOf_def
          isGateway_def)
next
  case (Inr s)
  from SQSStack_InrD [OF Inr] have i: "stackId s = ''DualQueueMessageStack-'' @ envName cfg"
    by blast
  show ?thesis
  proof (cases "addTag lib ''app'' (Some ''telegram-webhook'') s")
    case (Inl e)
    with Inr i show ?thesis
      by (simp add: buildStacks_def entry_envName_def str_def addStack_def stackIdOf_def
          isGateway_def)
  next
    case t1: (Inr t1)
    show ?thesis
    proof (cases "addTag lib ''env'' (Some (envName cfg)) t1")
      case (Inl e)
      with Inr t1 i addTag_InrD [OF t1] show ?thesis
        by (simp add: buildStacks_def entry_envName_def str_def addStack_def stackIdOf_def
          isGateway_def)
    next
      case t2: (Inr t2)
      with Inr t1 i addTag_InrD [OF t1] addTag_InrD [OF t2] show ?thesis
        by (auto simp add: buildStacks_def buildGateway_def entry_envName_def str_def
              addStack_def stackIdOf_def isGateway_def split: sum.splits)
    qed
  qed
qed

lemma main_unfold:
  assumes "ctx_environments inp = Some envs"
      and "map_of envs (resolvedEnvName inp) = Some cfg"
  shows "main lib inp =
     (case accountCheck (AWS_ACCOUNT_ID inp) (Entry cfg) (resolvedEnvName inp) of
        Some e \<Rightarrow> (Some e, new_App)
      | None \<Rightarrow> buildStacks lib (Entry cfg) new_App)"
proof -
  from assms(2) have "envs \<noteq> []" by auto
  with assms show ?thesis
    by (simp add: main_def Let_def lookupEnvironment_def)
qed

section \<open>Errors after the checks\<close>

text \<open>Whatever is thrown after the checks of the script is thrown by the library.\<close>

lemma andThen_InlE:
  assumes "andThen m f = Inl e"
      and "m = Inl e \<Longrightarrow> P"
      and "\<And>x. f x = Inl e \<Longrightarrow> P"
  shows P
  using assms by (cases m) (auto simp add: andThen_def)

lemma attempt_Inl: "attempt lib c x = Inl e \<Longrightarrow> \<exists>c. e = Rejected c"
  by (auto simp add: attempt_def split: if_splits)

lemma new_Inl:
  "new_Stack lib sid p = Inl e \<Longrightarrow> \<exists>c. e = Rejected c"
  "Duration_seconds lib n = Inl e \<Longrightarrow> \<exists>c. e = Rejected c"
  "new_Queue lib q = Inl e \<Longrightarrow> \<exists>c. e = Rejected c"
  "new_Key lib k = Inl e \<Longrightarrow> \<exists>c. e = Rejected c"
  "new_Role lib r = Inl e \<Longrightarrow> \<exists>c. e = Rejected c"
  "new_Alarm lib a = Inl e \<Longrightarrow> \<exists>c. e = Rejected c"
  "new_Topic lib t = Inl e \<Longrightarrow> \<exists>c. e = Rejected c"
  "new_StringParameter lib x = Inl e \<Longrightarrow> \<exists>c. e = Rejected c"
  "new_RestApi lib ra = Inl e \<Longrightarrow> \<exists>c. e = Rejected c"
  "new_DomainName lib d = Inl e \<Longrightarrow> \<exists>c. e = Rejected c"
  "new_BasePathMapping lib m = Inl e \<Longrightarrow> \<exists>c. e = Rejected c"
  "new_ARecord lib ar = Inl e \<Longrightarrow> \<exists>c. e = Rejected c"
  "addTag lib k' v s = Inl e \<Longrightarrow> \<exists>c. e = Rejected c"
  by (auto simp add: new_Stack_def Duration_seconds_def new_Queue_def new_Key_def new_Role_def
        new_Alarm_def new_Topic_def new_StringParameter_def new_RestApi_def new_DomainName_def
        new_BasePathMapping_def new_ARecord_def addTag_def attempt_def
        split: if_splits option.splits)

lemma new_StringParameters_Inl:
  "new_StringParameters lib xs = Inl e \<Longrightarrow> \<exists>c. e = Rejected c"
proof (induction xs arbitrary: e)
  case Nil
  then show ?case by simp
next
  case (Cons x xs)
  from Cons.prems show ?case
    apply simp
    apply (erule andThen_InlE)
     apply (erule new_Inl)
    apply (erule andThen_InlE)
     apply (erule Cons.IH)
    apply simp
    done
qed

lemma sqs_steps_Inl:
  "sqs_queueEncryptionKey lib p = Inl e \<Longrightarrow> \<exists>c. e = Rejected c"
  "sqs_orderDLQ lib p k = Inl e \<Longrightarrow> \<exists>c. e = Rejected c"
  "sqs_resultDLQ lib p k = Inl e \<Longrightarrow> \<exists>c. e = Rejected c"
  "sqs_orderVisibility lib p = Inl e \<Longrightarrow> \<exists>c. e = Rejected c"
  "sqs_orderQueue lib p k d v = Inl e \<Longrightarrow> \<exists>c. e = Rejected c"
  "sqs_resultVisibility lib p = Inl e \<Longrightarrow> \<exists>c. e = Rejected c"
  "sqs_resultQueue lib p k d v = Inl e \<Longrightarrow> \<exists>c. e = Rejected c"
  "sqs_webhookRole lib p k oq = Inl e \<Longrightarrow> \<exists>c. e = Rejected c"
  "sqs_workerRole lib p k oq rq = Inl e \<Longrightarrow> \<exists>c. e = Rejected c"
  "sqs_feedbackRole lib p k oq rq = Inl e \<Longrightarrow> \<exists>c. e = Rejected c"
  "sqs_orderQueueAgeAlarm lib p oq = Inl e \<Longrightarrow> \<exists>c. e = Rejected c"
  "sqs_resultQueueAgeAlarm lib p rq = Inl e \<Longrightarrow> \<exists>c. e = Rejected c"
  "sqs_orderDLQAlarm lib p d = Inl e \<Longrightarrow> \<exists>c. e = Rejected c"
  "sqs_resultDLQAlarm lib p d = Inl e \<Longrightarrow> \<exists>c. e = Rejected c"
  "sqs_queueAlertTopic lib p k = Inl e \<Longrightarrow> \<exists>c. e = Rejected c"
  "sqs_parameters lib p oq rq v v' r1 r2 r3 t = Inl e \<Longrightarrow> \<exists>c. e = Rejected c"
  unfolding sqs_queueEncryptionKey_def sqs_orderDLQ_def sqs_resultDLQ_def
    sqs_orderVisibility_def sqs_orderQueue_def sqs_resultVisibility_def sqs_resultQueue_def
    sqs_webhookRole_def sqs_workerRole_def sqs_feedbackRole_def sqs_orderQueueAgeAlarm_def
    sqs_resultQueueAgeAlarm_def sqs_orderDLQAlarm_def sqs_resultDLQAlarm_def
    sqs_queueAlertTopic_def sqs_parameters_def
  by (erule new_Inl new_StringParameters_Inl)+

lemma SQSStack_Inl:
  "SQSStack lib sid p = Inl e \<Longrightarrow> \<exists>c. e = Rejected c"
  unfolding SQSStack_def
  apply (erule andThen_InlE, erule new_Inl)
  apply (erule andThen_InlE, erule sqs_steps_Inl)+
  apply simp
  done

lemma gw_steps_Inl:
  "gw_lambdaFunction lib q = Inl e \<Longrightarrow> \<exists>c. e = Rejected c"
  "gw_restApi lib q fn = Inl e \<Longrightarrow> \<exists>c. e = Rejected c"
  "gw_customDomain lib q = Inl e \<Longrightarrow> \<exists>c. e = Rejected c"
  "gw_basePathMapping lib q ra d = Inl e \<Longrightarrow> \<exists>c. e = Rejected c"
  "gw_dnsRecord lib q = Inl e \<Longrightarrow> \<exists>c. e = Rejected c"
  "gw_apiAlertTopic lib q = Inl e \<Longrightarrow> \<exists>c. e = Rejected c"
  "gw_error5xxAlarm lib q ra = Inl e \<Longrightarrow> \<exists>c. e = Rejected c"
  "gw_latencyAlarm lib q ra = Inl e \<Longrightarrow> \<exists>c. e = Rejected c"
  "gw_parameters lib q ra arn = Inl e \<Longrightarrow> \<exists>c. e = Rejected c"
proof -
  show "gw_lambdaFunction lib q = Inl e \<Longrightarrow> \<exists>c. e = Rejected c"
    unfolding gw_lambdaFunction_def by (erule attempt_Inl)
  show "gw_restApi lib q fn = Inl e \<Longrightarrow> \<exists>c. e = Rejected c"
    unfolding gw_restApi_def by (erule new_Inl)
  show "gw_customDomain lib q = Inl e \<Longrightarrow> \<exists>c. e = Rejected c"
    unfolding gw_customDomain_def
    by (auto elim!: andThen_InlE dest: attempt_Inl new_Inl split: if_splits)
  show "gw_basePathMapping lib q ra d = Inl e \<Longrightarrow> \<exists>c. e = Rejected c"
    unfolding gw_basePathMapping_def by (erule new_Inl)
  show "gw_dnsRecord lib q = Inl e \<Longrightarrow> \<exists>c. e = Rejected c"
    unfolding gw_dnsRecord_def
    by (auto elim!: andThen_InlE dest: attempt_Inl new_Inl split: if_splits)
  show "gw_apiAlertTopic lib q = Inl e \<Longrightarrow> \<exists>c. e = Rejected c"
    unfolding gw_apiAlertTopic_def by (erule new_Inl)
  show "gw_error5xxAlarm lib q ra = Inl e \<Longrightarrow> \<exists>c. e = Rejected c"
    unfolding gw_error5xxAlarm_def by (erule new_Inl)
  show "gw_latencyAlarm lib q ra = Inl e \<Longrightarrow> \<exists>c. e = Rejected c"
    unfolding gw_latencyAlarm_def by (erule new_Inl)
  show "gw_parameters lib q ra arn = Inl e \<Longrightarrow> \<exists>c. e = Rejected c"
    unfolding gw_parameters_def by (erule new_StringParameters_Inl)
qed

lemma ApiGatewayStack_Inl:
  "ApiGatewayStack lib sid q = Inl e \<Longrightarrow> \<exists>c. e = Rejected c"
  unfolding ApiGatewayStack_def
  apply (erule andThen_InlE, erule new_Inl)
  apply (erule andThen_InlE, erule gw_steps_Inl)+
  apply simp
  done

lemma buildStacks_error:
  assumes "fst (buildStacks lib ent app) = Some e"
  shows "\<exists>c. e = Rejected c"
  using assms
  by (auto simp add: buildStacks_def buildGateway_def
        split: sum.splits entry.splits if_splits
        dest: SQSStack_Inl ApiGatewayStack_Inl new_Inl(13))

lemma buildStacks_succeeds:
  assumes "SQSStack lib (''DualQueueMessageStack-'' @ envName cfg) (sqsStack_props (Entry cfg))
             = Inr s"
      and "lib (Call_Tag ''app'' (Some ''telegram-webhook''))"
      and "lib (Call_Tag ''env'' (Some (envName cfg)))"
      and "gatewayConfigured cfg \<longrightarrow>
             (\<exists>g. ApiGatewayStack lib (''ApiGatewayStack-'' @ envName cfg)
                    (apiGatewayStack_props cfg) = Inr g)"
  shows "fst (buildStacks lib (Entry cfg) app) = None"
  using assms
  by (auto simp add: buildStacks_def buildGateway_def entry_envName_def str_def addTag_def
        attempt_def)

lemma buildStacks_None_iff:
  "(fst (buildStacks lib (Entry cfg) app) = None) =
     ((\<exists>s. SQSStack lib (''DualQueueMessageStack-'' @ envName cfg)
              (sqsStack_props (Entry cfg)) = Inr s)
      \<and> lib (Call_Tag ''app'' (Some ''telegram-webhook''))
      \<and> lib (Call_Tag ''env'' (Some (envName cfg)))
      \<and> (gatewayConfigured cfg \<longrightarrow>
           (\<exists>g. ApiGatewayStack lib (''ApiGatewayStack-'' @ envName cfg)
                  (apiGatewayStack_props cfg) = Inr g)))"
proof
  assume "fst (buildStacks lib (Entry cfg) app) = None"
  then have "buildStacks lib (Entry cfg) app = (None, snd (buildStacks lib (Entry cfg) app))"
    by (metis prod.collapse)
  from buildStacks_NoneD [OF this] show
    "(\<exists>s. SQSStack lib (''DualQueueMessageStack-'' @ envName cfg)
              (sqsStack_props (Entry cfg)) = Inr s)
      \<and> lib (Call_Tag ''app'' (Some ''telegram-webhook''))
      \<and> lib (Call_Tag ''env'' (Some (envName cfg)))
      \<and> (gatewayConfigured cfg \<longrightarrow>
           (\<exists>g. ApiGatewayStack lib (''ApiGatewayStack-'' @ envName cfg)
                  (apiGatewayStack_props cfg) = Inr g))"
    by (auto split: if_splits)
next
  assume "(\<exists>s. SQSStack lib (''DualQueueMessageStack-'' @ envName cfg)
              (sqsStack_props (Entry cfg)) = Inr s)
      \<and> lib (Call_Tag ''app'' (Some ''telegram-webhook''))
      \<and> lib (Call_Tag ''env'' (Some (envName cfg)))
      \<and> (gatewayConfigured cfg \<longrightarrow>
           (\<exists>g. ApiGatewayStack lib (''ApiGatewayStack-'' @ envName cfg)
                  (apiGatewayStack_props cfg) = Inr g))"
  then show "fst (buildStacks lib (Entry cfg) app) = None"
    using buildStacks_succeeds [of lib cfg _ app] by blast
qed

lemma buildStacks_kinds:
  assumes "fst (buildStacks lib (Entry cfg) new_App) = None"
  shows "map isGateway (stacks (snd (buildStacks lib (Entry cfg) new_App)))
           = False # (if gatewayConfigured cfg then [True] else [])
       \<and> list_all isFinished (stacks (snd (buildStacks lib (Entry cfg) new_App)))
       \<and> map stackIdOf (stacks (snd (buildStacks lib (Entry cfg) new_App)))
           = (''DualQueueMessageStack-'' @ envName cfg)
             # (if gatewayConfigured cfg then [''ApiGatewayStack-'' @ envName cfg] else [])"
proof -
  from assms have "buildStacks lib (Entry cfg) new_App
      = (None, snd (buildStacks lib (Entry cfg) new_App))"
    by (metis prod.collapse)
  from buildStacks_NoneD [OF this] show ?thesis
    by (auto simp add: new_App_def isGateway_def isFinished_def stackIdOf_def split: if_splits)
qed

lemma buildStacks_stacks:
  assumes "st \<in> set (stacks (snd (buildStacks lib (Entry cfg) app)))"
  shows "st \<in> set (stacks app) \<or> childrenOf st = []
     \<or> (\<exists>s s'. st = SQS s'
           \<and> SQSStack lib (''DualQueueMessageStack-'' @ envName cfg)
               (sqsStack_props (Entry cfg)) = Inr s
           \<and> children s' = children s)
     \<or> (\<exists>g g'. st = Api g'
           \<and> ApiGatewayStack lib (''ApiGatewayStack-'' @ envName cfg)
               (apiGatewayStack_props cfg) = Inr g
           \<and> children g' = children g)"
proof (cases "SQSStack lib (''DualQueueMessageStack-'' @ envName cfg) (sqsStack_props (Entry cfg))")
  case (Inl e)
  with assms show ?thesis
    by (auto simp add: buildStacks_def entry_envName_def str_def addStack_def childrenOf_def)
next
  case s: (Inr s)
  show ?thesis
  proof (cases "addTag lib ''app'' (Some ''telegram-webhook'') s")
    case (Inl e)
    with assms s show ?thesis
      by (auto simp add: buildStacks_def entry_envName_def str_def addStack_def)
  next
    case t1: (Inr t1)
    show ?thesis
    proof (cases "addTag lib ''env'' (Some (envName cfg)) t1")
      case (Inl e)
      with assms s t1 addTag_InrD [OF t1] show ?thesis
        by (auto simp add: buildStacks_def entry_envName_def str_def addStack_def)
    next
      case t2: (Inr t2)
      from addTag_InrD [OF t1] addTag_InrD [OF t2] have ch2: "children t2 = children s"
        by simp
      from assms s t1 t2 have m: "st \<in> set (stacks (snd (buildGateway lib (Entry cfg) t2
                 (addStack (SQS t2) app))))"
        by (simp add: buildStacks_def entry_envName_def str_def)
      show ?thesis
      proof (cases "gatewayConfigured cfg")
        case False
        with m s ch2 show ?thesis
          by (auto simp add: buildGateway_def addStack_def)
      next
        case True
        show ?thesis
        proof (cases "ApiGatewayStack lib (''ApiGatewayStack-'' @ envName cfg)
                        (apiGatewayStack_props cfg)")
          case (Inl e)
          with m s ch2 True show ?thesis
            by (auto simp add: buildGateway_def addStack_def childrenOf_def)
        next
          case g: (Inr g)
          have d: "children (addDependency g t2) = children g"
            by (simp add: addDependency_def)
          show ?thesis
          proof (cases "addTag lib ''app'' (Some ''telegram-webhook'') (addDependency g t2)")
            case (Inl e)
            with m s ch2 True g d show ?thesis
              by (auto simp add: buildGateway_def addStack_def)
          next
            case u1: (Inr u1)
            show ?thesis
            proof (cases "addTag lib ''env'' (Some (envName cfg)) u1")
              case (Inl e)
              with m s ch2 True g d u1 addTag_InrD [OF u1] show ?thesis
                by (auto simp add: buildGateway_def addStack_def)
            next
              case u2: (Inr u2)
              with m s ch2 True g d u1 addTag_InrD [OF u1] addTag_InrD [OF u2] show ?thesis
                by (auto simp add: buildGateway_def addStack_def)
            qed
          qed
        qed
      qed
    qed
  qed
qed

lemma legal_script_ids:
  "\<not> illegalStackId ''DualQueueMessageStack-dev''"
  "\<not> illegalStackId ''DualQueueMessageStack-prod''"
  "\<not> illegalStackId ''ApiGatewayStack-prod''"
  "illegalStackId ''DualQueueMessageStack-my_env''"
  by (simp_all add: illegalStackId_def legalStackName_def isLetter_def isDigit_def)

lemma buildStacks_permissive:
  assumes "\<not> illegalStackId (''DualQueueMessageStack-'' @ envName cfg)"
      and "gatewayConfigured cfg \<longrightarrow> \<not> illegalStackId (''ApiGatewayStack-'' @ envName cfg)"
  shows "fst (buildStacks permissive (Entry cfg) app) = None"
proof -
  have "\<exists>s. SQSStack permissive (''DualQueueMessageStack-'' @ envName cfg)
              (sqsStack_props (Entry cfg)) = Inr s"
    by (rule SQSStack_permissive [OF assms(1)]) (simp_all add: sqsStack_props_def orElse_def)
  moreover have "gatewayConfigured cfg \<longrightarrow>
           (\<exists>g. ApiGatewayStack permissive (''ApiGatewayStack-'' @ envName cfg)
                  (apiGatewayStack_props cfg) = Inr g)"
    using assms(2) ApiGatewayStack_permissive by blast
  ultimately show ?thesis
    by (simp add: buildStacks_None_iff permissive_def)
qed

lemma SQSStack_illegal:
  "illegalStackId sid \<Longrightarrow> isl (SQSStack lib sid p)"
  by (simp add: SQSStack_def new_Stack_def andThen_Inl)

section \<open>The example invocations\<close>

lemma accountCheck_passes:
  "\<not> (truthy (AWS_ACCOUNT_ID inp) \<and> AWS_ACCOUNT_ID inp \<noteq> Some (account cfg)) \<Longrightarrow>
     accountCheck (AWS_ACCOUNT_ID inp) (Entry cfg) (resolvedEnvName inp) = None"
  by (cases "AWS_ACCOUNT_ID inp") (auto simp add: accountCheck_def entry_account_def)

lemma example_main:
  "main lib (example_invocation ''dev'' provided)
     = (case accountCheck provided (Entry dev_config) ''dev'' of
          Some e \<Rightarrow> (Some e, new_App)
        | None \<Rightarrow> buildStacks lib (Entry dev_config) new_App)"
  "main lib (example_invocation ''prod'' provided)
     = (case accountCheck provided (Entry prod_config) ''prod'' of
          Some e \<Rightarrow> (Some e, new_App)
        | None \<Rightarrow> buildStacks lib (Entry prod_config) new_App)"
  "main lib (example_invocation ''import-only'' provided)
     = (case accountCheck provided (Entry import_only_config) ''import-only'' of
          Some e \<Rightarrow> (Some e, new_App)
        | None \<Rightarrow> buildStacks lib (Entry import_only_config) new_App)"
  "main lib underscore_invocation
     = buildStacks lib (Entry (dev_config\<lparr>envName := ''my_env''\<rparr>)) new_App"
proof -
  have r: "resolvedEnvName (example_invocation n provided) = n" for n
    by (simp add: resolvedEnvName_def example_invocation_def)
  show "main lib (example_invocation ''dev'' provided)
     = (case accountCheck provided (Entry dev_config) ''dev'' of
          Some e \<Rightarrow> (Some e, new_App)
        | None \<Rightarrow> buildStacks lib (Entry dev_config) new_App)"
    using main_unfold [of "example_invocation ''dev'' provided" _ dev_config lib]
    by (simp add: r) (simp add: example_invocation_def)
  show "main lib (example_invocation ''prod'' provided)
     = (case accountCheck provided (Entry prod_config) ''prod'' of
          Some e \<Rightarrow> (Some e, new_App)
        | None \<Rightarrow> buildStacks lib (Entry prod_config) new_App)"
    using main_unfold [of "example_invocation ''prod'' provided" _ prod_config lib]
    by (simp add: r) (simp add: example_invocation_def)
  show "main lib (example_invocation ''import-only'' provided)
     = (case accountCheck provided (Entry import_only_config) ''import-only'' of
          Some e \<Rightarrow> (Some e, new_App)
        | None \<Rightarrow> buildStacks lib (Entry import_only_config) new_App)"
    using main_unfold [of "example_invocation ''import-only'' provided" _ import_only_config lib]
    by (simp add: r) (simp add: example_invocation_def)
  have r': "resolvedEnvName underscore_invocation = ''my_env''"
    by (simp add: resolvedEnvName_def underscore_invocation_def)
  show "main lib underscore_invocation
     = buildStacks lib (Entry (dev_config\<lparr>envName := ''my_env''\<rparr>)) new_App"
    using main_unfold [of underscore_invocation _ "dev_config\<lparr>envName := ''my_env''\<rparr>" lib]
    by (simp add: r') (simp add: underscore_invocation_def accountCheck_def)
qed

lemma example_configs:
  "envName dev_config = ''dev''" "envName prod_config = ''prod''"
  "envName import_only_config = ''prod''"
  "\<not> gatewayConfigured dev_config" "gatewayConfigured prod_config"
  "\<not> gatewayConfigured import_only_config"
  "spec_complete_domain_configuration import_only_config"
  by (simp_all add: dev_config_def prod_config_def import_only_config_def gatewayConfigured_def
        spec_complete_domain_configuration_def)

lemma example_builds:
  "fst (buildStacks permissive (Entry dev_config) new_App) = None"
  "fst (buildStacks permissive (Entry prod_config) new_App) = None"
  "fst (buildStacks permissive (Entry import_only_config) new_App) = None"
  by (rule buildStacks_permissive; simp add: example_configs legal_script_ids)+

lemma underscore_environment_rejected:
  "fst (main lib underscore_invocation) \<noteq> None
   \<and> stacks (snd (main lib underscore_invocation))
       = [Unfinished ''DualQueueMessageStack-my_env'']"
proof -
  have "isl (SQSStack lib ''DualQueueMessageStack-my_env''
               (sqsStack_props (Entry (dev_config\<lparr>envName := ''my_env''\<rparr>))))"
    by (rule SQSStack_illegal) (rule legal_script_ids)
  then obtain e where "SQSStack lib ''DualQueueMessageStack-my_env''
               (sqsStack_props (Entry (dev_config\<lparr>envName := ''my_env''\<rparr>))) = Inl e"
    by (auto simp add: isl_def)
  then show ?thesis
    by (simp add: example_main buildStacks_def entry_envName_def str_def addStack_def
          new_App_def)
qed



lemma restApisOf_mem: "RestApiC a \<in> set cs \<Longrightarrow> a \<in> set (restApisOf cs)"
  by (induction cs rule: restApisOf.induct) auto

lemma explicit_agrees:
  "env test_sqs_props = env explicit_sqs_props
      \<and> description test_sqs_props = description explicit_sqs_props
      \<and> (case tags test_sqs_props of None \<Rightarrow> [] | Some ts \<Rightarrow> ts)
          = (case tags explicit_sqs_props of None \<Rightarrow> [] | Some ts \<Rightarrow> ts)
      \<and> environment test_sqs_props = environment explicit_sqs_props
      \<and> projectName test_sqs_props = projectName explicit_sqs_props
      \<and> (case enableEncryption test_sqs_props of None \<Rightarrow> True | Some b \<Rightarrow> b)
          = (case enableEncryption explicit_sqs_props of None \<Rightarrow> True | Some b \<Rightarrow> b)
      \<and> (case Option.bind (orderQueueConfig test_sqs_props) visibilityTimeoutSeconds of Some v \<Rightarrow> v | None \<Rightarrow> 300)
          = (case Option.bind (orderQueueConfig explicit_sqs_props) visibilityTimeoutSeconds of Some v \<Rightarrow> v | None \<Rightarrow> 300)
      \<and> (case Option.bind (orderQueueConfig test_sqs_props) maxReceiveCount of Some v \<Rightarrow> v | None \<Rightarrow> 3)
          = (case Option.bind (orderQueueConfig explicit_sqs_props) maxReceiveCount of Some v \<Rightarrow> v | None \<Rightarrow> 3)
      \<and> (case Option.bind (resultQueueConfig test_sqs_props) visibilityTimeoutSeconds of Some v \<Rightarrow> v | None \<Rightarrow> 180)
          = (case Option.bind (resultQueueConfig explicit_sqs_props) visibilityTimeoutSeconds of Some v \<Rightarrow> v | None \<Rightarrow> 180)
      \<and> (case Option.bind (resultQueueConfig test_sqs_props) maxReceiveCount of Some v \<Rightarrow> v | None \<Rightarrow> 3)
          = (case Option.bind (resultQueueConfig explicit_sqs_props) maxReceiveCount of Some v \<Rightarrow> v | None \<Rightarrow> 3)"
  by (simp add: explicit_sqs_props_def test_sqs_props_def)

section \<open>The rendering of numbers\<close>

text \<open>The configuration parameter of the test stack, as the tests of the repository read it.\<close>

lemma show_int_examples:
  "show_int 300 = ''300''" "show_int 0 = ''0''" "show_int (- 5) = ''-5''"
  "show_int 180 = ''180''" "show_int 3 = ''3''"
  by code_simp+

lemma queue_config_default:
  assumes "SQSStack lib ''TestStack'' test_sqs_props = Inr s"
  shows \<open>stringValue (parametersOf (children s) ! 4)
     = Lit ''{"orderQueue":{"visibilityTimeout":300,"maxReceiveCount":3},"resultQueue":{"visibilityTimeout":180,"maxReceiveCount":3}}''\<close>
proof -
  from SQSStack_InrD [OF assms] obtain ov rv ps where
       ov: "sqs_orderVisibility lib test_sqs_props = Inr ov"
   and rv: "sqs_resultVisibility lib test_sqs_props = Inr rv"
   and ps: "sqs_parameters lib test_sqs_props (orderQueue s) (resultQueue s) ov rv
              (webhookRole s) (workerRole s) (feedbackRole s) (queueAlertTopic s) = Inr ps"
   and ch: "parametersOf (children s) = ps"
    by (auto simp add: Of_append Of_ParamC)
  have d: "orderQueueConfig test_sqs_props = None" "resultQueueConfig test_sqs_props = None"
    by (simp_all add: test_sqs_props_def)
  have v: "toSeconds ov = 300" "toSeconds rv = 180"
    using sqs_orderVisibility_Inr [OF ov] sqs_resultVisibility_Inr [OF rv]
    by (simp_all add: d orElse_def)
  have m: "sqs_orderMaxReceive test_sqs_props = 3" "sqs_resultMaxReceive test_sqs_props = 3"
    by (simp_all add: sqs_orderMaxReceive_def sqs_resultMaxReceive_def d orElse_def)
  from ps have "stringValue (ps ! 4) = Lit (queueConfigJson 300 3 180 3)"
    unfolding sqs_parameters_def
    by (drule_tac new_StringParameters_InrD) (simp add: v m)
  then show ?thesis
    by (simp add: ch queueConfigJson_def show_int_examples)
qed

section \<open>The messaging stack: policies, queues, encryption, alarms\<close>

text \<open>
  Every statement below about a messaging stack is about a stack the constructor
  returned, for an arbitrary construct library: whichever calls the library goes through
  with, a stack that is returned is as stated.
\<close>

text \<open>
  C1. Whatever the properties, in every stack the constructor returns: every statement of
  the inline policy of the webhook role names only the order queue and the key; every
  statement of the worker role and of the feedback role names only the order queue, the
  result queue and the key; the three references are different from one another; no
  statement of the three roles has the wildcard among its resources; and among the
  statements of each role exactly one grants a key action, namely decrypt and
  generate-data-key on the key alone.
\<close>

theorem role_statements_scoped:
  assumes "SQSStack lib sid p = Inr s"
  shows "(\<forall>st \<in> set (statementsOf (webhookRole s)).
      set (resources st) \<subseteq> {queueArn (orderQueue s), keyArn (queueEncryptionKey s)})
   \<and> (\<forall>st \<in> set (statementsOf (workerRole s)).
      set (resources st) \<subseteq> {queueArn (orderQueue s), queueArn (resultQueue s),
                               keyArn (queueEncryptionKey s)})
   \<and> (\<forall>st \<in> set (statementsOf (feedbackRole s)).
      set (resources st) \<subseteq> {queueArn (resultQueue s), queueArn (orderQueue s),
                               keyArn (queueEncryptionKey s)})
   \<and> distinct [queueArn (orderQueue s), queueArn (resultQueue s),
                keyArn (queueEncryptionKey s)]
   \<and> (\<forall>r \<in> {webhookRole s, workerRole s, feedbackRole s}.
        (\<forall>st \<in> set (statementsOf r). Lit ''*'' \<notin> set (resources st))
        \<and> filter grantsKeyUse (statementsOf r)
            = [\<lparr>effect = ALLOW,
                actions = [''kms:Decrypt'', ''kms:GenerateDataKey''],
                resources = [keyArn (queueEncryptionKey s)],
                conditions = None\<rparr>])"
proof -
  from SQSStack_InrD [OF assms] obtain ov rv :: Duration where
       k: "sqs_queueEncryptionKey lib p = Inr (queueEncryptionKey s)"
   and oq: "sqs_orderQueue lib p (queueEncryptionKey s) (orderDLQ s) ov = Inr (orderQueue s)"
   and rq: "sqs_resultQueue lib p (queueEncryptionKey s) (resultDLQ s) rv = Inr (resultQueue s)"
   and r1: "sqs_webhookRole lib p (queueEncryptionKey s) (orderQueue s) = Inr (webhookRole s)"
   and r2: "sqs_workerRole lib p (queueEncryptionKey s) (orderQueue s) (resultQueue s)
              = Inr (workerRole s)"
   and r3: "sqs_feedbackRole lib p (queueEncryptionKey s) (orderQueue s) (resultQueue s)
              = Inr (feedbackRole s)"
    by blast
  have ids: "keyId (queueEncryptionKey s) = ''QueueEncryptionKey''"
       "queueId (orderQueue s) = ''OrderQueue''" "queueId (resultQueue s) = ''ResultQueue''"
    using sqs_queueEncryptionKey_Inr [OF k] sqs_orderQueue_Inr [OF oq] sqs_resultQueue_Inr [OF rq]
    by simp_all
  show ?thesis
    using sqs_webhookRole_Inr [OF r1] sqs_workerRole_Inr [OF r2] sqs_feedbackRole_Inr [OF r3]
    by (simp add: grantsKeyUse_def queueArn_def keyArn_def ids)
qed

theorem role_statements_scoped_witness:
  "\<exists>s. SQSStack permissive ''TestStack'' test_sqs_props = Inr s
     \<and> statementsOf (webhookRole s) \<noteq> []
     \<and> hd (statementsOf (webhookRole s)) \<in> set (statementsOf (webhookRole s))
     \<and> set (resources (hd (statementsOf (webhookRole s))))
         \<subseteq> {Tok ''OrderQueue'' ''queueArn'', Tok ''QueueEncryptionKey'' ''keyArn''}
     \<and> Lit ''*'' \<notin> set (resources (hd (statementsOf (webhookRole s))))"
proof -
  from test_props_return obtain s
    where s: "SQSStack permissive ''TestStack'' test_sqs_props = Inr s" by blast
  from SQSStack_InrD [OF s] obtain ov :: Duration where
       k: "sqs_queueEncryptionKey permissive test_sqs_props = Inr (queueEncryptionKey s)"
   and oq: "sqs_orderQueue permissive test_sqs_props (queueEncryptionKey s) (orderDLQ s) ov
              = Inr (orderQueue s)"
   and r1: "sqs_webhookRole permissive test_sqs_props (queueEncryptionKey s) (orderQueue s)
              = Inr (webhookRole s)"
    by blast
  have ids: "keyArn (queueEncryptionKey s) = Tok ''QueueEncryptionKey'' ''keyArn''"
       "queueArn (orderQueue s) = Tok ''OrderQueue'' ''queueArn''"
    using sqs_queueEncryptionKey_Inr [OF k] sqs_orderQueue_Inr [OF oq]
    by (simp_all add: keyArn_def queueArn_def)
  have ne: "statementsOf (webhookRole s) \<noteq> []"
    using sqs_webhookRole_Inr [OF r1] by simp
  then have m: "hd (statementsOf (webhookRole s)) \<in> set (statementsOf (webhookRole s))"
    by simp
  from role_statements_scoped [OF s] m have
    "set (resources (hd (statementsOf (webhookRole s))))
         \<subseteq> {queueArn (orderQueue s), keyArn (queueEncryptionKey s)}
     \<and> Lit ''*'' \<notin> set (resources (hd (statementsOf (webhookRole s))))"
    by blast
  with s ne m ids show ?thesis by auto
qed




text \<open>
  C7, as stated, says that all four queues reference the key for every set of properties
  the constructor accepts. With \<open>enableEncryption\<close> set to false the constructor returns
  and none of the four does.
\<close>

theorem queues_unencrypted_counterexample:
  "map encryptionMasterKey
     (queuesOf (graphOf (SQSStack permissive ''TestStack'' unencrypted_props)))
     = [None, None, None, None]"
proof -
  from unencrypted_return obtain s
    where s: "SQSStack permissive ''TestStack'' unencrypted_props = Inr s" by blast
  have "\<not> sqs_enableEncryption unencrypted_props"
    by (simp add: sqs_enableEncryption_def unencrypted_props_def)
  with SQSStack_queue_keys [OF s] show ?thesis
    by (simp add: s graphOf_def numeral_eq_Suc)
qed

text \<open>
  C7, amended. In every stack the constructor returns: when \<open>enableEncryption\<close> is not set
  to false (it is left out or true), all four queues reference the key of the stack as
  their encryption master key; when it is set to false, none of them has an encryption
  master key.
\<close>

theorem queues_encrypted_unless_disabled:
  assumes "SQSStack lib sid p = Inr s"
  shows "(enableEncryption p \<noteq> Some False \<longrightarrow>
      map encryptionMasterKey (queuesOf (children s))
        = replicate 4 (Some (keyId (queueEncryptionKey s))))
   \<and> (enableEncryption p = Some False \<longrightarrow>
      map encryptionMasterKey (queuesOf (children s)) = replicate 4 None)"
  using SQSStack_queue_keys [OF assms]
  by (cases "enableEncryption p") (auto simp add: sqs_enableEncryption_def)

theorem queues_encrypted_unless_disabled_witness:
  "\<exists>s s'. SQSStack permissive ''TestStack'' test_sqs_props = Inr s
     \<and> enableEncryption test_sqs_props \<noteq> Some False
     \<and> map encryptionMasterKey (queuesOf (children s))
        = [Some ''QueueEncryptionKey'', Some ''QueueEncryptionKey'',
           Some ''QueueEncryptionKey'', Some ''QueueEncryptionKey'']
     \<and> SQSStack permissive ''TestStack'' unencrypted_props = Inr s'
     \<and> enableEncryption unencrypted_props = Some False
     \<and> map encryptionMasterKey (queuesOf (children s')) = [None, None, None, None]"
proof -
  from test_props_return obtain s
    where s: "SQSStack permissive ''TestStack'' test_sqs_props = Inr s" by blast
  from unencrypted_return obtain s'
    where s': "SQSStack permissive ''TestStack'' unencrypted_props = Inr s'" by blast
  have e: "enableEncryption test_sqs_props \<noteq> Some False"
    "enableEncryption unencrypted_props = Some False"
    by (simp_all add: test_sqs_props_def unencrypted_props_def)
  have k: "keyId (queueEncryptionKey s) = ''QueueEncryptionKey''"
    using SQSStack_topic [OF s] by simp
  from queues_encrypted_unless_disabled [OF s] queues_encrypted_unless_disabled [OF s'] e k s s' show ?thesis
    by (simp add: numeral_eq_Suc)
qed

text \<open>
  C8. Whatever the properties, every stack the constructor returns has exactly four
  alarms: on the age of the oldest message of the order queue (period 5 minutes, threshold
  900, 2 evaluation periods, missing data left at the default), on the same of the result
  queue (3 minutes, 600, 2, default), on the visible messages of the order dead-letter
  queue (threshold 1, 1 evaluation period, missing data not breaching) and on those of
  the result dead-letter queue (threshold 1, 1 evaluation period, default); the two
  alarms on dead-letter queues have the period the library gives a metric by default, 5
  minutes. Each of the four has the one topic of the stack as its only alarm action and
  as its only OK action.
\<close>

theorem messaging_alarms:
  assumes "SQSStack lib sid p = Inr s"
  shows "map (\<lambda>a. (alarmId a, metricName (metric a), metricOf (metric a), period (metric a),
             threshold a, evaluationPeriods a, treatMissingData a))
     (alarmsOf (children s))
   = [(''OrderQueueAgeAlarm'', ''ApproximateAgeOfOldestMessage'', ''OrderQueue'',
        Minutes 5, 900, 2, None),
      (''ResultQueueAgeAlarm'', ''ApproximateAgeOfOldestMessage'', ''ResultQueue'',
        Minutes 3, 600, 2, None),
      (''OrderDLQAlarm'', ''ApproximateNumberOfMessagesVisible'', ''OrderDLQ'',
        Minutes 5, 1, 1, Some NOT_BREACHING),
      (''ResultDLQAlarm'', ''ApproximateNumberOfMessagesVisible'', ''ResultDLQ'',
        Minutes 5, 1, 1, None)]
   \<and> map alarmActions (alarmsOf (children s))
       = replicate 4 [SnsAction (topicId (queueAlertTopic s))]
   \<and> map okActions (alarmsOf (children s))
       = replicate 4 [SnsAction (topicId (queueAlertTopic s))]
   \<and> topicsOf (children s) = [queueAlertTopic s]"
proof -
  from SQSStack_InrD [OF assms] obtain ov rv :: Duration where
       od: "sqs_orderDLQ lib p (queueEncryptionKey s) = Inr (orderDLQ s)"
   and rd: "sqs_resultDLQ lib p (queueEncryptionKey s) = Inr (resultDLQ s)"
   and oq: "sqs_orderQueue lib p (queueEncryptionKey s) (orderDLQ s) ov = Inr (orderQueue s)"
   and rq: "sqs_resultQueue lib p (queueEncryptionKey s) (resultDLQ s) rv = Inr (resultQueue s)"
    by blast
  have ids: "queueId (orderDLQ s) = ''OrderDLQ''" "queueId (resultDLQ s) = ''ResultDLQ''"
       "queueId (orderQueue s) = ''OrderQueue''" "queueId (resultQueue s) = ''ResultQueue''"
    using sqs_orderDLQ_Inr [OF od] sqs_resultDLQ_Inr [OF rd] sqs_orderQueue_Inr [OF oq]
      sqs_resultQueue_Inr [OF rq] by simp_all
  show ?thesis
    by (simp add: SQSStack_alarmsOf [OF assms] SQSStack_topicsOf [OF assms] wireAlarm_def
          addAlarmAction_def addOkAction_def metricApproximateAgeOfOldestMessage_def
          metricApproximateNumberOfMessagesVisible_def ids numeral_eq_Suc)
qed

theorem messaging_alarms_witness:
  "\<exists>s. SQSStack permissive ''TestStack'' test_sqs_props = Inr s
     \<and> map alarmId (alarmsOf (children s))
         = [''OrderQueueAgeAlarm'', ''ResultQueueAgeAlarm'', ''OrderDLQAlarm'', ''ResultDLQAlarm'']
     \<and> map alarmActions (alarmsOf (children s))
         = [[SnsAction ''QueueAlertTopic''], [SnsAction ''QueueAlertTopic''],
            [SnsAction ''QueueAlertTopic''], [SnsAction ''QueueAlertTopic'']]"
proof -
  from test_props_return obtain s
    where s: "SQSStack permissive ''TestStack'' test_sqs_props = Inr s" by blast
  have "map alarmId (alarmsOf (children s))
         = map fst (map (\<lambda>a. (alarmId a, metricName (metric a), metricOf (metric a),
             period (metric a), threshold a, evaluationPeriods a, treatMissingData a))
             (alarmsOf (children s)))"
    by (simp add: comp_def)
  also have "\<dots> = [''OrderQueueAgeAlarm'', ''ResultQueueAgeAlarm'', ''OrderDLQAlarm'',
      ''ResultDLQAlarm'']"
    using messaging_alarms [OF s] by simp
  finally have ids: "map alarmId (alarmsOf (children s))
         = [''OrderQueueAgeAlarm'', ''ResultQueueAgeAlarm'', ''OrderDLQAlarm'', ''ResultDLQAlarm'']" .
  have t: "topicId (queueAlertTopic s) = ''QueueAlertTopic''"
    using SQSStack_topic [OF s] by simp
  from messaging_alarms [OF s] ids t s show ?thesis by (simp add: numeral_eq_Suc)
qed

text \<open>
  C10. Whatever the properties, in every stack the constructor returns the topic has the
  key of the stack as its master key and is the only topic; setting \<open>enableEncryption\<close>
  to any value leaves the topic as it is; and with \<open>enableEncryption\<close> set to false,
  where no queue has the key, the topic still has it.
\<close>

theorem topic_key_regardless_of_flag:
  assumes "SQSStack lib sid p = Inr s"
  shows "masterKey (queueAlertTopic s) = Some (keyId (queueEncryptionKey s))
   \<and> topicsOf (children s) = [queueAlertTopic s]
   \<and> (\<forall>b s'. SQSStack lib sid (p\<lparr>enableEncryption := b\<rparr>) = Inr s' \<longrightarrow>
         queueAlertTopic s' = queueAlertTopic s)
   \<and> (\<forall>s'. SQSStack lib sid (p\<lparr>enableEncryption := Some False\<rparr>) = Inr s' \<longrightarrow>
         map encryptionMasterKey (queuesOf (children s')) = [None, None, None, None]
         \<and> masterKey (queueAlertTopic s') = Some (keyId (queueEncryptionKey s')))"
proof -
  have t: "queueAlertTopic s' = queueAlertTopic s
      \<and> masterKey (queueAlertTopic s') = Some (keyId (queueEncryptionKey s'))"
    if "SQSStack lib sid (p\<lparr>enableEncryption := b\<rparr>) = Inr s'" for b s'
    using SQSStack_topic [OF that] SQSStack_topic [OF assms] by (simp add: sqs_stackName_def)
  have q: "map encryptionMasterKey (queuesOf (children s')) = [None, None, None, None]"
    if "SQSStack lib sid (p\<lparr>enableEncryption := Some False\<rparr>) = Inr s'" for s'
    using SQSStack_queue_keys [OF that] by (simp add: sqs_enableEncryption_def numeral_eq_Suc)
  have m: "masterKey (queueAlertTopic s) = Some (keyId (queueEncryptionKey s))"
    using SQSStack_topic [OF assms] by simp
  from m SQSStack_topicsOf [OF assms] t q show ?thesis by blast
qed

theorem topic_key_regardless_of_flag_witness:
  "\<exists>s s'. SQSStack permissive ''TestStack'' test_sqs_props = Inr s
     \<and> masterKey (queueAlertTopic s) = Some ''QueueEncryptionKey''
     \<and> SQSStack permissive ''TestStack'' (test_sqs_props\<lparr>enableEncryption := Some False\<rparr>) = Inr s'
     \<and> map encryptionMasterKey (queuesOf (children s')) = [None, None, None, None]
     \<and> masterKey (queueAlertTopic s') = Some ''QueueEncryptionKey''"
proof -
  from test_props_return obtain s
    where s: "SQSStack permissive ''TestStack'' test_sqs_props = Inr s" by blast
  from unencrypted_return obtain s'
    where s': "SQSStack permissive ''TestStack'' (test_sqs_props\<lparr>enableEncryption := Some False\<rparr>)
                 = Inr s'"
    by (auto simp add: unencrypted_props_def)
  have k: "keyId (queueEncryptionKey s) = ''QueueEncryptionKey''"
     "keyId (queueEncryptionKey s') = ''QueueEncryptionKey''"
    using SQSStack_topic [OF s] SQSStack_topic [OF s'] by simp_all
  from topic_key_regardless_of_flag [OF s] s s' k show ?thesis by auto
qed

text \<open>
  C9. The outcome of the constructor of the messaging stack is a function of what it reads
  in its properties: with the same library, two sets of properties that agree on the
  environment of the stack, its description, its tags, the environment and project names,
  and on the encryption flag, the two visibility timeouts and the two receive counts after
  their defaults are filled in, give the same outcome, that is the same error or the same
  stack, with the same names, settings and parameters; so do, in particular, two identical
  sets of properties. The parameter paths of a stack that is returned are the nine
  categories under \<open>/automation/{environment}\<close>. For the script as a whole, two runs
  on the same application context that both end without error build the same application,
  whatever the account variable of the process environment holds.
\<close>

theorem builder_deterministic:
  "(env p = env p' \<and> description p = description p'
      \<and> (case tags p of None \<Rightarrow> [] | Some ts \<Rightarrow> ts) = (case tags p' of None \<Rightarrow> [] | Some ts \<Rightarrow> ts)
      \<and> environment p = environment p' \<and> projectName p = projectName p'
      \<and> (case enableEncryption p of None \<Rightarrow> True | Some b \<Rightarrow> b)
          = (case enableEncryption p' of None \<Rightarrow> True | Some b \<Rightarrow> b)
      \<and> (case Option.bind (orderQueueConfig p) visibilityTimeoutSeconds of Some v \<Rightarrow> v | None \<Rightarrow> 300)
          = (case Option.bind (orderQueueConfig p') visibilityTimeoutSeconds of Some v \<Rightarrow> v | None \<Rightarrow> 300)
      \<and> (case Option.bind (orderQueueConfig p) maxReceiveCount of Some v \<Rightarrow> v | None \<Rightarrow> 3)
          = (case Option.bind (orderQueueConfig p') maxReceiveCount of Some v \<Rightarrow> v | None \<Rightarrow> 3)
      \<and> (case Option.bind (resultQueueConfig p) visibilityTimeoutSeconds of Some v \<Rightarrow> v | None \<Rightarrow> 180)
          = (case Option.bind (resultQueueConfig p') visibilityTimeoutSeconds of Some v \<Rightarrow> v | None \<Rightarrow> 180)
      \<and> (case Option.bind (resultQueueConfig p) maxReceiveCount of Some v \<Rightarrow> v | None \<Rightarrow> 3)
          = (case Option.bind (resultQueueConfig p') maxReceiveCount of Some v \<Rightarrow> v | None \<Rightarrow> 3)
     \<longrightarrow> SQSStack lib sid p = SQSStack lib sid p')
   \<and> (SQSStack lib sid p = Inr s \<longrightarrow>
       map parameterName (parametersOf (children s))
       = map (\<lambda>category. ''/automation/'' @ environment p @ category)
           [''/queues/order/url'', ''/queues/order/arn'', ''/queues/result/url'',
            ''/queues/result/arn'', ''/queues/config'', ''/roles/webhook/arn'',
            ''/roles/worker/arn'', ''/roles/feedback/arn'',
            ''/monitoring/queue-alerts/topic-arn''])
   \<and> (ctx_environment inp = ctx_environment inp' \<and> ctx_ENV_NAME inp = ctx_ENV_NAME inp'
      \<and> ctx_environments inp = ctx_environments inp'
      \<and> ctx_defaultEnvironment inp = ctx_defaultEnvironment inp'
      \<and> fst (main lib inp) = None \<and> fst (main lib inp') = None
     \<longrightarrow> snd (main lib inp) = snd (main lib inp'))"
  using SQSStack_agree [of p p' lib sid] SQSStack_parameterNames [of lib sid p s]
    main_same_context [of inp inp' lib]
  by blast

theorem builder_deterministic_witness:
  "test_sqs_props \<noteq> explicit_sqs_props
   \<and> (\<exists>s. SQSStack permissive ''TestStack'' test_sqs_props = Inr s
          \<and> SQSStack permissive ''TestStack'' explicit_sqs_props = Inr s
          \<and> map parameterName (parametersOf (children s))
              = [''/automation/dev/queues/order/url'', ''/automation/dev/queues/order/arn'',
                 ''/automation/dev/queues/result/url'', ''/automation/dev/queues/result/arn'',
                 ''/automation/dev/queues/config'', ''/automation/dev/roles/webhook/arn'',
                 ''/automation/dev/roles/worker/arn'', ''/automation/dev/roles/feedback/arn'',
                 ''/automation/dev/monitoring/queue-alerts/topic-arn''])
   \<and> AWS_ACCOUNT_ID (example_invocation ''dev'' None)
        \<noteq> AWS_ACCOUNT_ID (example_invocation ''dev'' (Some ''123456789012''))
   \<and> fst (main permissive (example_invocation ''dev'' None)) = None
   \<and> fst (main permissive (example_invocation ''dev'' (Some ''123456789012''))) = None
   \<and> snd (main permissive (example_invocation ''dev'' None))
       = snd (main permissive (example_invocation ''dev'' (Some ''123456789012'')))"
proof -
  from test_props_return obtain s
    where s: "SQSStack permissive ''TestStack'' test_sqs_props = Inr s" by blast
  have acc: "account dev_config = ''123456789012''"
    by (simp add: dev_config_def)
  have f1: "fst (main permissive (example_invocation ''dev'' None)) = None"
    by (simp add: example_main accountCheck_def example_builds)
  have f2: "fst (main permissive (example_invocation ''dev'' (Some ''123456789012''))) = None"
    by (simp add: example_main accountCheck_def entry_account_def acc example_builds)
  have ne: "test_sqs_props \<noteq> explicit_sqs_props"
  proof
    assume "test_sqs_props = explicit_sqs_props"
    then have "tags test_sqs_props = tags explicit_sqs_props" by simp
    then show False by (simp add: explicit_sqs_props_def test_sqs_props_def)
  qed
  have a: "AWS_ACCOUNT_ID (example_invocation ''dev'' None)
        \<noteq> AWS_ACCOUNT_ID (example_invocation ''dev'' (Some ''123456789012''))"
    by (simp add: example_invocation_def)
  have ctx: "ctx_environment (example_invocation ''dev'' None)
               = ctx_environment (example_invocation ''dev'' (Some ''123456789012''))
      \<and> ctx_ENV_NAME (example_invocation ''dev'' None)
               = ctx_ENV_NAME (example_invocation ''dev'' (Some ''123456789012''))
      \<and> ctx_environments (example_invocation ''dev'' None)
               = ctx_environments (example_invocation ''dev'' (Some ''123456789012''))
      \<and> ctx_defaultEnvironment (example_invocation ''dev'' None)
               = ctx_defaultEnvironment (example_invocation ''dev'' (Some ''123456789012''))"
    by (simp add: example_invocation_def)
  have e: "environment test_sqs_props = ''dev''"
    by (simp add: test_sqs_props_def)
  note t = builder_deterministic [of test_sqs_props explicit_sqs_props permissive "''TestStack''" s
             "example_invocation ''dev'' None"
             "example_invocation ''dev'' (Some ''123456789012'')"]
  from t [THEN conjunct1, THEN mp, OF explicit_agrees] s
  have 1: "SQSStack permissive ''TestStack'' explicit_sqs_props = Inr s"
    by simp
  from t [THEN conjunct2, THEN conjunct1, THEN mp, OF s] have 2: "map parameterName (parametersOf (children s))
              = [''/automation/dev/queues/order/url'', ''/automation/dev/queues/order/arn'',
                 ''/automation/dev/queues/result/url'', ''/automation/dev/queues/result/arn'',
                 ''/automation/dev/queues/config'', ''/automation/dev/roles/webhook/arn'',
                 ''/automation/dev/roles/worker/arn'', ''/automation/dev/roles/feedback/arn'',
                 ''/automation/dev/monitoring/queue-alerts/topic-arn'']"
    by (simp add: e)
  from ctx f1 f2 have h: "ctx_environment (example_invocation ''dev'' None)
               = ctx_environment (example_invocation ''dev'' (Some ''123456789012''))
      \<and> ctx_ENV_NAME (example_invocation ''dev'' None)
               = ctx_ENV_NAME (example_invocation ''dev'' (Some ''123456789012''))
      \<and> ctx_environments (example_invocation ''dev'' None)
               = ctx_environments (example_invocation ''dev'' (Some ''123456789012''))
      \<and> ctx_defaultEnvironment (example_invocation ''dev'' None)
               = ctx_defaultEnvironment (example_invocation ''dev'' (Some ''123456789012''))
      \<and> fst (main permissive (example_invocation ''dev'' None)) = None
      \<and> fst (main permissive (example_invocation ''dev'' (Some ''123456789012''))) = None"
    by (intro conjI) (rule ctx [THEN conjunct1] ctx [THEN conjunct2, THEN conjunct1]
          ctx [THEN conjunct2, THEN conjunct2, THEN conjunct1]
          ctx [THEN conjunct2, THEN conjunct2, THEN conjunct2] f1 f2)+
  from t [THEN conjunct2, THEN conjunct2, THEN mp, OF h]
  have 3: "snd (main permissive (example_invocation ''dev'' None))
       = snd (main permissive (example_invocation ''dev'' (Some ''123456789012'')))" .
  have 4: "\<exists>s. SQSStack permissive ''TestStack'' test_sqs_props = Inr s
          \<and> SQSStack permissive ''TestStack'' explicit_sqs_props = Inr s
          \<and> map parameterName (parametersOf (children s))
              = [''/automation/dev/queues/order/url'', ''/automation/dev/queues/order/arn'',
                 ''/automation/dev/queues/result/url'', ''/automation/dev/queues/result/arn'',
                 ''/automation/dev/queues/config'', ''/automation/dev/roles/webhook/arn'',
                 ''/automation/dev/roles/worker/arn'', ''/automation/dev/roles/feedback/arn'',
                 ''/automation/dev/monitoring/queue-alerts/topic-arn'']"
    by (intro exI [of _ s] conjI) (rule s 1 2)+
  show ?thesis
    by (intro conjI) (rule ne 4 a f1 f2 3)+
qed

section \<open>The gateway stack: domain binding\<close>

text \<open>
  C4. A field counts as supplied when it is defined and not empty, as the truthiness test
  of the source has it. In every stack the constructor returns: when both import fields
  are supplied, the stack has no domain resource and no DNS record; when neither is
  supplied, the stack has exactly one domain resource, of security policy TLS 1.2 and
  bound to the given certificate, and it has the DNS alias record exactly when the
  create-record flag, true by default, is true.
\<close>

theorem domain_binding:
  assumes "ApiGatewayStack lib sid p = Inr g"
  shows "(truthy (existingDomainRegionalDomainName p)
      \<and> truthy (existingDomainRegionalHostedZoneId p) \<longrightarrow>
        domainsOf (children g) = []
      \<and> recordsOf (children g) = []
      \<and> dnsRecord g = None)
   \<and> (\<not> truthy (existingDomainRegionalDomainName p)
      \<and> \<not> truthy (existingDomainRegionalHostedZoneId p) \<longrightarrow>
        domainsOf (children g)
          = [\<lparr>domainId = ''CustomDomain'', dn_domainName = domainName p,
              certificate = certificateArn p, endpointType = REGIONAL,
              securityPolicy = TLS_1_2\<rparr>]
      \<and> customDomain g
          = Created \<lparr>domainId = ''CustomDomain'', dn_domainName = domainName p,
              certificate = certificateArn p, endpointType = REGIONAL,
              securityPolicy = TLS_1_2\<rparr>
      \<and> recordsOf (children g)
          = (if (case createDnsRecord p of None \<Rightarrow> True | Some b \<Rightarrow> b)
             then [\<lparr>recordId = ''ApiAliasRecord'', zoneId = hostedZoneId p,
                    zoneName = hostedZoneName p, recordName = domainName p,
                    aliasTarget = ''CustomDomain''\<rparr>]
             else []))"
proof -
  from ApiGatewayStack_InrD [OF assms] have
       d: "gw_customDomain lib p = Inr (customDomain g)"
   and r: "gw_dnsRecord lib p = Inr (dnsRecord g)"
    by blast+
  show ?thesis
    using gw_customDomain_Inr [OF d] gw_dnsRecord_Inr [OF r]
    by (simp add: ApiGatewayStack_domainsOf [OF assms] gw_createDnsRecord_def)
qed

theorem domain_binding_witness:
  "\<exists>g g'. ApiGatewayStack permissive ''TestApiGatewayStack'' test_api_props_imported = Inr g
   \<and> truthy (existingDomainRegionalDomainName test_api_props_imported)
   \<and> truthy (existingDomainRegionalHostedZoneId test_api_props_imported)
   \<and> domainsOf (children g) = []
   \<and> recordsOf (children g) = []
   \<and> ApiGatewayStack permissive ''TestApiGatewayStack'' test_api_props_new = Inr g'
   \<and> \<not> truthy (existingDomainRegionalDomainName test_api_props_new)
   \<and> \<not> truthy (existingDomainRegionalHostedZoneId test_api_props_new)
   \<and> length (domainsOf (children g')) = 1
   \<and> length (recordsOf (children g')) = 1"
proof -
  from ApiGatewayStack_permissive [OF legal_TestApiGatewayStack] obtain g g' where
      g: "ApiGatewayStack permissive ''TestApiGatewayStack'' test_api_props_imported = Inr g"
  and g': "ApiGatewayStack permissive ''TestApiGatewayStack'' test_api_props_new = Inr g'"
    by blast
  have t: "truthy (existingDomainRegionalDomainName test_api_props_imported)"
    "truthy (existingDomainRegionalHostedZoneId test_api_props_imported)"
    "\<not> truthy (existingDomainRegionalDomainName test_api_props_new)"
    "\<not> truthy (existingDomainRegionalHostedZoneId test_api_props_new)"
    "createDnsRecord test_api_props_new = None"
    by (simp_all add: test_api_props_imported_def test_api_props_new_def)
  from domain_binding [OF g] domain_binding [OF g'] t g g' show ?thesis by auto
qed

section \<open>Names\<close>

text \<open>
  C6, as stated, includes the REST API among the resources named
  \<open>{project}-{environment}-{purpose}\<close>. For the project \<open>tg-assistant\<close> and the
  environment \<open>dev\<close> the constructor returns a stack whose REST API is named
  \<open>tg-assistant-telegram-bot-api-dev\<close>, which does not begin with \<open>tg-assistant-dev-\<close>.
\<close>

theorem rest_api_name_counterexample:
  "map (spec_name_pattern ''tg-assistant'' ''dev'')
     (map restApiName
        (restApisOf (graphOf (ApiGatewayStack permissive ''ApiGatewayStack-dev''
                                test_api_props_imported))))
   = [False]"
proof -
  have "\<not> illegalStackId ''ApiGatewayStack-dev''"
    by (simp add: illegalStackId_def legalStackName_def isLetter_def isDigit_def)
  from ApiGatewayStack_permissive [OF this] obtain g where
    g: "ApiGatewayStack permissive ''ApiGatewayStack-dev'' test_api_props_imported = Inr g"
    by blast
  from ApiGatewayStack_InrD [OF g] obtain fn where
    "gw_restApi permissive test_api_props_imported fn = Inr (restApi g)" by blast
  from gw_restApi_Inr [OF this]
  have "restApiName (restApi g) = ''tg-assistant-telegram-bot-api-dev''"
    by (simp add: test_api_props_imported_def test_api_props_new_def)
  then show ?thesis
    by (simp add: g graphOf_def ApiGatewayStack_domainsOf [OF g] spec_name_pattern_def)
qed

text \<open>
  C6, amended. Every queue, role, alarm and topic of a messaging stack the constructor
  returns, and every alarm and topic of a gateway stack it returns, has a name of the form
  \<open>{project}-{environment}-{purpose}\<close>; the REST API is named
  \<open>{project}-telegram-bot-api-{environment}\<close>. In the stacks of the script the project is
  \<open>tg-assistant\<close> and the environment is the environment name of the configuration, and
  when the script ends without error the stacks are identified as
  \<open>DualQueueMessageStack-{environment}\<close> and, when the gateway is built,
  \<open>ApiGatewayStack-{environment}\<close>.
\<close>

theorem resource_names:
  "(SQSStack lib sid p = Inr s \<longrightarrow>
      (\<forall>c \<in> set (children s). \<forall>n. physicalName c = Some n \<longrightarrow>
        spec_name_pattern (projectName p) (environment p) n))
   \<and> (ApiGatewayStack lib sid' q = Inr g \<longrightarrow>
      (\<forall>c \<in> set (children g). \<forall>n. physicalName c = Some n \<longrightarrow>
        (case c of
           RestApiC _ \<Rightarrow> n = api_projectName q @ ''-telegram-bot-api-'' @ api_environment q
         | _ \<Rightarrow> spec_name_pattern (api_projectName q) (api_environment q) n)))
   \<and> (\<forall>st \<in> set (stacks (snd (buildStacks lib (Entry cfg) new_App))).
        \<forall>c \<in> set (childrenOf st). \<forall>n. physicalName c = Some n \<longrightarrow>
          (case c of
             RestApiC _ \<Rightarrow> n = ''tg-assistant-telegram-bot-api-'' @ envName cfg
           | _ \<Rightarrow> spec_name_pattern ''tg-assistant'' (envName cfg) n))
   \<and> (fst (buildStacks lib (Entry cfg) new_App) = None \<longrightarrow>
        map stackIdOf (stacks (snd (buildStacks lib (Entry cfg) new_App)))
          = (''DualQueueMessageStack-'' @ envName cfg)
            # (if gatewayConfigured cfg then [''ApiGatewayStack-'' @ envName cfg] else []))"
proof (intro conjI impI ballI allI)
  fix c n
  assume "SQSStack lib sid p = Inr s" "c \<in> set (children s)" "physicalName c = Some n"
  then show "spec_name_pattern (projectName p) (environment p) n"
    by (rule SQSStack_names)
next
  fix c n
  assume "ApiGatewayStack lib sid' q = Inr g" "c \<in> set (children g)" "physicalName c = Some n"
  then show "case c of
           RestApiC _ \<Rightarrow> n = api_projectName q @ ''-telegram-bot-api-'' @ api_environment q
         | _ \<Rightarrow> spec_name_pattern (api_projectName q) (api_environment q) n"
    by (rule ApiGatewayStack_names)
next
  fix st c n
  assume st: "st \<in> set (stacks (snd (buildStacks lib (Entry cfg) new_App)))"
     and c: "c \<in> set (childrenOf st)" and n: "physicalName c = Some n"
  have cat: "''tg-assistant-telegram-bot-api-'' @ envName cfg
      = ''tg-assistant'' @ ''-telegram-bot-api-'' @ envName cfg"
    by simp
  from buildStacks_stacks [OF st] c
  consider (sqs) s0 s' where "st = SQS s'"
        "SQSStack lib (''DualQueueMessageStack-'' @ envName cfg) (sqsStack_props (Entry cfg))
           = Inr s0" "children s' = children s0"
    | (api) g0 g' where "st = Api g'"
        "ApiGatewayStack lib (''ApiGatewayStack-'' @ envName cfg) (apiGatewayStack_props cfg)
           = Inr g0" "children g' = children g0"
    by (auto simp add: new_App_def)
  then show "case c of
             RestApiC _ \<Rightarrow> n = ''tg-assistant-telegram-bot-api-'' @ envName cfg
           | _ \<Rightarrow> spec_name_pattern ''tg-assistant'' (envName cfg) n"
  proof cases
    case sqs
    with c have c': "c \<in> set (children s0)" by (simp add: childrenOf_def)
    from SQSStack_InrD [OF sqs(2)] have ch: "restApisOf (children s0) = []"
      by (auto simp add: Of_append Of_ParamC)
    have "spec_name_pattern ''tg-assistant'' (envName cfg) n"
      using SQSStack_names [OF sqs(2) c' n]
      by (simp add: sqsStack_props_def entry_envName_def str_def)
    moreover have "\<not> (\<exists>a. c = RestApiC a)"
    proof
      assume "\<exists>a. c = RestApiC a"
      then obtain a where "c = RestApiC a" by blast
      with c' have "RestApiC a \<in> set (children s0)" by simp
      from restApisOf_mem [OF this] ch show False by simp
    qed
    ultimately show ?thesis by (cases c) simp_all
  next
    case api
    with c have c': "c \<in> set (children g0)" by (simp add: childrenOf_def)
    have sel: "api_projectName (apiGatewayStack_props cfg) = ''tg-assistant''"
        "api_environment (apiGatewayStack_props cfg) = envName cfg"
      by (simp_all add: apiGatewayStack_props_def)
    from ApiGatewayStack_names [OF api(2) c' n] show ?thesis
      unfolding cat sel .
  qed
next
  assume "fst (buildStacks lib (Entry cfg) new_App) = None"
  from buildStacks_kinds [OF this]
  show "map stackIdOf (stacks (snd (buildStacks lib (Entry cfg) new_App)))
          = (''DualQueueMessageStack-'' @ envName cfg)
            # (if gatewayConfigured cfg then [''ApiGatewayStack-'' @ envName cfg] else [])"
    by blast
qed

theorem resource_names_witness:
  "\<exists>s. SQSStack permissive ''TestStack'' test_sqs_props = Inr s
     \<and> QueueC (orderQueue s) \<in> set (children s)
     \<and> physicalName (QueueC (orderQueue s)) = Some ''tg-assistant-dev-order''
     \<and> spec_name_pattern (projectName test_sqs_props) (environment test_sqs_props)
          ''tg-assistant-dev-order''
     \<and> fst (buildStacks permissive (Entry prod_config) new_App) = None
     \<and> map stackIdOf (stacks (snd (buildStacks permissive (Entry prod_config) new_App)))
          = [''DualQueueMessageStack-prod'', ''ApiGatewayStack-prod'']"
proof -
  from test_props_return obtain s
    where s: "SQSStack permissive ''TestStack'' test_sqs_props = Inr s" by blast
  from SQSStack_InrD [OF s] obtain ov :: Duration where
       oq: "sqs_orderQueue permissive test_sqs_props (queueEncryptionKey s) (orderDLQ s) ov
              = Inr (orderQueue s)"
   and m: "QueueC (orderQueue s) \<in> set (children s)"
    by auto
  have n: "physicalName (QueueC (orderQueue s)) = Some ''tg-assistant-dev-order''"
    using sqs_orderQueue_Inr [OF oq] by (simp add: test_sqs_props_def)
  note t = resource_names [of permissive "''TestStack''" test_sqs_props s
                "''ApiGatewayStack-prod''" "apiGatewayStack_props prod_config" _
                prod_config]
  from t [THEN conjunct1, THEN mp, OF s, THEN bspec, OF m, THEN spec, THEN mp, OF n]
  have 1: "spec_name_pattern (projectName test_sqs_props) (environment test_sqs_props)
          ''tg-assistant-dev-order''" .
  from t [THEN conjunct2, THEN conjunct2, THEN conjunct2, THEN mp, OF example_builds(2)]
  have 2: "map stackIdOf (stacks (snd (buildStacks permissive (Entry prod_config) new_App)))
          = [''DualQueueMessageStack-prod'', ''ApiGatewayStack-prod'']"
    by (simp add: example_configs)
  show ?thesis
    by (intro exI [of _ s] conjI) (rule s m n 1 2 example_builds(2))+
qed

section \<open>The script: account check and gateway guard\<close>

text \<open>
  C2. Let the registry of environments be given and have an entry for the resolved
  environment name. When the account variable of the process environment is supplied
  (defined and not empty, as the truthiness test of the source has it) and differs from
  the account of that entry, the script throws an error whose message contains both the
  supplied value and the account of the entry, and the application has no stack at that
  point, whatever the library would have done.
\<close>

theorem account_mismatch_fails_first:
  assumes "ctx_environments inp = Some envs"
      and "map_of envs (resolvedEnvName inp) = Some cfg"
      and "AWS_ACCOUNT_ID inp = Some p" and "p \<noteq> []" and "p \<noteq> account cfg"
  shows "\<exists>msg. main lib inp = (Some (Error msg), \<lparr>stacks = []\<rparr>)
           \<and> sublist p msg \<and> sublist (account cfg) msg"
proof -
  let ?msg = "''AWS account mismatch: AWS_ACCOUNT_ID='' @ p
                @ '' does not match CDK context account='' @ account cfg
                @ '' for environment '' @ [CHR 0x27] @ resolvedEnvName inp @ [CHR 0x27] @ ''.''"
  have chk: "accountCheck (AWS_ACCOUNT_ID inp) (Entry cfg) (resolvedEnvName inp)
               = Some (Error ?msg)"
    using assms(3-5) by (simp add: accountCheck_def entry_account_def str_def)
  have m: "main lib inp = (Some (Error ?msg), \<lparr>stacks = []\<rparr>)"
    using main_unfold [OF assms(1,2)] chk by (simp add: new_App_def)
  have s1: "sublist p ?msg"
    by (rule sublist_appendI)
  have "?msg = (''AWS account mismatch: AWS_ACCOUNT_ID='' @ p
                @ '' does not match CDK context account='') @ account cfg
                @ ('' for environment '' @ [CHR 0x27] @ resolvedEnvName inp @ [CHR 0x27] @ ''.'')"
    by simp
  then have s2: "sublist (account cfg) ?msg"
    by (metis sublist_appendI)
  from m s1 s2 show ?thesis by blast
qed

theorem account_mismatch_fails_first_witness:
  "ctx_environments (example_invocation ''dev'' (Some ''999999999999''))
      = Some [(''dev'', dev_config), (''prod'', prod_config), (''import-only'', import_only_config)]
   \<and> AWS_ACCOUNT_ID (example_invocation ''dev'' (Some ''999999999999'')) = Some ''999999999999''
   \<and> ''999999999999'' \<noteq> account dev_config
   \<and> (\<exists>msg. main permissive (example_invocation ''dev'' (Some ''999999999999''))
                = (Some (Error msg), \<lparr>stacks = []\<rparr>)
            \<and> sublist ''999999999999'' msg \<and> sublist ''123456789012'' msg)"
  using account_mismatch_fails_first [of "example_invocation ''dev'' (Some ''999999999999'')"
               "[(''dev'', dev_config), (''prod'', prod_config), (''import-only'', import_only_config)]"
               dev_config "''999999999999''" permissive]
  by (simp add: example_invocation_def resolvedEnvName_def dev_config_def)

text \<open>
  C5, as stated, lets import data stand in for the certificate in a complete domain
  configuration. A configuration with import data, hosted-zone data and a domain name but
  no certificate is complete in that sense; the script runs without error on it and
  builds the messaging stack only.
\<close>

theorem gateway_guard_counterexample:
  "spec_complete_domain_configuration import_only_config
   \<and> fst (main permissive (example_invocation ''import-only'' None)) = None
   \<and> map isGateway (stacks (snd (main permissive (example_invocation ''import-only'' None))))
       = [False]"
  using buildStacks_kinds [OF example_builds(3)]
  by (simp add: example_main accountCheck_def example_configs example_builds)

text \<open>
  C5, amended. Let the script pass its checks on an entry of the registry. Then it starts
  the messaging stack first in every case. When it ends without error, it has built the
  messaging stack, and it has built the gateway stack after it exactly when the
  certificate reference, the hosted-zone identifier, the hosted-zone name and the domain
  name of the configuration are all supplied (defined and not empty); import data neither
  stands in for the certificate nor is required. The absence of one of the four raises no
  error: the script ends without error exactly when the library goes through with the
  messaging stack, with its two tags and, if the four are supplied, with the gateway
  stack; every error after the checks is a call the library rejected, as it does the
  stack identifier of an environment name with an underscore. A configuration for which
  the gateway is built is complete in the sense of the specification.
\<close>

theorem gateway_iff_guard:
  assumes "ctx_environments inp = Some envs"
      and "map_of envs (resolvedEnvName inp) = Some cfg"
      and "\<not> (truthy (AWS_ACCOUNT_ID inp) \<and> AWS_ACCOUNT_ID inp \<noteq> Some (account cfg))"
  shows "(fst (main lib inp) = None \<longrightarrow>
            map isGateway (stacks (snd (main lib inp)))
              = False # (if truthy (cfg_certificateArn cfg) \<and> truthy (cfg_hostedZoneId cfg)
                            \<and> truthy (cfg_hostedZoneName cfg) \<and> truthy (cfg_domainName cfg)
                         then [True] else [])
            \<and> list_all isFinished (stacks (snd (main lib inp))))
     \<and> ((fst (main lib inp) = None) =
          ((\<exists>s. SQSStack lib (''DualQueueMessageStack-'' @ envName cfg)
                   (sqsStack_props (Entry cfg)) = Inr s)
           \<and> lib (Call_Tag ''app'' (Some ''telegram-webhook''))
           \<and> lib (Call_Tag ''env'' (Some (envName cfg)))
           \<and> (truthy (cfg_certificateArn cfg) \<and> truthy (cfg_hostedZoneId cfg)
                \<and> truthy (cfg_hostedZoneName cfg) \<and> truthy (cfg_domainName cfg)
              \<longrightarrow> (\<exists>g. ApiGatewayStack lib (''ApiGatewayStack-'' @ envName cfg)
                          (apiGatewayStack_props cfg) = Inr g))))
     \<and> (\<forall>e. fst (main lib inp) = Some e \<longrightarrow> (\<exists>c. e = Rejected c))
     \<and> (\<exists>st rest. stacks (snd (main lib inp)) = st # rest
           \<and> stackIdOf st = ''DualQueueMessageStack-'' @ envName cfg \<and> \<not> isGateway st)
     \<and> (truthy (cfg_certificateArn cfg) \<and> truthy (cfg_hostedZoneId cfg)
          \<and> truthy (cfg_hostedZoneName cfg) \<and> truthy (cfg_domainName cfg)
        \<longrightarrow> spec_complete_domain_configuration cfg)"
proof -
  have m: "main lib inp = buildStacks lib (Entry cfg) new_App"
    using main_unfold [OF assms(1,2)] accountCheck_passes [OF assms(3)] by simp
  have 1: "fst (main lib inp) = None \<longrightarrow>
            map isGateway (stacks (snd (main lib inp)))
              = False # (if gatewayConfigured cfg then [True] else [])
            \<and> list_all isFinished (stacks (snd (main lib inp)))"
    unfolding m using buildStacks_kinds [of lib cfg] by blast
  have 2: "(fst (main lib inp) = None) =
          ((\<exists>s. SQSStack lib (''DualQueueMessageStack-'' @ envName cfg)
                   (sqsStack_props (Entry cfg)) = Inr s)
           \<and> lib (Call_Tag ''app'' (Some ''telegram-webhook''))
           \<and> lib (Call_Tag ''env'' (Some (envName cfg)))
           \<and> (gatewayConfigured cfg
              \<longrightarrow> (\<exists>g. ApiGatewayStack lib (''ApiGatewayStack-'' @ envName cfg)
                          (apiGatewayStack_props cfg) = Inr g)))"
    unfolding m by (rule buildStacks_None_iff)
  have 3: "\<forall>e. fst (main lib inp) = Some e \<longrightarrow> (\<exists>c. e = Rejected c)"
    unfolding m using buildStacks_error by blast
  have 4: "\<exists>st rest. stacks (snd (main lib inp)) = st # rest
           \<and> stackIdOf st = ''DualQueueMessageStack-'' @ envName cfg \<and> \<not> isGateway st"
    unfolding m using buildStacks_first [of lib cfg new_App] by (simp add: new_App_def)
  have 5: "gatewayConfigured cfg \<longrightarrow> spec_complete_domain_configuration cfg"
    by (simp add: gatewayConfigured_def spec_complete_domain_configuration_def)
  from 1 2 3 4 5 show ?thesis
    unfolding gatewayConfigured_def by blast
qed

theorem gateway_iff_guard_witness:
  "ctx_environments (example_invocation ''prod'' (Some ''123456789012''))
      = Some [(''dev'', dev_config), (''prod'', prod_config), (''import-only'', import_only_config)]
   \<and> fst (main permissive (example_invocation ''prod'' (Some ''123456789012''))) = None
   \<and> map isGateway
        (stacks (snd (main permissive (example_invocation ''prod'' (Some ''123456789012'')))))
       = [False, True]
   \<and> fst (main permissive (example_invocation ''dev'' None)) = None
   \<and> map isGateway (stacks (snd (main permissive (example_invocation ''dev'' None)))) = [False]
   \<and> (\<exists>c. fst (main permissive underscore_invocation) = Some (Rejected c))"
proof -
  have acc: "account prod_config = ''123456789012''"
    by (simp add: prod_config_def)
  have f: "fst (main permissive (example_invocation ''prod'' (Some ''123456789012''))) = None"
     "fst (main permissive (example_invocation ''dev'' None)) = None"
    by (simp_all add: example_main accountCheck_def entry_account_def example_builds acc)
  have u: "fst (main permissive underscore_invocation) \<noteq> None"
    using underscore_environment_rejected by blast
  have h: "ctx_environments (example_invocation ''prod'' (Some ''123456789012''))
      = Some [(''dev'', dev_config), (''prod'', prod_config), (''import-only'', import_only_config)]"
     "ctx_environments (example_invocation ''dev'' None)
      = Some [(''dev'', dev_config), (''prod'', prod_config), (''import-only'', import_only_config)]"
     "ctx_environments underscore_invocation
      = Some [(''my_env'', dev_config\<lparr>envName := ''my_env''\<rparr>)]"
     "resolvedEnvName (example_invocation ''prod'' (Some ''123456789012'')) = ''prod''"
     "resolvedEnvName (example_invocation ''dev'' None) = ''dev''"
     "resolvedEnvName underscore_invocation = ''my_env''"
     "AWS_ACCOUNT_ID (example_invocation ''prod'' (Some ''123456789012'')) = Some (account prod_config)"
     "AWS_ACCOUNT_ID (example_invocation ''dev'' None) = None"
     "AWS_ACCOUNT_ID underscore_invocation = None"
    by (simp_all add: example_invocation_def underscore_invocation_def resolvedEnvName_def
          acc)
  have t: "truthy (cfg_certificateArn prod_config) \<and> truthy (cfg_hostedZoneId prod_config)
            \<and> truthy (cfg_hostedZoneName prod_config) \<and> truthy (cfg_domainName prod_config)"
     "\<not> (truthy (cfg_certificateArn dev_config) \<and> truthy (cfg_hostedZoneId dev_config)
            \<and> truthy (cfg_hostedZoneName dev_config) \<and> truthy (cfg_domainName dev_config))"
    using example_configs by (simp_all add: gatewayConfigured_def)
  from gateway_iff_guard [of "example_invocation ''prod'' (Some ''123456789012'')"
               "[(''dev'', dev_config), (''prod'', prod_config), (''import-only'', import_only_config)]"
               prod_config permissive]
  have a: "map isGateway
        (stacks (snd (main permissive (example_invocation ''prod'' (Some ''123456789012'')))))
       = [False, True]"
    using f(1) t(1) by (simp add: h)
  from gateway_iff_guard [of "example_invocation ''dev'' None"
               "[(''dev'', dev_config), (''prod'', prod_config), (''import-only'', import_only_config)]"
               dev_config permissive]
  have b: "map isGateway (stacks (snd (main permissive (example_invocation ''dev'' None))))
             = [False]"
    using f(2) t(2) by (simp add: h)
  from gateway_iff_guard [of underscore_invocation "[(''my_env'', dev_config\<lparr>envName := ''my_env''\<rparr>)]"
               "dev_config\<lparr>envName := ''my_env''\<rparr>" permissive]
  have c: "\<exists>c. fst (main permissive underscore_invocation) = Some (Rejected c)"
    using u by (simp add: h) blast
  from a b c f h(1) show ?thesis by blast
qed

end
